theory Spec2Isabelle
  imports Main "HOL-Library.Word" "HOL-Library.AList"
begin

section \<open>Values, errors and diagnostics shared by the resources\<close>

text \<open>
  A value of the plugin framework (\<open>types.String\<close>, \<open>types.Int64\<close>, \<open>types.Bool\<close>,
  \<open>types.List\<close>, \<open>types.Set\<close>, ...) is null, unknown or known. \<open>IsNull\<close> holds of the
  null value only; the \<open>Value...\<close> accessors return the zero value of the Go type for a
  null or unknown value.
\<close>

datatype 'a tfvalue = Null | Unknown | Known 'a

fun IsNull :: "'a tfvalue \<Rightarrow> bool" where
  "IsNull Null = True"
| "IsNull Unknown = False"
| "IsNull (Known v) = False"

fun ValueString :: "string tfvalue \<Rightarrow> string" where
  "ValueString (Known s) = s"
| "ValueString Null = ''''"
| "ValueString Unknown = ''''"

fun ValueStringPointer :: "string tfvalue \<Rightarrow> string option" where
  "ValueStringPointer (Known s) = Some s"
| "ValueStringPointer Null = None"
| "ValueStringPointer Unknown = Some ''''"

fun ValueBool :: "bool tfvalue \<Rightarrow> bool" where
  "ValueBool (Known b) = b"
| "ValueBool Null = False"
| "ValueBool Unknown = False"

text \<open>Go's \<open>int64\<close> and \<open>int32\<close>; the conversion \<open>int32(v)\<close> keeps the low 32 bits.\<close>

type_synonym int64 = "64 word"
type_synonym int32 = "32 word"

fun ValueInt64 :: "int64 tfvalue \<Rightarrow> int64" where
  "ValueInt64 (Known n) = n"
| "ValueInt64 Null = 0"
| "ValueInt64 Unknown = 0"

definition to_int32 :: "int64 \<Rightarrow> int32" where
  "to_int32 v = ucast v"

text \<open>
  Errors: an error of the remote API with its code and message, the not-found error of
  \<open>retry.NotFoundError\<close> with the error it wraps, and the two result-count errors of
  \<open>tfresource\<close>.
\<close>

datatype error =
    APIError string string
  | NotFoundError "error option"
  | EmptyResultError
  | TooManyResultsError nat

text \<open>
  Modelled from the spec: \<open>tfresource.NotFound\<close> and \<open>errs.IsA\<close> are not among the
  source files. The lookup "reports not-found" for a \<open>retry.NotFoundError\<close> and for the
  result-count errors; \<open>errs.IsA[*awstypes.ResourceNotFoundException]\<close> holds of an API
  error with that code, and of no nil error.
\<close>

fun NotFound :: "error option \<Rightarrow> bool" where
  "NotFound None = False"
| "NotFound (Some (NotFoundError _)) = True"
| "NotFound (Some EmptyResultError) = True"
| "NotFound (Some (TooManyResultsError _)) = True"
| "NotFound (Some (APIError _ _)) = False"

fun IsA_ResourceNotFoundException :: "error option \<Rightarrow> bool" where
  "IsA_ResourceNotFoundException (Some (APIError code _)) = (code = ''ResourceNotFoundException'')"
| "IsA_ResourceNotFoundException _ = False"

text \<open>
  Diagnostics. \<open>AddError\<close> of the source takes the summary built by
  \<open>create.ProblemStandardMessage\<close> and a detail text; both are kept symbolic. The
  framework's own diagnostics (decoding a plan or state, converting elements, building
  an object value) carry a severity and a text.
\<close>

datatype service = OpenSearch | SecurityHub

datatype action =
  ErrActionCreating | ErrActionReading | ErrActionUpdating | ErrActionDeleting | ErrActionSetting

datatype detail = ErrorText error | EmptyOutput

datatype diagnostic =
    ErrorDiagnostic service action string "string tfvalue" "error option" detail
  | FrameworkError string
  | FrameworkWarning string

fun is_error :: "diagnostic \<Rightarrow> bool" where
  "is_error (ErrorDiagnostic _ _ _ _ _ _) = True"
| "is_error (FrameworkError _) = True"
| "is_error (FrameworkWarning _) = False"

definition HasError :: "diagnostic list \<Rightarrow> bool" where
  "HasError ds = list_ex is_error ds"

text \<open>
  The response of a lifecycle method: its diagnostics and the persisted state
  (\<open>None\<close>: no state, the resource is removed).
\<close>

record 's response =
  Diagnostics :: "diagnostic list"
  State :: "'s option"

definition Append :: "diagnostic list \<Rightarrow> 's response \<Rightarrow> 's response" where
  "Append ds resp = resp\<lparr>Diagnostics := Diagnostics resp @ ds\<rparr>"

definition AddError ::
  "service \<Rightarrow> action \<Rightarrow> string \<Rightarrow> string tfvalue \<Rightarrow> error option \<Rightarrow> detail
    \<Rightarrow> 's response \<Rightarrow> 's response" where
  "AddError sv ac res ident err dt resp =
     resp\<lparr>Diagnostics := Diagnostics resp @ [ErrorDiagnostic sv ac res ident err dt]\<rparr>"

definition State_Set :: "'s \<Rightarrow> 's response \<Rightarrow> 's response" where
  "State_Set v resp = resp\<lparr>State := Some v\<rparr>"

definition State_RemoveResource :: "'s response \<Rightarrow> 's response" where
  "State_RemoveResource resp = resp\<lparr>State := None\<rparr>"

section \<open>OpenSearch: authorize VPC endpoint access\<close>

record authorizedPrincipalData =
  Principal :: "string tfvalue"
  PrincipalType :: "string tfvalue"

record resourceAuthorizeVpcEndpointAccessData =
  Account :: "string tfvalue"
  DomainName :: "string tfvalue"
  AuthorizedPrincipal :: "authorizedPrincipalData list tfvalue"

record AuthorizedPrincipal =
  Principal :: "string option"
  PrincipalType :: string

record AuthorizeVpcEndpointAccessInput =
  Account :: "string option"
  DomainName :: "string option"

record AuthorizeVpcEndpointAccessOutput =
  AuthorizedPrincipal :: "AuthorizedPrincipal option"

record RevokeVpcEndpointAccessInput =
  Account :: "string option"
  DomainName :: "string option"

record ListVpcEndpointAccessInput =
  DomainName :: "string option"
  NextToken :: "string option"

record ListVpcEndpointAccessOutput =
  AuthorizedPrincipalList :: "AuthorizedPrincipal list"
  NextToken :: "string option"

text \<open>
  The client: each operation answers a request with an error or an output (a nil
  output with a nil error is \<open>Inr None\<close>). The paginated list operation answers with
  the sequence of its pages, each retrieved or failed.
\<close>

type_synonym page_result = "error + ListVpcEndpointAccessOutput option"

record opensearch_Client =
  AuthorizeVpcEndpointAccess ::
    "AuthorizeVpcEndpointAccessInput \<Rightarrow> error + AuthorizeVpcEndpointAccessOutput option"
  RevokeVpcEndpointAccess :: "RevokeVpcEndpointAccessInput \<Rightarrow> error option"
  ListVpcEndpointAccess :: "ListVpcEndpointAccessInput \<Rightarrow> page_result list"

text \<open>
  Modelled from the spec: the generated pager \<open>listVPCEndpointAccessPages\<close> is not among
  the source files. It hands every page produced by the paginated call to the callback,
  in page order, with the flag that marks the last page; it stops when the callback
  returns false, and returns the error when retrieving a page fails. The callback's
  captured variable is threaded as the state \<open>s\<close>.
\<close>

fun listVPCEndpointAccessPages ::
  "page_result list \<Rightarrow> (ListVpcEndpointAccessOutput option \<Rightarrow> bool \<Rightarrow> 's \<Rightarrow> bool \<times> 's)
    \<Rightarrow> 's \<Rightarrow> error option \<times> 's" where
  "listVPCEndpointAccessPages [] fn s = (None, s)"
| "listVPCEndpointAccessPages (Inl e # rest) fn s = (Some e, s)"
| "listVPCEndpointAccessPages (Inr page # rest) fn s =
     (case fn page (rest = []) s of
        (True, s') \<Rightarrow> listVPCEndpointAccessPages rest fn s'
      | (False, s') \<Rightarrow> (None, s'))"

text \<open>
  Modelled from the spec: \<open>tfresource.AssertSingleValueResult\<close> is not among the source
  files. It succeeds with the element of a one-element list, and fails on any other.
\<close>

fun AssertSingleValueResult :: "'a list \<Rightarrow> error + 'a" where
  "AssertSingleValueResult [] = Inl EmptyResultError"
| "AssertSingleValueResult [x] = Inr x"
| "AssertSingleValueResult (x # y # zs) = Inl (TooManyResultsError (length (x # y # zs)))"

text \<open>The callback of \<open>findAuthorizeVpcEndpointAccesses\<close>, with \<open>output\<close> as its state.\<close>

definition accesses_page ::
  "ListVpcEndpointAccessOutput option \<Rightarrow> bool \<Rightarrow> AuthorizedPrincipal list
    \<Rightarrow> bool \<times> AuthorizedPrincipal list" where
  "accesses_page page lastPage output =
     (case page of
        None \<Rightarrow> (\<not> lastPage, output)
      | Some p \<Rightarrow> (\<not> lastPage, output @ AuthorizedPrincipalList p))"

definition findAuthorizeVpcEndpointAccesses ::
  "opensearch_Client \<Rightarrow> ListVpcEndpointAccessInput \<Rightarrow> error + AuthorizedPrincipal list" where
  "findAuthorizeVpcEndpointAccesses conn input =
     (case listVPCEndpointAccessPages (ListVpcEndpointAccess conn input) accesses_page [] of
        (Some err, output) \<Rightarrow> Inl err
      | (None, output) \<Rightarrow> Inr output)"

definition findAuthorizeVpcEndpointAccess ::
  "opensearch_Client \<Rightarrow> ListVpcEndpointAccessInput \<Rightarrow> error + AuthorizedPrincipal" where
  "findAuthorizeVpcEndpointAccess conn input =
     (case findAuthorizeVpcEndpointAccesses conn input of
        Inl err \<Rightarrow> Inl err
      | Inr output \<Rightarrow> AssertSingleValueResult output)"

definition findAuthorizeVpcEndpointAccessByName ::
  "opensearch_Client \<Rightarrow> string \<Rightarrow> error + AuthorizedPrincipal" where
  "findAuthorizeVpcEndpointAccessByName conn domainName =
     findAuthorizeVpcEndpointAccess conn
       \<lparr>ListVpcEndpointAccessInput.DomainName = Some domainName,
        ListVpcEndpointAccessInput.NextToken = None\<rparr>"

text \<open>The principals of a page; a nil page has none.\<close>

definition page_principals :: "ListVpcEndpointAccessOutput option \<Rightarrow> AuthorizedPrincipal list" where
  "page_principals page = (case page of None \<Rightarrow> [] | Some p \<Rightarrow> AuthorizedPrincipalList p)"

text \<open>
  The reflective converters \<open>flex.Expand\<close> and \<open>fwflex.Flatten\<close> are not among the source
  files; they are taken as parameters. Each returns its diagnostics and the target it
  filled in.
\<close>

record autoflex =
  flex_Expand ::
    "resourceAuthorizeVpcEndpointAccessData \<Rightarrow> AuthorizeVpcEndpointAccessInput
      \<Rightarrow> diagnostic list \<times> AuthorizeVpcEndpointAccessInput"
  flex_Flatten_Output ::
    "AuthorizeVpcEndpointAccessOutput \<Rightarrow> resourceAuthorizeVpcEndpointAccessData
      \<Rightarrow> diagnostic list \<times> resourceAuthorizeVpcEndpointAccessData"
  flex_Flatten_Principal ::
    "AuthorizedPrincipal \<Rightarrow> resourceAuthorizeVpcEndpointAccessData
      \<Rightarrow> diagnostic list \<times> resourceAuthorizeVpcEndpointAccessData"

definition ResNameAuthorizeVpcEndpointAccess :: string where
  "ResNameAuthorizeVpcEndpointAccess = ''Authorize Vpc Endpoint Access''"

datatype opensearch_call =
    CallAuthorizeVpcEndpointAccess AuthorizeVpcEndpointAccessInput
  | CallListVpcEndpointAccess ListVpcEndpointAccessInput
  | CallRevokeVpcEndpointAccess RevokeVpcEndpointAccessInput

text \<open>
  The lifecycle methods take the decoded plan or prior state (the diagnostics and the
  value that \<open>req.Plan.Get\<close> or \<open>req.State.Get\<close> produce) and the response as the
  framework hands it over, and return the response as the method leaves it together with
  the calls made on the client, in order.
\<close>

definition resourceAuthorizeVpcEndpointAccess_Create ::
  "autoflex \<Rightarrow> opensearch_Client \<Rightarrow> diagnostic list \<times> resourceAuthorizeVpcEndpointAccessData
    \<Rightarrow> resourceAuthorizeVpcEndpointAccessData response
    \<Rightarrow> resourceAuthorizeVpcEndpointAccessData response \<times> opensearch_call list" where
  "resourceAuthorizeVpcEndpointAccess_Create fx conn req resp0 =
     (let plan = snd req;
          resp1 = Append (fst req) resp0
      in if HasError (Diagnostics resp1) then (resp1, [])
      else
        let in0 = \<lparr>AuthorizeVpcEndpointAccessInput.Account =
                      ValueStringPointer (resourceAuthorizeVpcEndpointAccessData.Account plan),
                   AuthorizeVpcEndpointAccessInput.DomainName =
                      ValueStringPointer (resourceAuthorizeVpcEndpointAccessData.DomainName plan)\<rparr>;
            ex = flex_Expand fx plan in0;
            in1 = snd ex;
            resp2 = Append (fst ex) resp1
        in if HasError (Diagnostics resp2) then (resp2, [])
        else
          (case AuthorizeVpcEndpointAccess conn in1 of
             Inl err \<Rightarrow>
               (AddError OpenSearch ErrActionCreating ResNameAuthorizeVpcEndpointAccess
                  (resourceAuthorizeVpcEndpointAccessData.DomainName plan) (Some err) (ErrorText err)
                  resp2,
                [CallAuthorizeVpcEndpointAccess in1])
           | Inr None \<Rightarrow>
               (AddError OpenSearch ErrActionCreating ResNameAuthorizeVpcEndpointAccess
                  (resourceAuthorizeVpcEndpointAccessData.DomainName plan) None EmptyOutput resp2,
                [CallAuthorizeVpcEndpointAccess in1])
           | Inr (Some out) \<Rightarrow>
               if AuthorizeVpcEndpointAccessOutput.AuthorizedPrincipal out = None then
                 (AddError OpenSearch ErrActionCreating ResNameAuthorizeVpcEndpointAccess
                    (resourceAuthorizeVpcEndpointAccessData.DomainName plan) None EmptyOutput resp2,
                  [CallAuthorizeVpcEndpointAccess in1])
               else
                 let fl = flex_Flatten_Output fx out plan;
                     resp3 = Append (fst fl) resp2
                 in if HasError (Diagnostics resp3) then (resp3, [CallAuthorizeVpcEndpointAccess in1])
                    else (State_Set (snd fl) resp3, [CallAuthorizeVpcEndpointAccess in1])))"

definition resourceAuthorizeVpcEndpointAccess_Read ::
  "autoflex \<Rightarrow> opensearch_Client \<Rightarrow> diagnostic list \<times> resourceAuthorizeVpcEndpointAccessData
    \<Rightarrow> resourceAuthorizeVpcEndpointAccessData response
    \<Rightarrow> resourceAuthorizeVpcEndpointAccessData response \<times> opensearch_call list" where
  "resourceAuthorizeVpcEndpointAccess_Read fx conn req resp0 =
     (let state = snd req;
          resp1 = Append (fst req) resp0
      in if HasError (Diagnostics resp1) then (resp1, [])
      else
        let domainName = ValueString (resourceAuthorizeVpcEndpointAccessData.DomainName state);
            calls = [CallListVpcEndpointAccess
                       \<lparr>ListVpcEndpointAccessInput.DomainName = Some domainName,
                        ListVpcEndpointAccessInput.NextToken = None\<rparr>]
        in (case findAuthorizeVpcEndpointAccessByName conn domainName of
              Inl err \<Rightarrow>
                if NotFound (Some err) then (State_RemoveResource resp1, calls)
                else (AddError OpenSearch ErrActionSetting ResNameAuthorizeVpcEndpointAccess
                        (resourceAuthorizeVpcEndpointAccessData.DomainName state) (Some err)
                        (ErrorText err) resp1,
                      calls)
            | Inr out \<Rightarrow>
                if NotFound None then (State_RemoveResource resp1, calls)
                else
                  let fl = flex_Flatten_Principal fx out state;
                      resp2 = Append (fst fl) resp1
                  in if HasError (Diagnostics resp2) then (resp2, calls)
                     else (State_Set (snd fl) resp2, calls)))"

definition resourceAuthorizeVpcEndpointAccess_Delete ::
  "opensearch_Client \<Rightarrow> diagnostic list \<times> resourceAuthorizeVpcEndpointAccessData
    \<Rightarrow> resourceAuthorizeVpcEndpointAccessData response
    \<Rightarrow> resourceAuthorizeVpcEndpointAccessData response \<times> opensearch_call list" where
  "resourceAuthorizeVpcEndpointAccess_Delete conn req resp0 =
     (let state = snd req;
          resp1 = Append (fst req) resp0
      in if HasError (Diagnostics resp1) then (resp1, [])
      else
        let in0 = \<lparr>RevokeVpcEndpointAccessInput.Account =
                      Some (ValueString (resourceAuthorizeVpcEndpointAccessData.Account state)),
                   RevokeVpcEndpointAccessInput.DomainName =
                      Some (ValueString (resourceAuthorizeVpcEndpointAccessData.DomainName state))\<rparr>
        in (case RevokeVpcEndpointAccess conn in0 of
              None \<Rightarrow> (resp1, [CallRevokeVpcEndpointAccess in0])
            | Some err \<Rightarrow>
                if IsA_ResourceNotFoundException (Some err)
                then (resp1, [CallRevokeVpcEndpointAccess in0])
                else (AddError OpenSearch ErrActionDeleting ResNameAuthorizeVpcEndpointAccess
                        (resourceAuthorizeVpcEndpointAccessData.DomainName state) (Some err)
                        (ErrorText err) resp1,
                      [CallRevokeVpcEndpointAccess in0])))"

section \<open>Security Hub: automation rule\<close>

subsection \<open>Configuration-side data\<close>

text \<open>
  A \<open>float64\<close> is kept as its 64 bits: the values are only ever copied. A list, set
  or map value of the framework holds element values, each itself null, unknown or
  known; a set is kept as the list of its elements.
\<close>

datatype float64 = Float64bits "64 word"

type_synonym 'a tflist = "'a tfvalue list tfvalue"
type_synonym 'a tfmap = "(string \<times> 'a tfvalue) list tfvalue"

record noteData =
  Text :: "string tfvalue"
  UpdatedBy :: "string tfvalue"

record relatedFindingsData =
  Id :: "string tfvalue"
  ProductARN :: "string tfvalue"

record severityData =
  Label :: "string tfvalue"
  Product :: "float64 tfvalue"

record workflowData =
  Status :: "string tfvalue"

record findingFieldsUpdateData =
  Confidence :: "int64 tfvalue"
  Criticality :: "int64 tfvalue"
  Note :: "noteData tflist"
  RelatedFindings :: "relatedFindingsData tflist"
  Severity :: "severityData tflist"
  Types :: "string tflist"
  UserDefinedFields :: "string tfmap"
  VerificationState :: "string tfvalue"
  Workflow :: "workflowData tflist"

record actionsData =
  FindingFieldsUpdate :: "findingFieldsUpdateData tflist"
  Type :: "string tfvalue"

record dateRangeData =
  Unit :: "string tfvalue"
  Value :: "int64 tfvalue"

record dateFilterData =
  DateRange :: "dateRangeData tflist"
  End :: "string tfvalue"
  Start :: "string tfvalue"

record stringFilterData =
  Comparison :: "string tfvalue"
  Value :: "string tfvalue"

record numberFilterData =
  Eq :: "float64 tfvalue"
  Gte :: "float64 tfvalue"
  Lte :: "float64 tfvalue"

record mapFilterData =
  Comparison :: "string tfvalue"
  Key :: "string tfvalue"
  Value :: "string tfvalue"
record criteriaData =
  AWSAccountId :: "stringFilterData tflist"
  AWSAccountName :: "stringFilterData tflist"
  CompanyName :: "stringFilterData tflist"
  ComplianceAssociatedStandardsId :: "stringFilterData tflist"
  ComplianceSecurityControlId :: "stringFilterData tflist"
  ComplianceStatus :: "stringFilterData tflist"
  Confidence :: "numberFilterData tflist"
  CreatedAt :: "dateFilterData tflist"
  Criticality :: "numberFilterData tflist"
  Description :: "stringFilterData tflist"
  FirstObservedAt :: "dateFilterData tflist"
  GeneratorId :: "stringFilterData tflist"
  Id :: "stringFilterData tflist"
  LastObservedAt :: "dateFilterData tflist"
  NoteText :: "stringFilterData tflist"
  NoteUpdatedAt :: "dateFilterData tflist"
  NoteUpdatedBy :: "stringFilterData tflist"
  ProductARN :: "stringFilterData tflist"
  ProductName :: "stringFilterData tflist"
  RecordState :: "stringFilterData tflist"
  RelatedFindingsId :: "stringFilterData tflist"
  RelatedFindingsProductArn :: "stringFilterData tflist"
  ResourceApplicationArn :: "stringFilterData tflist"
  ResourceApplicationName :: "stringFilterData tflist"
  ResourceDetailsOther :: "mapFilterData tflist"
  ResourceId :: "stringFilterData tflist"
  ResourcePartition :: "stringFilterData tflist"
  ResourceRegion :: "stringFilterData tflist"
  ResourceTags :: "mapFilterData tflist"
  ResourceType :: "stringFilterData tflist"
  SeverityLabel :: "stringFilterData tflist"
  SourceUrl :: "stringFilterData tflist"
  Title :: "stringFilterData tflist"
  Type :: "stringFilterData tflist"
  UpdatedAt :: "dateFilterData tflist"
  UserDefinedFields :: "mapFilterData tflist"
  VerificationState :: "stringFilterData tflist"
  WorkflowStatus :: "stringFilterData tflist"

record automationRuleResourceModel =
  Actions :: "actionsData tflist"
  ARN :: "string tfvalue"
  Criteria :: "criteriaData tflist"
  Description :: "string tfvalue"
  ID :: "string tfvalue"
  IsTerminal :: "bool tfvalue"
  RuleName :: "string tfvalue"
  RuleOrder :: "int64 tfvalue"
  RuleStatus :: "string tfvalue"
  Tags :: "string tfmap"
  TagsAll :: "string tfmap"

subsection \<open>API-side data\<close>

text \<open>A Go slice or map is \<open>None\<close> when nil; a pointer field is \<open>None\<close> when nil.\<close>

type_synonym 'a slice = "'a list option"

definition len :: "'a slice \<Rightarrow> nat" where
  "len s = (case s of None \<Rightarrow> 0 | Some xs \<Rightarrow> length xs)"

record NoteUpdate =
  Text :: "string option"
  UpdatedBy :: "string option"

record RelatedFinding =
  Id :: "string option"
  ProductArn :: "string option"

record SeverityUpdate =
  Label :: string
  Product :: "float64 option"

record WorkflowUpdate =
  Status :: string

record AutomationRulesFindingFieldsUpdate =
  Confidence :: "int32 option"
  Criticality :: "int32 option"
  Note :: "NoteUpdate option"
  RelatedFindings :: "RelatedFinding slice"
  Severity :: "SeverityUpdate option"
  Types :: "string slice"
  UserDefinedFields :: "(string \<times> string) list option"
  VerificationState :: string
  Workflow :: "WorkflowUpdate option"

record AutomationRulesAction =
  FindingFieldsUpdate :: "AutomationRulesFindingFieldsUpdate option"
  Type :: string

record DateRange =
  Unit :: string
  Value :: "int32 option"

record DateFilter =
  DateRange :: "DateRange option"
  End :: "string option"
  Start :: "string option"

record StringFilter =
  Comparison :: string
  Value :: "string option"

record NumberFilter =
  Eq :: "float64 option"
  Gte :: "float64 option"
  Lte :: "float64 option"

record MapFilter =
  Comparison :: string
  Key :: "string option"
  Value :: "string option"
record AutomationRulesFindingFilters =
  AwsAccountId :: "StringFilter slice"
  AwsAccountName :: "StringFilter slice"
  CompanyName :: "StringFilter slice"
  ComplianceAssociatedStandardsId :: "StringFilter slice"
  ComplianceSecurityControlId :: "StringFilter slice"
  ComplianceStatus :: "StringFilter slice"
  Confidence :: "NumberFilter slice"
  CreatedAt :: "DateFilter slice"
  Criticality :: "NumberFilter slice"
  Description :: "StringFilter slice"
  FirstObservedAt :: "DateFilter slice"
  GeneratorId :: "StringFilter slice"
  Id :: "StringFilter slice"
  LastObservedAt :: "DateFilter slice"
  NoteText :: "StringFilter slice"
  NoteUpdatedAt :: "DateFilter slice"
  NoteUpdatedBy :: "StringFilter slice"
  ProductArn :: "StringFilter slice"
  ProductName :: "StringFilter slice"
  RecordState :: "StringFilter slice"
  RelatedFindingsId :: "StringFilter slice"
  RelatedFindingsProductArn :: "StringFilter slice"
  ResourceApplicationArn :: "StringFilter slice"
  ResourceApplicationName :: "StringFilter slice"
  ResourceDetailsOther :: "MapFilter slice"
  ResourceId :: "StringFilter slice"
  ResourcePartition :: "StringFilter slice"
  ResourceRegion :: "StringFilter slice"
  ResourceTags :: "MapFilter slice"
  ResourceType :: "StringFilter slice"
  SeverityLabel :: "StringFilter slice"
  SourceUrl :: "StringFilter slice"
  Title :: "StringFilter slice"
  Type :: "StringFilter slice"
  UpdatedAt :: "DateFilter slice"
  UserDefinedFields :: "MapFilter slice"
  VerificationState :: "StringFilter slice"
  WorkflowStatus :: "StringFilter slice"

record CreateAutomationRuleInput =
  Actions :: "AutomationRulesAction slice"
  Criteria :: "AutomationRulesFindingFilters option"
  Description :: "string option"
  IsTerminal :: "bool option"
  RuleName :: "string option"
  RuleOrder :: "int32 option"
  RuleStatus :: string
  Tags :: "(string \<times> string) list option"

record CreateAutomationRuleOutput =
  RuleArn :: "string option"

record UpdateAutomationRulesRequestItem =
  Actions :: "AutomationRulesAction slice"
  Criteria :: "AutomationRulesFindingFilters option"
  Description :: "string option"
  IsTerminal :: "bool option"
  RuleArn :: "string option"
  RuleName :: "string option"
  RuleOrder :: "int32 option"
  RuleStatus :: string

record BatchUpdateAutomationRulesInput =
  UpdateAutomationRulesRequestItems :: "UpdateAutomationRulesRequestItem list"

record BatchDeleteAutomationRulesInput =
  AutomationRulesArns :: "string list"

record BatchGetAutomationRulesInput =
  AutomationRulesArns :: "string list"

record AutomationRulesConfig =
  Actions :: "AutomationRulesAction slice"
  Criteria :: "AutomationRulesFindingFilters option"
  Description :: "string option"
  IsTerminal :: "bool option"
  RuleArn :: "string option"
  RuleName :: "string option"
  RuleOrder :: "int32 option"
  RuleStatus :: string

record BatchGetAutomationRulesOutput =
  Rules :: "AutomationRulesConfig list"

text \<open>
  The client. The outputs of the update and delete calls are only tested for nil, so
  they are kept as a unit value.
\<close>

record securityhub_Client =
  CreateAutomationRule :: "CreateAutomationRuleInput \<Rightarrow> error + CreateAutomationRuleOutput option"
  BatchGetAutomationRules ::
    "BatchGetAutomationRulesInput \<Rightarrow> error + BatchGetAutomationRulesOutput option"
  BatchUpdateAutomationRules :: "BatchUpdateAutomationRulesInput \<Rightarrow> error + unit option"
  BatchDeleteAutomationRules :: "BatchDeleteAutomationRulesInput \<Rightarrow> error option"

datatype sdk_call =
    CallCreateAutomationRule CreateAutomationRuleInput
  | CallBatchGetAutomationRules BatchGetAutomationRulesInput
  | CallBatchUpdateAutomationRules BatchUpdateAutomationRulesInput
  | CallBatchDeleteAutomationRules BatchDeleteAutomationRulesInput

subsection \<open>Framework and converter helpers\<close>

text \<open>
  \<open>ElementsAs\<close> of the framework stores the elements of a list or set value in a Go slice
  of structs: it succeeds on a known value whose elements are all known, leaves the
  slice nil for a null value, and reports a conversion error otherwise.
\<close>

fun is_known :: "'a tfvalue \<Rightarrow> bool" where
  "is_known (Known v) = True"
| "is_known Null = False"
| "is_known Unknown = False"

fun known_elements :: "'a tfvalue list \<Rightarrow> 'a list" where
  "known_elements [] = []"
| "known_elements (Known v # vs) = v # known_elements vs"
| "known_elements (Null # vs) = known_elements vs"
| "known_elements (Unknown # vs) = known_elements vs"

fun ElementsAs :: "'a tflist \<Rightarrow> diagnostic list \<times> 'a list" where
  "ElementsAs (Known vs) =
     (if list_all is_known vs then ([], known_elements vs)
      else ([FrameworkError ''Value Conversion Error''], []))"
| "ElementsAs Null = ([], [])"
| "ElementsAs Unknown = ([FrameworkError ''Value Conversion Error''], [])"

fun ValueFloat64 :: "float64 tfvalue \<Rightarrow> float64" where
  "ValueFloat64 (Known x) = x"
| "ValueFloat64 Null = Float64bits 0"
| "ValueFloat64 Unknown = Float64bits 0"

text \<open>
  \<open>types.ObjectValue\<close> builds a known object when the attribute map has exactly the
  attributes of the attribute types, and an unknown object with an error diagnostic
  when an attribute is missing; \<open>types.ListValue\<close> and \<open>types.SetValue\<close> build a known
  collection of element values.
\<close>

definition ObjectValue :: "'a \<Rightarrow> 'a tfvalue \<times> diagnostic list" where
  "ObjectValue obj = (Known obj, [])"

definition ObjectValue_missing :: "'a tfvalue \<times> diagnostic list" where
  "ObjectValue_missing = (Unknown, [FrameworkError ''Missing Object Attribute Value''])"

definition ListValue :: "'a tfvalue list \<Rightarrow> 'a tflist \<times> diagnostic list" where
  "ListValue elems = (Known elems, [])"

definition SetValue :: "'a tfvalue list \<Rightarrow> 'a tflist \<times> diagnostic list" where
  "SetValue elems = (Known elems, [])"

text \<open>\<open>Equal\<close> of a scalar value of the framework compares state and value.\<close>

definition Equal :: "'a tfvalue \<Rightarrow> 'a tfvalue \<Rightarrow> bool" where
  "Equal a b = (a = b)"

text \<open>
  Modelled from the spec: the value converters of the provider's \<open>flex\<close> package are not
  among the source files. A nil pointer becomes the null value and any other pointer the
  known value it points to; \<open>StringValueToFramework\<close> turns the empty string into null;
  the collection converters work element by element.
\<close>

definition StringToFramework :: "string option \<Rightarrow> string tfvalue" where
  "StringToFramework p = (case p of None \<Rightarrow> Null | Some s \<Rightarrow> Known s)"

definition StringToFrameworkARN :: "string option \<Rightarrow> string tfvalue" where
  "StringToFrameworkARN p = (case p of None \<Rightarrow> Null | Some s \<Rightarrow> Known s)"

definition StringValueToFramework :: "string \<Rightarrow> string tfvalue" where
  "StringValueToFramework s = (if s = [] then Null else Known s)"

definition BoolToFramework :: "bool option \<Rightarrow> bool tfvalue" where
  "BoolToFramework p = (case p of None \<Rightarrow> Null | Some b \<Rightarrow> Known b)"

definition Int32ToFramework :: "int32 option \<Rightarrow> int64 tfvalue" where
  "Int32ToFramework p = (case p of None \<Rightarrow> Null | Some n \<Rightarrow> Known (scast n))"

definition Float64ToFramework :: "float64 option \<Rightarrow> float64 tfvalue" where
  "Float64ToFramework p = (case p of None \<Rightarrow> Null | Some x \<Rightarrow> Known x)"

definition ExpandFrameworkStringValueList :: "string tflist \<Rightarrow> string slice" where
  "ExpandFrameworkStringValueList v =
     (case v of Known vs \<Rightarrow> Some (map ValueString vs) | Null \<Rightarrow> None | Unknown \<Rightarrow> None)"

definition ExpandFrameworkStringValueMap :: "string tfmap \<Rightarrow> (string \<times> string) list option" where
  "ExpandFrameworkStringValueMap v =
     (case v of Known kvs \<Rightarrow> Some (map (\<lambda>kv. (fst kv, ValueString (snd kv))) kvs)
      | Null \<Rightarrow> None | Unknown \<Rightarrow> None)"

definition FlattenFrameworkStringValueList :: "string slice \<Rightarrow> string tflist" where
  "FlattenFrameworkStringValueList s =
     (case s of None \<Rightarrow> Null | Some xs \<Rightarrow> Known (map Known xs))"

definition FlattenFrameworkStringValueMap :: "(string \<times> string) list option \<Rightarrow> string tfmap" where
  "FlattenFrameworkStringValueMap m =
     (case m of None \<Rightarrow> Null | Some kvs \<Rightarrow> Known (map (\<lambda>kv. (fst kv, Known (snd kv))) kvs))"

subsection \<open>Expand: configuration to API request\<close>

text \<open>
  An expand function fills an API object field by field and returns early, with nil
  and the diagnostics so far, when a conversion reports an error. The object under
  construction and the diagnostics are the state of a sequence of steps; \<open>Inl\<close> is the
  early return.
\<close>

type_synonym 'o building = "diagnostic list + 'o \<times> diagnostic list"

fun run_steps ::
  "('o \<times> diagnostic list \<Rightarrow> 'o building) list \<Rightarrow> 'o \<times> diagnostic list \<Rightarrow> 'o building" where
  "run_steps [] s = Inr s"
| "run_steps (f # fs) s = (case f s of Inl diags \<Rightarrow> Inl diags | Inr s' \<Rightarrow> run_steps fs s')"

text \<open>\<open>if !v.IsNull() { apiObject.F = ... v ... }\<close>\<close>

definition when_set ::
  "'a tfvalue \<Rightarrow> ('a tfvalue \<Rightarrow> 'o \<Rightarrow> 'o) \<Rightarrow> 'o \<times> diagnostic list \<Rightarrow> 'o building" where
  "when_set v assign s =
     (if \<not> IsNull v then Inr (assign v (fst s), snd s) else Inr s)"

text \<open>
  \<open>if !v.IsNull() { diags.Append(v.ElementsAs(ctx, &tfList, false)...);
  if diags.HasError() { return nil, diags }; apiObject.F = expandF(tfList) }\<close>
\<close>

definition when_elements ::
  "'a tflist \<Rightarrow> ('a list \<Rightarrow> 'o \<Rightarrow> 'o) \<Rightarrow> 'o \<times> diagnostic list \<Rightarrow> 'o building" where
  "when_elements v assign s =
     (if \<not> IsNull v then
        let r = ElementsAs v; diags = snd s @ fst r
        in if HasError diags then Inl diags else Inr (assign (snd r) (fst s), diags)
      else Inr s)"

text \<open>The same, for an expand function that reports diagnostics of its own.\<close>

definition when_elements_diags ::
  "'a tflist \<Rightarrow> ('a list \<Rightarrow> 'b \<times> diagnostic list) \<Rightarrow> ('b \<Rightarrow> 'o \<Rightarrow> 'o)
    \<Rightarrow> 'o \<times> diagnostic list \<Rightarrow> 'o building" where
  "when_elements_diags v expand assign s =
     (if \<not> IsNull v then
        let r = ElementsAs v; diags = snd s @ fst r
        in if HasError diags then Inl diags
           else
             let x = expand (snd r); diags' = diags @ snd x
             in if HasError diags' then Inl diags' else Inr (assign (fst x) (fst s), diags')
      else Inr s)"

definition expandNote :: "noteData list \<Rightarrow> NoteUpdate option" where
  "expandNote tfList =
     (case tfList of
        [] \<Rightarrow> None
      | tfObj # _ \<Rightarrow>
          Some \<lparr>NoteUpdate.Text = Some (ValueString (noteData.Text tfObj)),
                NoteUpdate.UpdatedBy = Some (ValueString (noteData.UpdatedBy tfObj))\<rparr>)"

definition expandRelatedFindings :: "relatedFindingsData list \<Rightarrow> RelatedFinding slice" where
  "expandRelatedFindings tfList =
     (if length tfList = 0 then None
      else Some (map (\<lambda>relatedFinding.
             \<lparr>RelatedFinding.Id = Some (ValueString (relatedFindingsData.Id relatedFinding)),
              RelatedFinding.ProductArn =
                Some (ValueString (relatedFindingsData.ProductARN relatedFinding))\<rparr>) tfList))"

text \<open>
  Expand functions without diagnostics start from the zero value of the API struct and
  apply their guarded assignments in order.
\<close>

definition set_when :: "'a tfvalue \<Rightarrow> ('a tfvalue \<Rightarrow> 'o \<Rightarrow> 'o) \<Rightarrow> 'o \<Rightarrow> 'o" where
  "set_when v assign obj = (if \<not> IsNull v then assign v obj else obj)"

definition apply_steps :: "('o \<Rightarrow> 'o) list \<Rightarrow> 'o \<Rightarrow> 'o" where
  "apply_steps steps obj = fold (\<lambda>step acc. step acc) steps obj"

definition SeverityUpdate_zero :: SeverityUpdate where
  "SeverityUpdate_zero = \<lparr>SeverityUpdate.Label = [], SeverityUpdate.Product = None\<rparr>"

definition expandSeverity :: "severityData list \<Rightarrow> SeverityUpdate option" where
  "expandSeverity tfList =
     (case tfList of
        [] \<Rightarrow> None
      | tfObj # _ \<Rightarrow>
          Some (apply_steps
            [set_when (severityData.Label tfObj)
               (\<lambda>v apiObject. apiObject\<lparr>SeverityUpdate.Label := ValueString v\<rparr>),
             set_when (severityData.Product tfObj)
               (\<lambda>v apiObject. apiObject\<lparr>SeverityUpdate.Product := Some (ValueFloat64 v)\<rparr>)]
            SeverityUpdate_zero))"

definition WorkflowUpdate_zero :: WorkflowUpdate where
  "WorkflowUpdate_zero = \<lparr>WorkflowUpdate.Status = []\<rparr>"

definition expandWorkflow :: "workflowData list \<Rightarrow> WorkflowUpdate option" where
  "expandWorkflow tfList =
     (case tfList of
        [] \<Rightarrow> None
      | tfObj # _ \<Rightarrow>
          Some (apply_steps
            [set_when (workflowData.Status tfObj)
               (\<lambda>v apiObject. apiObject\<lparr>WorkflowUpdate.Status := ValueString v\<rparr>)]
            WorkflowUpdate_zero))"

definition AutomationRulesFindingFieldsUpdate_zero :: AutomationRulesFindingFieldsUpdate where
  "AutomationRulesFindingFieldsUpdate_zero =
     \<lparr>AutomationRulesFindingFieldsUpdate.Confidence = None,
      AutomationRulesFindingFieldsUpdate.Criticality = None,
      AutomationRulesFindingFieldsUpdate.Note = None,
      AutomationRulesFindingFieldsUpdate.RelatedFindings = None,
      AutomationRulesFindingFieldsUpdate.Severity = None,
      AutomationRulesFindingFieldsUpdate.Types = None,
      AutomationRulesFindingFieldsUpdate.UserDefinedFields = None,
      AutomationRulesFindingFieldsUpdate.VerificationState = [],
      AutomationRulesFindingFieldsUpdate.Workflow = None\<rparr>"

definition expandFindingFieldsUpdate ::
  "findingFieldsUpdateData list
    \<Rightarrow> AutomationRulesFindingFieldsUpdate option \<times> diagnostic list" where
  "expandFindingFieldsUpdate tfList =
     (case tfList of
        [] \<Rightarrow> (None, [])
      | tfObj # _ \<Rightarrow>
          (case run_steps
             [when_set (findingFieldsUpdateData.Confidence tfObj)
                (\<lambda>v apiObject. apiObject\<lparr>AutomationRulesFindingFieldsUpdate.Confidence :=
                   Some (to_int32 (ValueInt64 v))\<rparr>),
              when_set (findingFieldsUpdateData.Criticality tfObj)
                (\<lambda>v apiObject. apiObject\<lparr>AutomationRulesFindingFieldsUpdate.Criticality :=
                   Some (to_int32 (ValueInt64 v))\<rparr>),
              when_elements (findingFieldsUpdateData.Note tfObj)
                (\<lambda>tfList apiObject. apiObject\<lparr>AutomationRulesFindingFieldsUpdate.Note :=
                   expandNote tfList\<rparr>),
              when_elements (findingFieldsUpdateData.RelatedFindings tfObj)
                (\<lambda>tfList apiObject. apiObject\<lparr>AutomationRulesFindingFieldsUpdate.RelatedFindings :=
                   expandRelatedFindings tfList\<rparr>),
              when_elements (findingFieldsUpdateData.Severity tfObj)
                (\<lambda>tfList apiObject. apiObject\<lparr>AutomationRulesFindingFieldsUpdate.Severity :=
                   expandSeverity tfList\<rparr>),
              when_set (findingFieldsUpdateData.Types tfObj)
                (\<lambda>v apiObject. apiObject\<lparr>AutomationRulesFindingFieldsUpdate.Types :=
                   ExpandFrameworkStringValueList v\<rparr>),
              when_set (findingFieldsUpdateData.UserDefinedFields tfObj)
                (\<lambda>v apiObject. apiObject\<lparr>AutomationRulesFindingFieldsUpdate.UserDefinedFields :=
                   ExpandFrameworkStringValueMap v\<rparr>),
              when_set (findingFieldsUpdateData.VerificationState tfObj)
                (\<lambda>v apiObject. apiObject\<lparr>AutomationRulesFindingFieldsUpdate.VerificationState :=
                   ValueString v\<rparr>),
              when_elements (findingFieldsUpdateData.Workflow tfObj)
                (\<lambda>tfList apiObject. apiObject\<lparr>AutomationRulesFindingFieldsUpdate.Workflow :=
                   expandWorkflow tfList\<rparr>)]
             (AutomationRulesFindingFieldsUpdate_zero, []) of
             Inl diags \<Rightarrow> (None, diags)
           | Inr s \<Rightarrow> (Some (fst s), snd s)))"

definition AutomationRulesAction_zero :: AutomationRulesAction where
  "AutomationRulesAction_zero =
     \<lparr>AutomationRulesAction.FindingFieldsUpdate = None, AutomationRulesAction.Type = []\<rparr>"

text \<open>The loop of \<open>expandActions\<close>, with \<open>apiResult\<close> and \<open>diags\<close> as accumulators.\<close>

fun expandActions_loop ::
  "actionsData list \<Rightarrow> AutomationRulesAction list \<Rightarrow> diagnostic list
    \<Rightarrow> AutomationRulesAction slice \<times> diagnostic list" where
  "expandActions_loop [] apiResult diags = (Some apiResult, diags)"
| "expandActions_loop (action # rest) apiResult diags =
     (case run_steps
        [when_elements_diags (actionsData.FindingFieldsUpdate action) expandFindingFieldsUpdate
           (\<lambda>findingFieldsUpdate apiObject.
              apiObject\<lparr>AutomationRulesAction.FindingFieldsUpdate := findingFieldsUpdate\<rparr>),
         when_set (actionsData.Type action)
           (\<lambda>v apiObject. apiObject\<lparr>AutomationRulesAction.Type := ValueString v\<rparr>)]
        (AutomationRulesAction_zero, diags) of
        Inl diags' \<Rightarrow> (None, diags')
      | Inr s \<Rightarrow> expandActions_loop rest (apiResult @ [fst s]) (snd s))"

definition expandActions ::
  "actionsData list \<Rightarrow> AutomationRulesAction slice \<times> diagnostic list" where
  "expandActions tfList =
     (if length tfList = 0 then (None, []) else expandActions_loop tfList [] [])"

definition expandStringFilter :: "stringFilterData list \<Rightarrow> StringFilter slice" where
  "expandStringFilter tfList =
     (if length tfList = 0 then None
      else Some (map (\<lambda>filter.
             \<lparr>StringFilter.Comparison = ValueString (stringFilterData.Comparison filter),
              StringFilter.Value = Some (ValueString (stringFilterData.Value filter))\<rparr>) tfList))"

definition NumberFilter_zero :: NumberFilter where
  "NumberFilter_zero = \<lparr>NumberFilter.Eq = None, NumberFilter.Gte = None, NumberFilter.Lte = None\<rparr>"

definition expandNumberFilter :: "numberFilterData list \<Rightarrow> NumberFilter slice" where
  "expandNumberFilter tfList =
     (if length tfList = 0 then None
      else Some (map (\<lambda>filter. apply_steps
             [set_when (numberFilterData.Eq filter)
                (\<lambda>v apiObject. apiObject\<lparr>NumberFilter.Eq := Some (ValueFloat64 v)\<rparr>),
              set_when (numberFilterData.Gte filter)
                (\<lambda>v apiObject. apiObject\<lparr>NumberFilter.Gte := Some (ValueFloat64 v)\<rparr>),
              set_when (numberFilterData.Lte filter)
                (\<lambda>v apiObject. apiObject\<lparr>NumberFilter.Lte := Some (ValueFloat64 v)\<rparr>)]
             NumberFilter_zero) tfList))"

definition MapFilter_zero :: MapFilter where
  "MapFilter_zero = \<lparr>MapFilter.Comparison = [], MapFilter.Key = None, MapFilter.Value = None\<rparr>"

definition expandMapFilter :: "mapFilterData list \<Rightarrow> MapFilter slice" where
  "expandMapFilter tfList =
     (if length tfList = 0 then None
      else Some (map (\<lambda>filter. apply_steps
             [set_when (mapFilterData.Comparison filter)
                (\<lambda>v apiObject. apiObject\<lparr>MapFilter.Comparison := ValueString v\<rparr>),
              set_when (mapFilterData.Key filter)
                (\<lambda>v apiObject. apiObject\<lparr>MapFilter.Key := Some (ValueString v)\<rparr>),
              set_when (mapFilterData.Value filter)
                (\<lambda>v apiObject. apiObject\<lparr>MapFilter.Value := Some (ValueString v)\<rparr>)]
             MapFilter_zero) tfList))"

definition DateRange_zero :: DateRange where
  "DateRange_zero = \<lparr>DateRange.Unit = [], DateRange.Value = None\<rparr>"

definition expandDateRange :: "dateRangeData list \<Rightarrow> DateRange option" where
  "expandDateRange tfList =
     (case tfList of
        [] \<Rightarrow> None
      | tfObj # _ \<Rightarrow>
          Some (apply_steps
            [set_when (dateRangeData.Unit tfObj)
               (\<lambda>v apiObject. apiObject\<lparr>DateRange.Unit := ValueString v\<rparr>),
             set_when (dateRangeData.Value tfObj)
               (\<lambda>v apiObject. apiObject\<lparr>DateRange.Value := Some (to_int32 (ValueInt64 v))\<rparr>)]
            DateRange_zero))"

definition DateFilter_zero :: DateFilter where
  "DateFilter_zero = \<lparr>DateFilter.DateRange = None, DateFilter.End = None, DateFilter.Start = None\<rparr>"

fun expandDateFilter_loop ::
  "dateFilterData list \<Rightarrow> DateFilter list \<Rightarrow> diagnostic list
    \<Rightarrow> DateFilter slice \<times> diagnostic list" where
  "expandDateFilter_loop [] apiResult diags = (Some apiResult, diags)"
| "expandDateFilter_loop (filter' # rest) apiResult diags =
     (case run_steps
        [when_elements (dateFilterData.DateRange filter')
           (\<lambda>tfList apiObject. apiObject\<lparr>DateFilter.DateRange := expandDateRange tfList\<rparr>),
         when_set (dateFilterData.End filter')
           (\<lambda>v apiObject. apiObject\<lparr>DateFilter.End := Some (ValueString v)\<rparr>),
         when_set (dateFilterData.Start filter')
           (\<lambda>v apiObject. apiObject\<lparr>DateFilter.Start := Some (ValueString v)\<rparr>)]
        (DateFilter_zero, diags) of
        Inl diags' \<Rightarrow> (None, diags')
      | Inr s \<Rightarrow> expandDateFilter_loop rest (apiResult @ [fst s]) (snd s))"

definition expandDateFilter :: "dateFilterData list \<Rightarrow> DateFilter slice \<times> diagnostic list" where
  "expandDateFilter tfList =
     (if length tfList = 0 then (None, []) else expandDateFilter_loop tfList [] [])"

definition AutomationRulesFindingFilters_zero :: AutomationRulesFindingFilters where
  "AutomationRulesFindingFilters_zero =
     \<lparr>AutomationRulesFindingFilters.AwsAccountId = None,
      AutomationRulesFindingFilters.AwsAccountName = None,
      AutomationRulesFindingFilters.CompanyName = None,
      AutomationRulesFindingFilters.ComplianceAssociatedStandardsId = None,
      AutomationRulesFindingFilters.ComplianceSecurityControlId = None,
      AutomationRulesFindingFilters.ComplianceStatus = None,
      AutomationRulesFindingFilters.Confidence = None,
      AutomationRulesFindingFilters.CreatedAt = None,
      AutomationRulesFindingFilters.Criticality = None,
      AutomationRulesFindingFilters.Description = None,
      AutomationRulesFindingFilters.FirstObservedAt = None,
      AutomationRulesFindingFilters.GeneratorId = None,
      AutomationRulesFindingFilters.Id = None,
      AutomationRulesFindingFilters.LastObservedAt = None,
      AutomationRulesFindingFilters.NoteText = None,
      AutomationRulesFindingFilters.NoteUpdatedAt = None,
      AutomationRulesFindingFilters.NoteUpdatedBy = None,
      AutomationRulesFindingFilters.ProductArn = None,
      AutomationRulesFindingFilters.ProductName = None,
      AutomationRulesFindingFilters.RecordState = None,
      AutomationRulesFindingFilters.RelatedFindingsId = None,
      AutomationRulesFindingFilters.RelatedFindingsProductArn = None,
      AutomationRulesFindingFilters.ResourceApplicationArn = None,
      AutomationRulesFindingFilters.ResourceApplicationName = None,
      AutomationRulesFindingFilters.ResourceDetailsOther = None,
      AutomationRulesFindingFilters.ResourceId = None,
      AutomationRulesFindingFilters.ResourcePartition = None,
      AutomationRulesFindingFilters.ResourceRegion = None,
      AutomationRulesFindingFilters.ResourceTags = None,
      AutomationRulesFindingFilters.ResourceType = None,
      AutomationRulesFindingFilters.SeverityLabel = None,
      AutomationRulesFindingFilters.SourceUrl = None,
      AutomationRulesFindingFilters.Title = None,
      AutomationRulesFindingFilters.Type = None,
      AutomationRulesFindingFilters.UpdatedAt = None,
      AutomationRulesFindingFilters.UserDefinedFields = None,
      AutomationRulesFindingFilters.VerificationState = None,
      AutomationRulesFindingFilters.WorkflowStatus = None\<rparr>"

definition expandCriteria_steps ::
  "criteriaData \<Rightarrow> (AutomationRulesFindingFilters \<times> diagnostic list
    \<Rightarrow> AutomationRulesFindingFilters building) list" where
  "expandCriteria_steps tfObj =
     [when_elements (criteriaData.AWSAccountId tfObj)
                (\<lambda>tfList apiObject. apiObject\<lparr>AutomationRulesFindingFilters.AwsAccountId :=
                   expandStringFilter tfList\<rparr>),
      when_elements (criteriaData.AWSAccountName tfObj)
                (\<lambda>tfList apiObject. apiObject\<lparr>AutomationRulesFindingFilters.AwsAccountName :=
                   expandStringFilter tfList\<rparr>),
      when_elements (criteriaData.CompanyName tfObj)
                (\<lambda>tfList apiObject. apiObject\<lparr>AutomationRulesFindingFilters.CompanyName :=
                   expandStringFilter tfList\<rparr>),
      when_elements (criteriaData.ComplianceAssociatedStandardsId tfObj)
                (\<lambda>tfList apiObject. apiObject\<lparr>AutomationRulesFindingFilters.ComplianceAssociatedStandardsId :=
                   expandStringFilter tfList\<rparr>),
      when_elements (criteriaData.ComplianceSecurityControlId tfObj)
                (\<lambda>tfList apiObject. apiObject\<lparr>AutomationRulesFindingFilters.ComplianceSecurityControlId :=
                   expandStringFilter tfList\<rparr>),
      when_elements (criteriaData.ComplianceStatus tfObj)
                (\<lambda>tfList apiObject. apiObject\<lparr>AutomationRulesFindingFilters.ComplianceStatus :=
                   expandStringFilter tfList\<rparr>),
      when_elements (criteriaData.Confidence tfObj)
                (\<lambda>tfList apiObject. apiObject\<lparr>AutomationRulesFindingFilters.Confidence :=
                   expandNumberFilter tfList\<rparr>),
      when_elements_diags (criteriaData.CreatedAt tfObj) expandDateFilter
                (\<lambda>v apiObject. apiObject\<lparr>AutomationRulesFindingFilters.CreatedAt := v\<rparr>),
      when_elements (criteriaData.Criticality tfObj)
                (\<lambda>tfList apiObject. apiObject\<lparr>AutomationRulesFindingFilters.Criticality :=
                   expandNumberFilter tfList\<rparr>),
      when_elements (criteriaData.Description tfObj)
                (\<lambda>tfList apiObject. apiObject\<lparr>AutomationRulesFindingFilters.Description :=
                   expandStringFilter tfList\<rparr>),
      when_elements_diags (criteriaData.FirstObservedAt tfObj) expandDateFilter
                (\<lambda>v apiObject. apiObject\<lparr>AutomationRulesFindingFilters.FirstObservedAt := v\<rparr>),
      when_elements (criteriaData.GeneratorId tfObj)
                (\<lambda>tfList apiObject. apiObject\<lparr>AutomationRulesFindingFilters.GeneratorId :=
                   expandStringFilter tfList\<rparr>),
      when_elements (criteriaData.Id tfObj)
                (\<lambda>tfList apiObject. apiObject\<lparr>AutomationRulesFindingFilters.Id :=
                   expandStringFilter tfList\<rparr>),
      when_elements_diags (criteriaData.LastObservedAt tfObj) expandDateFilter
                (\<lambda>v apiObject. apiObject\<lparr>AutomationRulesFindingFilters.LastObservedAt := v\<rparr>),
      when_elements (criteriaData.NoteText tfObj)
                (\<lambda>tfList apiObject. apiObject\<lparr>AutomationRulesFindingFilters.NoteText :=
                   expandStringFilter tfList\<rparr>),
      when_elements_diags (criteriaData.NoteUpdatedAt tfObj) expandDateFilter
                (\<lambda>v apiObject. apiObject\<lparr>AutomationRulesFindingFilters.NoteUpdatedAt := v\<rparr>),
      when_elements (criteriaData.NoteUpdatedBy tfObj)
                (\<lambda>tfList apiObject. apiObject\<lparr>AutomationRulesFindingFilters.NoteUpdatedBy :=
                   expandStringFilter tfList\<rparr>),
      when_elements (criteriaData.ProductARN tfObj)
                (\<lambda>tfList apiObject. apiObject\<lparr>AutomationRulesFindingFilters.ProductArn :=
                   expandStringFilter tfList\<rparr>),
      when_elements (criteriaData.ProductName tfObj)
                (\<lambda>tfList apiObject. apiObject\<lparr>AutomationRulesFindingFilters.ProductName :=
                   expandStringFilter tfList\<rparr>),
      when_elements (criteriaData.RecordState tfObj)
                (\<lambda>tfList apiObject. apiObject\<lparr>AutomationRulesFindingFilters.RecordState :=
                   expandStringFilter tfList\<rparr>),
      when_elements (criteriaData.RelatedFindingsId tfObj)
                (\<lambda>tfList apiObject. apiObject\<lparr>AutomationRulesFindingFilters.RelatedFindingsId :=
                   expandStringFilter tfList\<rparr>),
      when_elements (criteriaData.RelatedFindingsProductArn tfObj)
                (\<lambda>tfList apiObject. apiObject\<lparr>AutomationRulesFindingFilters.RelatedFindingsProductArn :=
                   expandStringFilter tfList\<rparr>),
      when_elements (criteriaData.ResourceApplicationArn tfObj)
                (\<lambda>tfList apiObject. apiObject\<lparr>AutomationRulesFindingFilters.ResourceApplicationArn :=
                   expandStringFilter tfList\<rparr>),
      when_elements (criteriaData.ResourceApplicationName tfObj)
                (\<lambda>tfList apiObject. apiObject\<lparr>AutomationRulesFindingFilters.ResourceApplicationName :=
                   expandStringFilter tfList\<rparr>),
      when_elements (criteriaData.ResourceDetailsOther tfObj)
                (\<lambda>tfList apiObject. apiObject\<lparr>AutomationRulesFindingFilters.ResourceDetailsOther :=
                   expandMapFilter tfList\<rparr>),
      when_elements (criteriaData.ResourceId tfObj)
                (\<lambda>tfList apiObject. apiObject\<lparr>AutomationRulesFindingFilters.ResourceId :=
                   expandStringFilter tfList\<rparr>),
      when_elements (criteriaData.ResourcePartition tfObj)
                (\<lambda>tfList apiObject. apiObject\<lparr>AutomationRulesFindingFilters.ResourcePartition :=
                   expandStringFilter tfList\<rparr>),
      when_elements (criteriaData.ResourceRegion tfObj)
                (\<lambda>tfList apiObject. apiObject\<lparr>AutomationRulesFindingFilters.ResourceRegion :=
                   expandStringFilter tfList\<rparr>),
      when_elements (criteriaData.ResourceTags tfObj)
                (\<lambda>tfList apiObject. apiObject\<lparr>AutomationRulesFindingFilters.ResourceTags :=
                   expandMapFilter tfList\<rparr>),
      when_elements (criteriaData.ResourceType tfObj)
                (\<lambda>tfList apiObject. apiObject\<lparr>AutomationRulesFindingFilters.ResourceType :=
                   expandStringFilter tfList\<rparr>),
      when_elements (criteriaData.SeverityLabel tfObj)
                (\<lambda>tfList apiObject. apiObject\<lparr>AutomationRulesFindingFilters.SeverityLabel :=
                   expandStringFilter tfList\<rparr>),
      when_elements (criteriaData.SourceUrl tfObj)
                (\<lambda>tfList apiObject. apiObject\<lparr>AutomationRulesFindingFilters.SourceUrl :=
                   expandStringFilter tfList\<rparr>),
      when_elements (criteriaData.Title tfObj)
                (\<lambda>tfList apiObject. apiObject\<lparr>AutomationRulesFindingFilters.Title :=
                   expandStringFilter tfList\<rparr>),
      when_elements (criteriaData.Type tfObj)
                (\<lambda>tfList apiObject. apiObject\<lparr>AutomationRulesFindingFilters.Type :=
                   expandStringFilter tfList\<rparr>),
      when_elements_diags (criteriaData.UpdatedAt tfObj) expandDateFilter
                (\<lambda>v apiObject. apiObject\<lparr>AutomationRulesFindingFilters.UpdatedAt := v\<rparr>),
      when_elements (criteriaData.UserDefinedFields tfObj)
                (\<lambda>tfList apiObject. apiObject\<lparr>AutomationRulesFindingFilters.UserDefinedFields :=
                   expandMapFilter tfList\<rparr>),
      when_elements (criteriaData.VerificationState tfObj)
                (\<lambda>tfList apiObject. apiObject\<lparr>AutomationRulesFindingFilters.VerificationState :=
                   expandStringFilter tfList\<rparr>),
      when_elements (criteriaData.WorkflowStatus tfObj)
                (\<lambda>tfList apiObject. apiObject\<lparr>AutomationRulesFindingFilters.WorkflowStatus :=
                   expandStringFilter tfList\<rparr>)]"

definition expandCriteria ::
  "criteriaData list \<Rightarrow> AutomationRulesFindingFilters option \<times> diagnostic list" where
  "expandCriteria tfList =
     (case tfList of
        [] \<Rightarrow> (None, [])
      | tfObj # _ \<Rightarrow>
          (case run_steps (expandCriteria_steps tfObj) (AutomationRulesFindingFilters_zero, []) of
             Inl diags \<Rightarrow> (None, diags)
           | Inr s \<Rightarrow> (Some (fst s), snd s)))"

subsection \<open>Flatten: API response to state\<close>

text \<open>
  A flatten function returns the framework value and the diagnostics of building it. The
  loops append one object value per element and collect the diagnostics in order.
\<close>

definition flattenNote :: "NoteUpdate option \<Rightarrow> noteData tflist \<times> diagnostic list" where
  "flattenNote apiObject =
     (case apiObject of
        None \<Rightarrow> (Null, [])
      | Some a \<Rightarrow>
          let objVal = ObjectValue
                \<lparr>noteData.Text = StringToFramework (NoteUpdate.Text a),
                 noteData.UpdatedBy = StringToFramework (NoteUpdate.UpdatedBy a)\<rparr>;
              listVal = ListValue [fst objVal]
          in (fst listVal, snd objVal @ snd listVal))"

definition flattenRelatedFindings ::
  "RelatedFinding slice \<Rightarrow> relatedFindingsData tflist \<times> diagnostic list" where
  "flattenRelatedFindings apiObject =
     (if len apiObject = 0 then (Null, [])
      else
        let objVals = map (\<lambda>relatedFinding. ObjectValue
                \<lparr>relatedFindingsData.Id = StringToFramework (RelatedFinding.Id relatedFinding),
                 relatedFindingsData.ProductARN =
                   StringToFrameworkARN (RelatedFinding.ProductArn relatedFinding)\<rparr>)
              (case apiObject of None \<Rightarrow> [] | Some xs \<Rightarrow> xs);
            setVal = SetValue (map fst objVals)
        in (fst setVal, concat (map snd objVals) @ snd setVal))"

text \<open>
  \<open>flattenSeverity\<close> puts \<open>product\<close> in the attribute map only when the API object has
  one; without it the map lacks an attribute of \<open>severityAttrTypes\<close>.
\<close>

definition flattenSeverity :: "SeverityUpdate option \<Rightarrow> severityData tflist \<times> diagnostic list" where
  "flattenSeverity apiObject =
     (case apiObject of
        None \<Rightarrow> (Null, [])
      | Some a \<Rightarrow>
          let objVal =
                (if SeverityUpdate.Product a \<noteq> None then
                   ObjectValue
                     \<lparr>severityData.Label = StringValueToFramework (SeverityUpdate.Label a),
                      severityData.Product = Float64ToFramework (SeverityUpdate.Product a)\<rparr>
                 else ObjectValue_missing);
              listVal = ListValue [fst objVal]
          in (fst listVal, snd objVal @ snd listVal))"

definition flattenWorkflow :: "WorkflowUpdate option \<Rightarrow> workflowData tflist \<times> diagnostic list" where
  "flattenWorkflow apiObject =
     (case apiObject of
        None \<Rightarrow> (Null, [])
      | Some a \<Rightarrow>
          let objVal = ObjectValue
                \<lparr>workflowData.Status = StringValueToFramework (WorkflowUpdate.Status a)\<rparr>;
              listVal = ListValue [fst objVal]
          in (fst listVal, snd objVal @ snd listVal))"

definition flattenFindingFieldsUpdate ::
  "AutomationRulesFindingFieldsUpdate option
    \<Rightarrow> findingFieldsUpdateData tflist \<times> diagnostic list" where
  "flattenFindingFieldsUpdate apiObject =
     (case apiObject of
        None \<Rightarrow> (Null, [])
      | Some a \<Rightarrow>
          let note = flattenNote (AutomationRulesFindingFieldsUpdate.Note a);
              relatedFindings =
                flattenRelatedFindings (AutomationRulesFindingFieldsUpdate.RelatedFindings a);
              severity = flattenSeverity (AutomationRulesFindingFieldsUpdate.Severity a);
              workflow = flattenWorkflow (AutomationRulesFindingFieldsUpdate.Workflow a);
              objVal = ObjectValue
                \<lparr>findingFieldsUpdateData.Confidence =
                   Int32ToFramework (AutomationRulesFindingFieldsUpdate.Confidence a),
                 findingFieldsUpdateData.Criticality =
                   Int32ToFramework (AutomationRulesFindingFieldsUpdate.Criticality a),
                 findingFieldsUpdateData.Note = fst note,
                 findingFieldsUpdateData.RelatedFindings = fst relatedFindings,
                 findingFieldsUpdateData.Severity = fst severity,
                 findingFieldsUpdateData.Types =
                   FlattenFrameworkStringValueList (AutomationRulesFindingFieldsUpdate.Types a),
                 findingFieldsUpdateData.UserDefinedFields =
                   FlattenFrameworkStringValueMap
                     (AutomationRulesFindingFieldsUpdate.UserDefinedFields a),
                 findingFieldsUpdateData.VerificationState =
                   StringValueToFramework (AutomationRulesFindingFieldsUpdate.VerificationState a),
                 findingFieldsUpdateData.Workflow = fst workflow\<rparr>;
              listVal = ListValue [fst objVal]
          in (fst listVal,
              snd note @ snd relatedFindings @ snd severity @ snd workflow
                @ snd objVal @ snd listVal))"

definition flattenActions_element ::
  "AutomationRulesAction \<Rightarrow> actionsData tfvalue \<times> diagnostic list" where
  "flattenActions_element action =
     (let findingFieldsUpdate =
            flattenFindingFieldsUpdate (AutomationRulesAction.FindingFieldsUpdate action);
          objVal = ObjectValue
            \<lparr>actionsData.FindingFieldsUpdate = fst findingFieldsUpdate,
             actionsData.Type = StringValueToFramework (AutomationRulesAction.Type action)\<rparr>
      in (fst objVal, snd findingFieldsUpdate @ snd objVal))"

definition flattenActions ::
  "AutomationRulesAction slice \<Rightarrow> actionsData tflist \<times> diagnostic list" where
  "flattenActions apiObject =
     (case apiObject of
        None \<Rightarrow> (Null, [])
      | Some xs \<Rightarrow>
          let objVals = map flattenActions_element xs;
              setVal = SetValue (map fst objVals)
          in (fst setVal, concat (map snd objVals) @ snd setVal))"

definition flattenStringFilter ::
  "StringFilter slice \<Rightarrow> stringFilterData tflist \<times> diagnostic list" where
  "flattenStringFilter apiObject =
     (case apiObject of
        None \<Rightarrow> (Null, [])
      | Some xs \<Rightarrow>
          let objVals = map (\<lambda>filter. ObjectValue
                \<lparr>stringFilterData.Comparison =
                   StringValueToFramework (StringFilter.Comparison filter),
                 stringFilterData.Value = StringToFramework (StringFilter.Value filter)\<rparr>) xs;
              setVal = SetValue (map fst objVals)
          in (fst setVal, concat (map snd objVals) @ snd setVal))"

definition flattenNumberFilter ::
  "NumberFilter slice \<Rightarrow> numberFilterData tflist \<times> diagnostic list" where
  "flattenNumberFilter apiObject =
     (case apiObject of
        None \<Rightarrow> (Null, [])
      | Some xs \<Rightarrow>
          let objVals = map (\<lambda>filter. ObjectValue
                \<lparr>numberFilterData.Eq = Float64ToFramework (NumberFilter.Eq filter),
                 numberFilterData.Gte = Float64ToFramework (NumberFilter.Gte filter),
                 numberFilterData.Lte = Float64ToFramework (NumberFilter.Lte filter)\<rparr>) xs;
              setVal = SetValue (map fst objVals)
          in (fst setVal, concat (map snd objVals) @ snd setVal))"

definition flattenMapFilter ::
  "MapFilter slice \<Rightarrow> mapFilterData tflist \<times> diagnostic list" where
  "flattenMapFilter apiObject =
     (case apiObject of
        None \<Rightarrow> (Null, [])
      | Some xs \<Rightarrow>
          let objVals = map (\<lambda>filter. ObjectValue
                \<lparr>mapFilterData.Comparison = StringValueToFramework (MapFilter.Comparison filter),
                 mapFilterData.Key = StringToFramework (MapFilter.Key filter),
                 mapFilterData.Value = StringToFramework (MapFilter.Value filter)\<rparr>) xs;
              setVal = SetValue (map fst objVals)
          in (fst setVal, concat (map snd objVals) @ snd setVal))"

definition flattenDateRange :: "DateRange option \<Rightarrow> dateRangeData tflist \<times> diagnostic list" where
  "flattenDateRange apiObject =
     (case apiObject of
        None \<Rightarrow> (Null, [])
      | Some a \<Rightarrow>
          let objVal = ObjectValue
                \<lparr>dateRangeData.Unit = StringValueToFramework (DateRange.Unit a),
                 dateRangeData.Value = Int32ToFramework (DateRange.Value a)\<rparr>;
              listVal = ListValue [fst objVal]
          in (fst listVal, snd objVal @ snd listVal))"

definition flattenDateFilter_element ::
  "DateFilter \<Rightarrow> dateFilterData tfvalue \<times> diagnostic list" where
  "flattenDateFilter_element filter' =
     (let dateRange = flattenDateRange (DateFilter.DateRange filter');
          objVal = ObjectValue
            \<lparr>dateFilterData.DateRange = fst dateRange,
             dateFilterData.End = StringToFramework (DateFilter.End filter'),
             dateFilterData.Start = StringToFramework (DateFilter.Start filter')\<rparr>
      in (fst objVal, snd dateRange @ snd objVal))"

definition flattenDateFilter ::
  "DateFilter slice \<Rightarrow> dateFilterData tflist \<times> diagnostic list" where
  "flattenDateFilter apiObject =
     (case apiObject of
        None \<Rightarrow> (Null, [])
      | Some xs \<Rightarrow>
          let objVals = map flattenDateFilter_element xs;
              setVal = SetValue (map fst objVals)
          in (fst setVal, concat (map snd objVals) @ snd setVal))"

text \<open>The diagnostics of the filter conversions of \<open>flattenCriteria\<close>, in source order.\<close>

definition flattenCriteria_diags :: "AutomationRulesFindingFilters \<Rightarrow> diagnostic list" where
  "flattenCriteria_diags a =
     concat
       [snd (flattenStringFilter (AutomationRulesFindingFilters.AwsAccountId a)),
        snd (flattenStringFilter (AutomationRulesFindingFilters.AwsAccountName a)),
        snd (flattenStringFilter (AutomationRulesFindingFilters.CompanyName a)),
        snd (flattenStringFilter (AutomationRulesFindingFilters.ComplianceAssociatedStandardsId a)),
        snd (flattenStringFilter (AutomationRulesFindingFilters.ComplianceSecurityControlId a)),
        snd (flattenStringFilter (AutomationRulesFindingFilters.ComplianceStatus a)),
        snd (flattenNumberFilter (AutomationRulesFindingFilters.Confidence a)),
        snd (flattenDateFilter (AutomationRulesFindingFilters.CreatedAt a)),
        snd (flattenNumberFilter (AutomationRulesFindingFilters.Criticality a)),
        snd (flattenStringFilter (AutomationRulesFindingFilters.Description a)),
        snd (flattenDateFilter (AutomationRulesFindingFilters.FirstObservedAt a)),
        snd (flattenStringFilter (AutomationRulesFindingFilters.GeneratorId a)),
        snd (flattenStringFilter (AutomationRulesFindingFilters.Id a)),
        snd (flattenDateFilter (AutomationRulesFindingFilters.LastObservedAt a)),
        snd (flattenStringFilter (AutomationRulesFindingFilters.NoteText a)),
        snd (flattenDateFilter (AutomationRulesFindingFilters.NoteUpdatedAt a)),
        snd (flattenStringFilter (AutomationRulesFindingFilters.NoteUpdatedBy a)),
        snd (flattenStringFilter (AutomationRulesFindingFilters.ProductArn a)),
        snd (flattenStringFilter (AutomationRulesFindingFilters.ProductName a)),
        snd (flattenStringFilter (AutomationRulesFindingFilters.RecordState a)),
        snd (flattenStringFilter (AutomationRulesFindingFilters.RelatedFindingsId a)),
        snd (flattenStringFilter (AutomationRulesFindingFilters.RelatedFindingsProductArn a)),
        snd (flattenStringFilter (AutomationRulesFindingFilters.ResourceApplicationArn a)),
        snd (flattenStringFilter (AutomationRulesFindingFilters.ResourceApplicationName a)),
        snd (flattenMapFilter (AutomationRulesFindingFilters.ResourceDetailsOther a)),
        snd (flattenStringFilter (AutomationRulesFindingFilters.ResourceId a)),
        snd (flattenStringFilter (AutomationRulesFindingFilters.ResourcePartition a)),
        snd (flattenStringFilter (AutomationRulesFindingFilters.ResourceRegion a)),
        snd (flattenMapFilter (AutomationRulesFindingFilters.ResourceTags a)),
        snd (flattenStringFilter (AutomationRulesFindingFilters.ResourceType a)),
        snd (flattenStringFilter (AutomationRulesFindingFilters.SeverityLabel a)),
        snd (flattenStringFilter (AutomationRulesFindingFilters.SourceUrl a)),
        snd (flattenStringFilter (AutomationRulesFindingFilters.Title a)),
        snd (flattenStringFilter (AutomationRulesFindingFilters.Type a)),
        snd (flattenDateFilter (AutomationRulesFindingFilters.UpdatedAt a)),
        snd (flattenMapFilter (AutomationRulesFindingFilters.UserDefinedFields a)),
        snd (flattenStringFilter (AutomationRulesFindingFilters.VerificationState a)),
        snd (flattenStringFilter (AutomationRulesFindingFilters.WorkflowStatus a))]"

definition flattenCriteria ::
  "AutomationRulesFindingFilters option \<Rightarrow> criteriaData tflist \<times> diagnostic list" where
  "flattenCriteria apiObject =
     (case apiObject of
        None \<Rightarrow> (Null, [])
      | Some a \<Rightarrow>
          let objVal = ObjectValue
                \<lparr>criteriaData.AWSAccountId =
                   fst (flattenStringFilter (AutomationRulesFindingFilters.AwsAccountId a)),
                 criteriaData.AWSAccountName =
                   fst (flattenStringFilter (AutomationRulesFindingFilters.AwsAccountName a)),
                 criteriaData.CompanyName =
                   fst (flattenStringFilter (AutomationRulesFindingFilters.CompanyName a)),
                 criteriaData.ComplianceAssociatedStandardsId =
                   fst (flattenStringFilter (AutomationRulesFindingFilters.ComplianceAssociatedStandardsId a)),
                 criteriaData.ComplianceSecurityControlId =
                   fst (flattenStringFilter (AutomationRulesFindingFilters.ComplianceSecurityControlId a)),
                 criteriaData.ComplianceStatus =
                   fst (flattenStringFilter (AutomationRulesFindingFilters.ComplianceStatus a)),
                 criteriaData.Confidence =
                   fst (flattenNumberFilter (AutomationRulesFindingFilters.Confidence a)),
                 criteriaData.CreatedAt =
                   fst (flattenDateFilter (AutomationRulesFindingFilters.CreatedAt a)),
                 criteriaData.Criticality =
                   fst (flattenNumberFilter (AutomationRulesFindingFilters.Criticality a)),
                 criteriaData.Description =
                   fst (flattenStringFilter (AutomationRulesFindingFilters.Description a)),
                 criteriaData.FirstObservedAt =
                   fst (flattenDateFilter (AutomationRulesFindingFilters.FirstObservedAt a)),
                 criteriaData.GeneratorId =
                   fst (flattenStringFilter (AutomationRulesFindingFilters.GeneratorId a)),
                 criteriaData.Id =
                   fst (flattenStringFilter (AutomationRulesFindingFilters.Id a)),
                 criteriaData.LastObservedAt =
                   fst (flattenDateFilter (AutomationRulesFindingFilters.LastObservedAt a)),
                 criteriaData.NoteText =
                   fst (flattenStringFilter (AutomationRulesFindingFilters.NoteText a)),
                 criteriaData.NoteUpdatedAt =
                   fst (flattenDateFilter (AutomationRulesFindingFilters.NoteUpdatedAt a)),
                 criteriaData.NoteUpdatedBy =
                   fst (flattenStringFilter (AutomationRulesFindingFilters.NoteUpdatedBy a)),
                 criteriaData.ProductARN =
                   fst (flattenStringFilter (AutomationRulesFindingFilters.ProductArn a)),
                 criteriaData.ProductName =
                   fst (flattenStringFilter (AutomationRulesFindingFilters.ProductName a)),
                 criteriaData.RecordState =
                   fst (flattenStringFilter (AutomationRulesFindingFilters.RecordState a)),
                 criteriaData.RelatedFindingsId =
                   fst (flattenStringFilter (AutomationRulesFindingFilters.RelatedFindingsId a)),
                 criteriaData.RelatedFindingsProductArn =
                   fst (flattenStringFilter (AutomationRulesFindingFilters.RelatedFindingsProductArn a)),
                 criteriaData.ResourceApplicationArn =
                   fst (flattenStringFilter (AutomationRulesFindingFilters.ResourceApplicationArn a)),
                 criteriaData.ResourceApplicationName =
                   fst (flattenStringFilter (AutomationRulesFindingFilters.ResourceApplicationName a)),
                 criteriaData.ResourceDetailsOther =
                   fst (flattenMapFilter (AutomationRulesFindingFilters.ResourceDetailsOther a)),
                 criteriaData.ResourceId =
                   fst (flattenStringFilter (AutomationRulesFindingFilters.ResourceId a)),
                 criteriaData.ResourcePartition =
                   fst (flattenStringFilter (AutomationRulesFindingFilters.ResourcePartition a)),
                 criteriaData.ResourceRegion =
                   fst (flattenStringFilter (AutomationRulesFindingFilters.ResourceRegion a)),
                 criteriaData.ResourceTags =
                   fst (flattenMapFilter (AutomationRulesFindingFilters.ResourceTags a)),
                 criteriaData.ResourceType =
                   fst (flattenStringFilter (AutomationRulesFindingFilters.ResourceType a)),
                 criteriaData.SeverityLabel =
                   fst (flattenStringFilter (AutomationRulesFindingFilters.SeverityLabel a)),
                 criteriaData.SourceUrl =
                   fst (flattenStringFilter (AutomationRulesFindingFilters.SourceUrl a)),
                 criteriaData.Title =
                   fst (flattenStringFilter (AutomationRulesFindingFilters.Title a)),
                 criteriaData.Type =
                   fst (flattenStringFilter (AutomationRulesFindingFilters.Type a)),
                 criteriaData.UpdatedAt =
                   fst (flattenDateFilter (AutomationRulesFindingFilters.UpdatedAt a)),
                 criteriaData.UserDefinedFields =
                   fst (flattenMapFilter (AutomationRulesFindingFilters.UserDefinedFields a)),
                 criteriaData.VerificationState =
                   fst (flattenStringFilter (AutomationRulesFindingFilters.VerificationState a)),
                 criteriaData.WorkflowStatus =
                   fst (flattenStringFilter (AutomationRulesFindingFilters.WorkflowStatus a))\<rparr>;
              listVal = ListValue [fst objVal]
          in (fst listVal, flattenCriteria_diags a @ snd objVal @ snd listVal))"

subsection \<open>Equality of framework values\<close>

text \<open>
  \<open>Equal\<close> descends into collections: a list compares element by element, a set and a
  map without regard to order. The configuration records hold sets below the top level
  (\<open>related_findings\<close>, the filter sets of \<open>criteria\<close>), so the comparison is written out
  per record.
\<close>

fun Value_Equal_with :: "('a \<Rightarrow> 'a \<Rightarrow> bool) \<Rightarrow> 'a tfvalue \<Rightarrow> 'a tfvalue \<Rightarrow> bool" where
  "Value_Equal_with eq (Known a) (Known b) = eq a b"
| "Value_Equal_with eq Null Null = True"
| "Value_Equal_with eq Unknown Unknown = True"
| "Value_Equal_with eq _ _ = False"

definition List_Equal_with :: "('a \<Rightarrow> 'a \<Rightarrow> bool) \<Rightarrow> 'a tflist \<Rightarrow> 'a tflist \<Rightarrow> bool" where
  "List_Equal_with eq = Value_Equal_with (list_all2 (Value_Equal_with eq))"

definition Set_Equal_with :: "('a \<Rightarrow> 'a \<Rightarrow> bool) \<Rightarrow> 'a tflist \<Rightarrow> 'a tflist \<Rightarrow> bool" where
  "Set_Equal_with eq =
     Value_Equal_with (\<lambda>xs ys. length xs = length ys
        \<and> list_all (\<lambda>x. list_ex (Value_Equal_with eq x) ys) xs)"

definition Map_Equal :: "'a tfmap \<Rightarrow> 'a tfmap \<Rightarrow> bool" where
  "Map_Equal =
     Value_Equal_with (\<lambda>xs ys. length xs = length ys
        \<and> list_all (\<lambda>kv. map_of ys (fst kv) = Some (snd kv)) xs)"

definition findingFieldsUpdateData_Equal ::
  "findingFieldsUpdateData \<Rightarrow> findingFieldsUpdateData \<Rightarrow> bool" where
  "findingFieldsUpdateData_Equal a b =
     (Equal (findingFieldsUpdateData.Confidence a) (findingFieldsUpdateData.Confidence b)
      \<and> Equal (findingFieldsUpdateData.Criticality a) (findingFieldsUpdateData.Criticality b)
      \<and> Equal (findingFieldsUpdateData.Note a) (findingFieldsUpdateData.Note b)
      \<and> Set_Equal_with (=) (findingFieldsUpdateData.RelatedFindings a)
            (findingFieldsUpdateData.RelatedFindings b)
      \<and> Equal (findingFieldsUpdateData.Severity a) (findingFieldsUpdateData.Severity b)
      \<and> Equal (findingFieldsUpdateData.Types a) (findingFieldsUpdateData.Types b)
      \<and> Map_Equal (findingFieldsUpdateData.UserDefinedFields a)
            (findingFieldsUpdateData.UserDefinedFields b)
      \<and> Equal (findingFieldsUpdateData.VerificationState a)
            (findingFieldsUpdateData.VerificationState b)
      \<and> Equal (findingFieldsUpdateData.Workflow a) (findingFieldsUpdateData.Workflow b))"

definition actionsData_Equal :: "actionsData \<Rightarrow> actionsData \<Rightarrow> bool" where
  "actionsData_Equal a b =
     (List_Equal_with findingFieldsUpdateData_Equal
        (actionsData.FindingFieldsUpdate a) (actionsData.FindingFieldsUpdate b)
      \<and> Equal (actionsData.Type a) (actionsData.Type b))"

definition criteriaData_Equal :: "criteriaData \<Rightarrow> criteriaData \<Rightarrow> bool" where
  "criteriaData_Equal a b =
     (Set_Equal_with (=) (criteriaData.AWSAccountId a) (criteriaData.AWSAccountId b)
      \<and> Set_Equal_with (=) (criteriaData.AWSAccountName a) (criteriaData.AWSAccountName b)
      \<and> Set_Equal_with (=) (criteriaData.CompanyName a) (criteriaData.CompanyName b)
      \<and> Set_Equal_with (=) (criteriaData.ComplianceAssociatedStandardsId a) (criteriaData.ComplianceAssociatedStandardsId b)
      \<and> Set_Equal_with (=) (criteriaData.ComplianceSecurityControlId a) (criteriaData.ComplianceSecurityControlId b)
      \<and> Set_Equal_with (=) (criteriaData.ComplianceStatus a) (criteriaData.ComplianceStatus b)
      \<and> Set_Equal_with (=) (criteriaData.Confidence a) (criteriaData.Confidence b)
      \<and> Set_Equal_with (=) (criteriaData.CreatedAt a) (criteriaData.CreatedAt b)
      \<and> Set_Equal_with (=) (criteriaData.Criticality a) (criteriaData.Criticality b)
      \<and> Set_Equal_with (=) (criteriaData.Description a) (criteriaData.Description b)
      \<and> Set_Equal_with (=) (criteriaData.FirstObservedAt a) (criteriaData.FirstObservedAt b)
      \<and> Set_Equal_with (=) (criteriaData.GeneratorId a) (criteriaData.GeneratorId b)
      \<and> Set_Equal_with (=) (criteriaData.Id a) (criteriaData.Id b)
      \<and> Set_Equal_with (=) (criteriaData.LastObservedAt a) (criteriaData.LastObservedAt b)
      \<and> Set_Equal_with (=) (criteriaData.NoteText a) (criteriaData.NoteText b)
      \<and> Set_Equal_with (=) (criteriaData.NoteUpdatedAt a) (criteriaData.NoteUpdatedAt b)
      \<and> Set_Equal_with (=) (criteriaData.NoteUpdatedBy a) (criteriaData.NoteUpdatedBy b)
      \<and> Set_Equal_with (=) (criteriaData.ProductARN a) (criteriaData.ProductARN b)
      \<and> Set_Equal_with (=) (criteriaData.ProductName a) (criteriaData.ProductName b)
      \<and> Set_Equal_with (=) (criteriaData.RecordState a) (criteriaData.RecordState b)
      \<and> Set_Equal_with (=) (criteriaData.RelatedFindingsId a) (criteriaData.RelatedFindingsId b)
      \<and> Set_Equal_with (=) (criteriaData.RelatedFindingsProductArn a) (criteriaData.RelatedFindingsProductArn b)
      \<and> Set_Equal_with (=) (criteriaData.ResourceApplicationArn a) (criteriaData.ResourceApplicationArn b)
      \<and> Set_Equal_with (=) (criteriaData.ResourceApplicationName a) (criteriaData.ResourceApplicationName b)
      \<and> Set_Equal_with (=) (criteriaData.ResourceDetailsOther a) (criteriaData.ResourceDetailsOther b)
      \<and> Set_Equal_with (=) (criteriaData.ResourceId a) (criteriaData.ResourceId b)
      \<and> Set_Equal_with (=) (criteriaData.ResourcePartition a) (criteriaData.ResourcePartition b)
      \<and> Set_Equal_with (=) (criteriaData.ResourceRegion a) (criteriaData.ResourceRegion b)
      \<and> Set_Equal_with (=) (criteriaData.ResourceTags a) (criteriaData.ResourceTags b)
      \<and> Set_Equal_with (=) (criteriaData.ResourceType a) (criteriaData.ResourceType b)
      \<and> Set_Equal_with (=) (criteriaData.SeverityLabel a) (criteriaData.SeverityLabel b)
      \<and> Set_Equal_with (=) (criteriaData.SourceUrl a) (criteriaData.SourceUrl b)
      \<and> Set_Equal_with (=) (criteriaData.Title a) (criteriaData.Title b)
      \<and> Set_Equal_with (=) (criteriaData.Type a) (criteriaData.Type b)
      \<and> Set_Equal_with (=) (criteriaData.UpdatedAt a) (criteriaData.UpdatedAt b)
      \<and> Set_Equal_with (=) (criteriaData.UserDefinedFields a) (criteriaData.UserDefinedFields b)
      \<and> Set_Equal_with (=) (criteriaData.VerificationState a) (criteriaData.VerificationState b)
      \<and> Set_Equal_with (=) (criteriaData.WorkflowStatus a) (criteriaData.WorkflowStatus b))"

subsection \<open>Lookup\<close>

text \<open>
  Modelled from the spec: the error-code constants and the \<open>tfawserr\<close> tests are not among
  the source files. The constants carry the codes their names spell; \<open>ErrCodeEquals\<close> holds
  of an API error with the given code, \<open>ErrMessageContains\<close> of one whose message
  moreover contains the given text.
\<close>

definition errCodeResourceNotFoundException :: string where
  "errCodeResourceNotFoundException = ''ResourceNotFoundException''"

definition errCodeInvalidAccessException :: string where
  "errCodeInvalidAccessException = ''InvalidAccessException''"

fun starts_with :: "string \<Rightarrow> string \<Rightarrow> bool" where
  "starts_with s [] = True"
| "starts_with [] (c # cs) = False"
| "starts_with (d # ds) (c # cs) = (d = c \<and> starts_with ds cs)"

fun Contains :: "string \<Rightarrow> string \<Rightarrow> bool" where
  "Contains [] sub = (sub = [])"
| "Contains (d # ds) sub = (starts_with (d # ds) sub \<or> Contains ds sub)"

fun ErrCodeEquals :: "error option \<Rightarrow> string \<Rightarrow> bool" where
  "ErrCodeEquals (Some (APIError code msg)) c = (code = c)"
| "ErrCodeEquals _ c = False"

fun ErrMessageContains :: "error option \<Rightarrow> string \<Rightarrow> string \<Rightarrow> bool" where
  "ErrMessageContains (Some (APIError code msg)) c m = (code = c \<and> Contains msg m)"
| "ErrMessageContains _ c m = False"

definition findAutomationRules ::
  "securityhub_Client \<Rightarrow> BatchGetAutomationRulesInput \<Rightarrow> error + AutomationRulesConfig list" where
  "findAutomationRules conn input =
     (let r = BatchGetAutomationRules conn input;
          err = (case r of Inl e \<Rightarrow> Some e | Inr _ \<Rightarrow> None)
      in if ErrCodeEquals err errCodeResourceNotFoundException
            \<or> ErrMessageContains err errCodeInvalidAccessException
                 ''not subscribed to AWS Security Hub''
         then Inl (NotFoundError err)
         else (case r of
                 Inl e \<Rightarrow> Inl e
               | Inr None \<Rightarrow> Inl EmptyResultError
               | Inr (Some out) \<Rightarrow> Inr (Rules out)))"

definition findAutomationRule ::
  "securityhub_Client \<Rightarrow> BatchGetAutomationRulesInput \<Rightarrow> error + AutomationRulesConfig" where
  "findAutomationRule conn input =
     (case findAutomationRules conn input of
        Inl err \<Rightarrow> Inl err
      | Inr found \<Rightarrow> AssertSingleValueResult found)"

definition findAutomationRuleByARN ::
  "securityhub_Client \<Rightarrow> string \<Rightarrow> error + AutomationRulesConfig" where
  "findAutomationRuleByARN conn arn =
     findAutomationRule conn \<lparr>BatchGetAutomationRulesInput.AutomationRulesArns = [arn]\<rparr>"

subsection \<open>Lifecycle methods\<close>

definition ResNameAutomationRule :: string where
  "ResNameAutomationRule = ''Automation Rule''"

text \<open>
  Each method returns the response as it leaves it and the calls it made on the client,
  in order. \<open>getTagsIn\<close> is not among the source files: the tags of the request are the
  parameter \<open>tagsIn\<close>.
\<close>

definition set_Diagnostics :: "diagnostic list \<Rightarrow> 's response \<Rightarrow> 's response" where
  "set_Diagnostics ds resp = resp\<lparr>Diagnostics := ds\<rparr>"

definition automationRuleResource_Create ::
  "(string \<times> string) list option \<Rightarrow> securityhub_Client
    \<Rightarrow> diagnostic list \<times> automationRuleResourceModel
    \<Rightarrow> automationRuleResourceModel response
    \<Rightarrow> automationRuleResourceModel response \<times> sdk_call list" where
  "automationRuleResource_Create tagsIn conn req resp0 =
     (let data = snd req;
          resp1 = Append (fst req) resp0
      in if HasError (Diagnostics resp1) then (resp1, [])
      else
        let in0 = \<lparr>CreateAutomationRuleInput.Actions = None,
                   CreateAutomationRuleInput.Criteria = None,
                   CreateAutomationRuleInput.Description =
                     Some (ValueString (automationRuleResourceModel.Description data)),
                   CreateAutomationRuleInput.IsTerminal =
                     Some (ValueBool (automationRuleResourceModel.IsTerminal data)),
                   CreateAutomationRuleInput.RuleName =
                     Some (ValueString (automationRuleResourceModel.RuleName data)),
                   CreateAutomationRuleInput.RuleOrder =
                     Some (to_int32 (ValueInt64 (automationRuleResourceModel.RuleOrder data))),
                   CreateAutomationRuleInput.RuleStatus = [],
                   CreateAutomationRuleInput.Tags = tagsIn\<rparr>
        in (case run_steps
              [when_elements_diags (automationRuleResourceModel.Actions data) expandActions
                 (\<lambda>actions i. i\<lparr>CreateAutomationRuleInput.Actions := actions\<rparr>),
               when_elements_diags (automationRuleResourceModel.Criteria data) expandCriteria
                 (\<lambda>criteria i. i\<lparr>CreateAutomationRuleInput.Criteria := criteria\<rparr>),
               when_set (automationRuleResourceModel.RuleStatus data)
                 (\<lambda>v i. i\<lparr>CreateAutomationRuleInput.RuleStatus := ValueString v\<rparr>)]
              (in0, Diagnostics resp1) of
              Inl diags \<Rightarrow> (set_Diagnostics diags resp1, [])
            | Inr s \<Rightarrow>
                let in1 = fst s;
                    resp2 = set_Diagnostics (snd s) resp1
                in (case CreateAutomationRule conn in1 of
                      Inl err \<Rightarrow>
                        (AddError SecurityHub ErrActionCreating ResNameAutomationRule
                           (automationRuleResourceModel.RuleName data) (Some err) (ErrorText err) resp2,
                         [CallCreateAutomationRule in1])
                    | Inr None \<Rightarrow>
                        (AddError SecurityHub ErrActionCreating ResNameAutomationRule
                           (automationRuleResourceModel.RuleName data) None EmptyOutput resp2,
                         [CallCreateAutomationRule in1])
                    | Inr (Some out) \<Rightarrow>
                        let data1 = data\<lparr>automationRuleResourceModel.ARN :=
                                       StringToFramework (CreateAutomationRuleOutput.RuleArn out),
                                     automationRuleResourceModel.ID :=
                                       StringToFramework (CreateAutomationRuleOutput.RuleArn out)\<rparr>;
                            arn = ValueString (automationRuleResourceModel.ARN data1);
                            calls = [CallCreateAutomationRule in1,
                                     CallBatchGetAutomationRules
                                       \<lparr>BatchGetAutomationRulesInput.AutomationRulesArns = [arn]\<rparr>]
                        in (case findAutomationRuleByARN conn arn of
                              Inl err \<Rightarrow>
                                (AddError SecurityHub ErrActionReading ResNameAutomationRule
                                   (automationRuleResourceModel.ID data1) (Some err) (ErrorText err) resp2,
                                 calls)
                            | Inr readOut \<Rightarrow>
                                (State_Set
                                   (data1\<lparr>automationRuleResourceModel.RuleStatus :=
                                      StringValueToFramework (AutomationRulesConfig.RuleStatus readOut)\<rparr>)
                                   resp2,
                                 calls)))))"

definition automationRuleResource_Read ::
  "securityhub_Client \<Rightarrow> diagnostic list \<times> automationRuleResourceModel
    \<Rightarrow> automationRuleResourceModel response
    \<Rightarrow> automationRuleResourceModel response \<times> sdk_call list" where
  "automationRuleResource_Read conn req resp0 =
     (let data = snd req;
          resp1 = Append (fst req) resp0
      in if HasError (Diagnostics resp1) then (resp1, [])
      else
        let arn = ValueString (automationRuleResourceModel.ID data);
            calls = [CallBatchGetAutomationRules
                       \<lparr>BatchGetAutomationRulesInput.AutomationRulesArns = [arn]\<rparr>]
        in (case findAutomationRuleByARN conn arn of
              Inl err \<Rightarrow>
                if NotFound (Some err) then (State_RemoveResource resp1, calls)
                else (AddError SecurityHub ErrActionReading ResNameAutomationRule
                        (automationRuleResourceModel.ID data) (Some err) (ErrorText err) resp1,
                      calls)
            | Inr out \<Rightarrow>
                if NotFound None then (State_RemoveResource resp1, calls)
                else
                  let actions = flattenActions (AutomationRulesConfig.Actions out);
                      resp2 = Append (snd actions) resp1;
                      criteria = flattenCriteria (AutomationRulesConfig.Criteria out);
                      resp3 = Append (snd criteria) resp2;
                      data1 = data
                        \<lparr>automationRuleResourceModel.ARN :=
                           StringToFramework (AutomationRulesConfig.RuleArn out),
                         automationRuleResourceModel.Description :=
                           StringToFramework (AutomationRulesConfig.Description out),
                         automationRuleResourceModel.ID :=
                           StringToFramework (AutomationRulesConfig.RuleArn out),
                         automationRuleResourceModel.IsTerminal :=
                           BoolToFramework (AutomationRulesConfig.IsTerminal out),
                         automationRuleResourceModel.RuleName :=
                           StringToFramework (AutomationRulesConfig.RuleName out),
                         automationRuleResourceModel.RuleOrder :=
                           Int32ToFramework (AutomationRulesConfig.RuleOrder out),
                         automationRuleResourceModel.RuleStatus :=
                           StringValueToFramework (AutomationRulesConfig.RuleStatus out),
                         automationRuleResourceModel.Actions := fst actions,
                         automationRuleResourceModel.Criteria := fst criteria\<rparr>
                  in (State_Set data1 resp3, calls)))"

text \<open>The comparison that guards the update call.\<close>

definition attributes_differ ::
  "automationRuleResourceModel \<Rightarrow> automationRuleResourceModel \<Rightarrow> bool" where
  "attributes_differ new old =
     (\<not> Set_Equal_with actionsData_Equal
           (automationRuleResourceModel.Actions new) (automationRuleResourceModel.Actions old)
      \<or> \<not> List_Equal_with criteriaData_Equal
           (automationRuleResourceModel.Criteria new) (automationRuleResourceModel.Criteria old)
      \<or> \<not> Equal (automationRuleResourceModel.Description new)
           (automationRuleResourceModel.Description old)
      \<or> \<not> Equal (automationRuleResourceModel.IsTerminal new)
           (automationRuleResourceModel.IsTerminal old)
      \<or> \<not> Equal (automationRuleResourceModel.RuleName new)
           (automationRuleResourceModel.RuleName old)
      \<or> \<not> Equal (automationRuleResourceModel.RuleOrder new)
           (automationRuleResourceModel.RuleOrder old)
      \<or> \<not> Equal (automationRuleResourceModel.RuleStatus new)
           (automationRuleResourceModel.RuleStatus old))"

definition automationRuleResource_Update ::
  "securityhub_Client \<Rightarrow> diagnostic list \<times> automationRuleResourceModel
    \<Rightarrow> diagnostic list \<times> automationRuleResourceModel
    \<Rightarrow> automationRuleResourceModel response
    \<Rightarrow> automationRuleResourceModel response \<times> sdk_call list" where
  "automationRuleResource_Update conn plan state resp0 =
     (let new = snd plan;
          resp1 = Append (fst plan) resp0
      in if HasError (Diagnostics resp1) then (resp1, [])
      else
        let old = snd state;
            resp2 = Append (fst state) resp1
        in if HasError (Diagnostics resp2) then (resp2, [])
        else if attributes_differ new old then
          let item0 = \<lparr>UpdateAutomationRulesRequestItem.Actions = None,
                       UpdateAutomationRulesRequestItem.Criteria = None,
                       UpdateAutomationRulesRequestItem.Description =
                         Some (ValueString (automationRuleResourceModel.Description new)),
                       UpdateAutomationRulesRequestItem.IsTerminal =
                         Some (ValueBool (automationRuleResourceModel.IsTerminal new)),
                       UpdateAutomationRulesRequestItem.RuleArn =
                         Some (ValueString (automationRuleResourceModel.ARN new)),
                       UpdateAutomationRulesRequestItem.RuleName =
                         Some (ValueString (automationRuleResourceModel.RuleName new)),
                       UpdateAutomationRulesRequestItem.RuleOrder =
                         Some (to_int32 (ValueInt64 (automationRuleResourceModel.RuleOrder new))),
                       UpdateAutomationRulesRequestItem.RuleStatus = []\<rparr>
          in (case run_steps
                [when_elements_diags (automationRuleResourceModel.Actions new) expandActions
                   (\<lambda>actions i. i\<lparr>UpdateAutomationRulesRequestItem.Actions := actions\<rparr>),
                 when_elements_diags (automationRuleResourceModel.Criteria new) expandCriteria
                   (\<lambda>criteria i. i\<lparr>UpdateAutomationRulesRequestItem.Criteria := criteria\<rparr>),
                 when_set (automationRuleResourceModel.RuleStatus new)
                   (\<lambda>v i. i\<lparr>UpdateAutomationRulesRequestItem.RuleStatus := ValueString v\<rparr>)]
                (item0, Diagnostics resp2) of
                Inl diags \<Rightarrow> (set_Diagnostics diags resp2, [])
              | Inr s \<Rightarrow>
                  let in1 = \<lparr>UpdateAutomationRulesRequestItems = [] @ [fst s]\<rparr>;
                      resp3 = set_Diagnostics (snd s) resp2
                  in (case BatchUpdateAutomationRules conn in1 of
                        Inl err \<Rightarrow>
                          (AddError SecurityHub ErrActionUpdating ResNameAutomationRule
                             (automationRuleResourceModel.ID new) (Some err) (ErrorText err) resp3,
                           [CallBatchUpdateAutomationRules in1])
                      | Inr None \<Rightarrow>
                          (AddError SecurityHub ErrActionUpdating ResNameAutomationRule
                             (automationRuleResourceModel.ID new) None EmptyOutput resp3,
                           [CallBatchUpdateAutomationRules in1])
                      | Inr (Some out) \<Rightarrow>
                          (State_Set new resp3, [CallBatchUpdateAutomationRules in1])))
        else (State_Set new resp2, []))"

definition automationRuleResource_Delete ::
  "securityhub_Client \<Rightarrow> diagnostic list \<times> automationRuleResourceModel
    \<Rightarrow> automationRuleResourceModel response
    \<Rightarrow> automationRuleResourceModel response \<times> sdk_call list" where
  "automationRuleResource_Delete conn req resp0 =
     (let data = snd req;
          resp1 = Append (fst req) resp0
      in if HasError (Diagnostics resp1) then (resp1, [])
      else
        let in0 = \<lparr>BatchDeleteAutomationRulesInput.AutomationRulesArns =
                      [ValueString (automationRuleResourceModel.ARN data)]\<rparr>;
            err = BatchDeleteAutomationRules conn in0
        in if IsA_ResourceNotFoundException err then (resp1, [CallBatchDeleteAutomationRules in0])
           else (case err of
                   Some e \<Rightarrow>
                     (AddError SecurityHub ErrActionDeleting ResNameAutomationRule
                        (automationRuleResourceModel.ID data) (Some e) (ErrorText e) resp1,
                      [CallBatchDeleteAutomationRules in0])
                 | None \<Rightarrow> (resp1, [CallBatchDeleteAutomationRules in0])))"

section \<open>QuickSight: visual fields\<close>

subsection \<open>Configuration values and API objects\<close>

text \<open>
  The configuration representation of the older plugin SDK is untyped: an
  \<open>interface{}\<close> holding nil, a string, a list or a map. The flatten functions also store
  values of the SDK's named string types (\<open>types.TimeGranularity\<close> and the aggregation
  function types); a type assertion to \<open>string\<close> fails on those, as it does on every
  value whose dynamic type is not \<open>string\<close>. A map is \<open>None\<close> when nil.
\<close>

datatype tfval =
    TfNil
  | TfString string
  | TfTimeGranularity string
  | TfCategoricalAggregationFunction string
  | TfDateAggregationFunction string
  | TfList "tfval list"
  | TfMap "(string \<times> tfval) list option"

type_synonym tfmap_raw = "(string \<times> tfval) list option"

text \<open>\<open>tfMap[key]\<close>: the nil interface for a missing key and for a nil map.\<close>

definition tf_get :: "tfmap_raw \<Rightarrow> string \<Rightarrow> tfval" where
  "tf_get tfMap key =
     (case tfMap of
        None \<Rightarrow> TfNil
      | Some kvs \<Rightarrow> (case map_of kvs key of None \<Rightarrow> TfNil | Some v \<Rightarrow> v))"

text \<open>\<open>if v, ok := x.(string); ok && v != "" { ... }\<close>\<close>

definition set_string :: "tfval \<Rightarrow> (string \<Rightarrow> 'o \<Rightarrow> 'o) \<Rightarrow> 'o \<Rightarrow> 'o" where
  "set_string x assign obj =
     (case x of TfString v \<Rightarrow> if v \<noteq> [] then assign v obj else obj | _ \<Rightarrow> obj)"

text \<open>\<open>if v, ok := x.([]interface{}); ok && len(v) > 0 { ... }\<close>\<close>

definition set_list :: "tfval \<Rightarrow> (tfval list \<Rightarrow> 'o \<Rightarrow> 'o) \<Rightarrow> 'o \<Rightarrow> 'o" where
  "set_list x assign obj =
     (case x of TfList v \<Rightarrow> if length v > 0 then assign v obj else obj | _ \<Rightarrow> obj)"

text \<open>\<open>if cond { tfMap[key] = v }\<close> and the unguarded \<open>tfMap[key] = v\<close>.\<close>

definition put :: "string \<Rightarrow> tfval \<Rightarrow> (string \<times> tfval) list \<Rightarrow> (string \<times> tfval) list" where
  "put key v tfMap = AList.update key v tfMap"

definition put_when ::
  "bool \<Rightarrow> string \<Rightarrow> tfval \<Rightarrow> (string \<times> tfval) list \<Rightarrow> (string \<times> tfval) list" where
  "put_when cond key v tfMap = (if cond then put key v tfMap else tfMap)"

text \<open>
  The SDK's types of the sub-objects and their expand and flatten functions are not
  among the source files: the types are left abstract and the functions are parameters.
\<close>

typedecl ColumnIdentifier
typedecl StringFormatConfiguration
typedecl DateTimeFormatConfiguration
typedecl NumberFormatConfiguration
typedecl NumericalAggregationFunction

record helpers =
  expandColumnIdentifier :: "tfval list \<Rightarrow> ColumnIdentifier option"
  flattenColumnIdentifier :: "ColumnIdentifier option \<Rightarrow> tfval list"
  expandStringFormatConfiguration :: "tfval list \<Rightarrow> StringFormatConfiguration option"
  flattenStringFormatConfiguration :: "StringFormatConfiguration option \<Rightarrow> tfval list"
  expandDateTimeFormatConfiguration :: "tfval list \<Rightarrow> DateTimeFormatConfiguration option"
  flattenDateTimeFormatConfiguration :: "DateTimeFormatConfiguration option \<Rightarrow> tfval list"
  expandNumberFormatConfiguration :: "tfval list \<Rightarrow> NumberFormatConfiguration option"
  flattenNumberFormatConfiguration :: "NumberFormatConfiguration option \<Rightarrow> tfval list"
  expandNumericalAggregationFunction :: "tfval list \<Rightarrow> NumericalAggregationFunction option"
  flattenNumericalAggregationFunction :: "NumericalAggregationFunction option \<Rightarrow> tfval list"

record CategoricalDimensionField =
  Column :: "ColumnIdentifier option"
  FieldId :: "string option"
  FormatConfiguration :: "StringFormatConfiguration option"
  HierarchyId :: "string option"

record DateDimensionField =
  Column :: "ColumnIdentifier option"
  DateGranularity :: string
  FieldId :: "string option"
  FormatConfiguration :: "DateTimeFormatConfiguration option"
  HierarchyId :: "string option"

record NumericalDimensionField =
  Column :: "ColumnIdentifier option"
  FieldId :: "string option"
  FormatConfiguration :: "NumberFormatConfiguration option"
  HierarchyId :: "string option"

record DimensionField =
  CategoricalDimensionField :: "CategoricalDimensionField option"
  DateDimensionField :: "DateDimensionField option"
  NumericalDimensionField :: "NumericalDimensionField option"

record CalculatedMeasureField =
  Expression :: "string option"
  FieldId :: "string option"

record CategoricalMeasureField =
  AggregationFunction :: string
  Column :: "ColumnIdentifier option"
  FieldId :: "string option"
  FormatConfiguration :: "StringFormatConfiguration option"

record DateMeasureField =
  AggregationFunction :: string
  Column :: "ColumnIdentifier option"
  FieldId :: "string option"
  FormatConfiguration :: "DateTimeFormatConfiguration option"

record NumericalMeasureField =
  AggregationFunction :: "NumericalAggregationFunction option"
  Column :: "ColumnIdentifier option"
  FieldId :: "string option"
  FormatConfiguration :: "NumberFormatConfiguration option"

record MeasureField =
  CalculatedMeasureField :: "CalculatedMeasureField option"
  CategoricalMeasureField :: "CategoricalMeasureField option"
  DateMeasureField :: "DateMeasureField option"
  NumericalMeasureField :: "NumericalMeasureField option"

subsection \<open>Expand\<close>

text \<open>
  Each expand function of a field variant returns nil for an empty list, for a nil first
  element and for a first element that is not a map; otherwise it starts from the zero
  value of the API struct and applies its guarded assignments in source order (the
  \<open>_fill\<close> function).
\<close>

definition CategoricalDimensionField_zero :: CategoricalDimensionField where
  "CategoricalDimensionField_zero =
     \<lparr>CategoricalDimensionField.Column = None,
      CategoricalDimensionField.FieldId = None,
      CategoricalDimensionField.FormatConfiguration = None,
      CategoricalDimensionField.HierarchyId = None\<rparr>"

definition expandCategoricalDimensionField_fill :: "helpers \<Rightarrow> tfmap_raw \<Rightarrow> CategoricalDimensionField" where
  "expandCategoricalDimensionField_fill h tfMap =
     apply_steps
       [set_string (tf_get tfMap ''field_id'')
          (\<lambda>v field. field\<lparr>CategoricalDimensionField.FieldId := Some v\<rparr>),
        set_string (tf_get tfMap ''hierarchy_id'')
          (\<lambda>v field. field\<lparr>CategoricalDimensionField.HierarchyId := Some v\<rparr>),
        set_list (tf_get tfMap ''column'')
          (\<lambda>v field. field\<lparr>CategoricalDimensionField.Column := expandColumnIdentifier h v\<rparr>),
        set_list (tf_get tfMap ''format_configuration'')
          (\<lambda>v field. field\<lparr>CategoricalDimensionField.FormatConfiguration := expandStringFormatConfiguration h v\<rparr>)]
       CategoricalDimensionField_zero"

definition expandCategoricalDimensionField :: "helpers \<Rightarrow> tfval list \<Rightarrow> CategoricalDimensionField option" where
  "expandCategoricalDimensionField h tfList =
     (case tfList of
        [] \<Rightarrow> None
      | TfMap tfMap # _ \<Rightarrow> Some (expandCategoricalDimensionField_fill h tfMap)
      | _ # _ \<Rightarrow> None)"

definition DateDimensionField_zero :: DateDimensionField where
  "DateDimensionField_zero =
     \<lparr>DateDimensionField.Column = None,
      DateDimensionField.DateGranularity = [],
      DateDimensionField.FieldId = None,
      DateDimensionField.FormatConfiguration = None,
      DateDimensionField.HierarchyId = None\<rparr>"

definition expandDateDimensionField_fill :: "helpers \<Rightarrow> tfmap_raw \<Rightarrow> DateDimensionField" where
  "expandDateDimensionField_fill h tfMap =
     apply_steps
       [set_string (tf_get tfMap ''field_id'')
          (\<lambda>v field. field\<lparr>DateDimensionField.FieldId := Some v\<rparr>),
        set_string (tf_get tfMap ''hierarchy_id'')
          (\<lambda>v field. field\<lparr>DateDimensionField.HierarchyId := Some v\<rparr>),
        set_string (tf_get tfMap ''date_granularity'')
          (\<lambda>v field. field\<lparr>DateDimensionField.DateGranularity := v\<rparr>),
        set_list (tf_get tfMap ''column'')
          (\<lambda>v field. field\<lparr>DateDimensionField.Column := expandColumnIdentifier h v\<rparr>),
        set_list (tf_get tfMap ''format_configuration'')
          (\<lambda>v field. field\<lparr>DateDimensionField.FormatConfiguration := expandDateTimeFormatConfiguration h v\<rparr>)]
       DateDimensionField_zero"

definition expandDateDimensionField :: "helpers \<Rightarrow> tfval list \<Rightarrow> DateDimensionField option" where
  "expandDateDimensionField h tfList =
     (case tfList of
        [] \<Rightarrow> None
      | TfMap tfMap # _ \<Rightarrow> Some (expandDateDimensionField_fill h tfMap)
      | _ # _ \<Rightarrow> None)"

definition NumericalDimensionField_zero :: NumericalDimensionField where
  "NumericalDimensionField_zero =
     \<lparr>NumericalDimensionField.Column = None,
      NumericalDimensionField.FieldId = None,
      NumericalDimensionField.FormatConfiguration = None,
      NumericalDimensionField.HierarchyId = None\<rparr>"

definition expandNumericalDimensionField_fill :: "helpers \<Rightarrow> tfmap_raw \<Rightarrow> NumericalDimensionField" where
  "expandNumericalDimensionField_fill h tfMap =
     apply_steps
       [set_string (tf_get tfMap ''field_id'')
          (\<lambda>v field. field\<lparr>NumericalDimensionField.FieldId := Some v\<rparr>),
        set_string (tf_get tfMap ''hierarchy_id'')
          (\<lambda>v field. field\<lparr>NumericalDimensionField.HierarchyId := Some v\<rparr>),
        set_list (tf_get tfMap ''column'')
          (\<lambda>v field. field\<lparr>NumericalDimensionField.Column := expandColumnIdentifier h v\<rparr>),
        set_list (tf_get tfMap ''format_configuration'')
          (\<lambda>v field. field\<lparr>NumericalDimensionField.FormatConfiguration := expandNumberFormatConfiguration h v\<rparr>)]
       NumericalDimensionField_zero"

definition expandNumericalDimensionField :: "helpers \<Rightarrow> tfval list \<Rightarrow> NumericalDimensionField option" where
  "expandNumericalDimensionField h tfList =
     (case tfList of
        [] \<Rightarrow> None
      | TfMap tfMap # _ \<Rightarrow> Some (expandNumericalDimensionField_fill h tfMap)
      | _ # _ \<Rightarrow> None)"

definition DimensionField_zero :: DimensionField where
  "DimensionField_zero =
     \<lparr>DimensionField.CategoricalDimensionField = None,
      DimensionField.DateDimensionField = None,
      DimensionField.NumericalDimensionField = None\<rparr>"

definition expandDimensionInternal :: "helpers \<Rightarrow> tfmap_raw \<Rightarrow> DimensionField option" where
  "expandDimensionInternal h tfMap =
     (if tfMap = None then None
      else Some (apply_steps
        [set_list (tf_get tfMap ''categorical_dimension_field'')
           (\<lambda>v field. field\<lparr>DimensionField.CategoricalDimensionField :=
              expandCategoricalDimensionField h v\<rparr>),
         set_list (tf_get tfMap ''date_dimension_field'')
           (\<lambda>v field. field\<lparr>DimensionField.DateDimensionField :=
              expandDateDimensionField h v\<rparr>),
         set_list (tf_get tfMap ''numerical_dimension_field'')
           (\<lambda>v field. field\<lparr>DimensionField.NumericalDimensionField :=
              expandNumericalDimensionField h v\<rparr>)]
        DimensionField_zero))"

text \<open>The loop of \<open>expandDimensionFields\<close>, with \<open>fields\<close> as accumulator.\<close>

fun expandDimensionFields_loop ::
  "helpers \<Rightarrow> tfval list \<Rightarrow> DimensionField list \<Rightarrow> DimensionField list" where
  "expandDimensionFields_loop h [] fields' = fields'"
| "expandDimensionFields_loop h (TfMap tfMap # rest) fields' =
     (case expandDimensionInternal h tfMap of
        None \<Rightarrow> expandDimensionFields_loop h rest fields'
      | Some field \<Rightarrow> expandDimensionFields_loop h rest (fields' @ [field]))"
| "expandDimensionFields_loop h (_ # rest) fields' = expandDimensionFields_loop h rest fields'"

definition expandDimensionFields :: "helpers \<Rightarrow> tfval list \<Rightarrow> DimensionField list option" where
  "expandDimensionFields h tfList =
     (if length tfList = 0 then None
      else (case expandDimensionFields_loop h tfList [] of
              [] \<Rightarrow> None
            | f # fs \<Rightarrow> Some (f # fs)))"

definition expandDimensionField :: "helpers \<Rightarrow> tfval list \<Rightarrow> DimensionField option" where
  "expandDimensionField h tfList =
     (case tfList of
        [] \<Rightarrow> None
      | TfMap tfMap # _ \<Rightarrow> if tfMap = None then None else expandDimensionInternal h tfMap
      | _ # _ \<Rightarrow> None)"

definition CalculatedMeasureField_zero :: CalculatedMeasureField where
  "CalculatedMeasureField_zero =
     \<lparr>CalculatedMeasureField.Expression = None,
      CalculatedMeasureField.FieldId = None\<rparr>"

definition expandCalculatedMeasureField_fill :: "helpers \<Rightarrow> tfmap_raw \<Rightarrow> CalculatedMeasureField" where
  "expandCalculatedMeasureField_fill h tfMap =
     apply_steps
       [set_string (tf_get tfMap ''field_id'')
          (\<lambda>v field. field\<lparr>CalculatedMeasureField.FieldId := Some v\<rparr>),
        set_string (tf_get tfMap ''expression'')
          (\<lambda>v field. field\<lparr>CalculatedMeasureField.Expression := Some v\<rparr>)]
       CalculatedMeasureField_zero"

definition expandCalculatedMeasureField :: "helpers \<Rightarrow> tfval list \<Rightarrow> CalculatedMeasureField option" where
  "expandCalculatedMeasureField h tfList =
     (case tfList of
        [] \<Rightarrow> None
      | TfMap tfMap # _ \<Rightarrow> Some (expandCalculatedMeasureField_fill h tfMap)
      | _ # _ \<Rightarrow> None)"

definition CategoricalMeasureField_zero :: CategoricalMeasureField where
  "CategoricalMeasureField_zero =
     \<lparr>CategoricalMeasureField.AggregationFunction = [],
      CategoricalMeasureField.Column = None,
      CategoricalMeasureField.FieldId = None,
      CategoricalMeasureField.FormatConfiguration = None\<rparr>"

definition expandCategoricalMeasureField_fill :: "helpers \<Rightarrow> tfmap_raw \<Rightarrow> CategoricalMeasureField" where
  "expandCategoricalMeasureField_fill h tfMap =
     apply_steps
       [set_string (tf_get tfMap ''field_id'')
          (\<lambda>v field. field\<lparr>CategoricalMeasureField.FieldId := Some v\<rparr>),
        set_string (tf_get tfMap ''aggregation_function'')
          (\<lambda>v field. field\<lparr>CategoricalMeasureField.AggregationFunction := v\<rparr>),
        set_list (tf_get tfMap ''column'')
          (\<lambda>v field. field\<lparr>CategoricalMeasureField.Column := expandColumnIdentifier h v\<rparr>),
        set_list (tf_get tfMap ''format_configuration'')
          (\<lambda>v field. field\<lparr>CategoricalMeasureField.FormatConfiguration := expandStringFormatConfiguration h v\<rparr>)]
       CategoricalMeasureField_zero"

definition expandCategoricalMeasureField :: "helpers \<Rightarrow> tfval list \<Rightarrow> CategoricalMeasureField option" where
  "expandCategoricalMeasureField h tfList =
     (case tfList of
        [] \<Rightarrow> None
      | TfMap tfMap # _ \<Rightarrow> Some (expandCategoricalMeasureField_fill h tfMap)
      | _ # _ \<Rightarrow> None)"

definition DateMeasureField_zero :: DateMeasureField where
  "DateMeasureField_zero =
     \<lparr>DateMeasureField.AggregationFunction = [],
      DateMeasureField.Column = None,
      DateMeasureField.FieldId = None,
      DateMeasureField.FormatConfiguration = None\<rparr>"

definition expandDateMeasureField_fill :: "helpers \<Rightarrow> tfmap_raw \<Rightarrow> DateMeasureField" where
  "expandDateMeasureField_fill h tfMap =
     apply_steps
       [set_string (tf_get tfMap ''field_id'')
          (\<lambda>v field. field\<lparr>DateMeasureField.FieldId := Some v\<rparr>),
        set_string (tf_get tfMap ''aggregation_function'')
          (\<lambda>v field. field\<lparr>DateMeasureField.AggregationFunction := v\<rparr>),
        set_list (tf_get tfMap ''column'')
          (\<lambda>v field. field\<lparr>DateMeasureField.Column := expandColumnIdentifier h v\<rparr>),
        set_list (tf_get tfMap ''format_configuration'')
          (\<lambda>v field. field\<lparr>DateMeasureField.FormatConfiguration := expandDateTimeFormatConfiguration h v\<rparr>)]
       DateMeasureField_zero"

definition expandDateMeasureField :: "helpers \<Rightarrow> tfval list \<Rightarrow> DateMeasureField option" where
  "expandDateMeasureField h tfList =
     (case tfList of
        [] \<Rightarrow> None
      | TfMap tfMap # _ \<Rightarrow> Some (expandDateMeasureField_fill h tfMap)
      | _ # _ \<Rightarrow> None)"

definition NumericalMeasureField_zero :: NumericalMeasureField where
  "NumericalMeasureField_zero =
     \<lparr>NumericalMeasureField.AggregationFunction = None,
      NumericalMeasureField.Column = None,
      NumericalMeasureField.FieldId = None,
      NumericalMeasureField.FormatConfiguration = None\<rparr>"

definition expandNumericalMeasureField_fill :: "helpers \<Rightarrow> tfmap_raw \<Rightarrow> NumericalMeasureField" where
  "expandNumericalMeasureField_fill h tfMap =
     apply_steps
       [set_string (tf_get tfMap ''field_id'')
          (\<lambda>v field. field\<lparr>NumericalMeasureField.FieldId := Some v\<rparr>),
        set_list (tf_get tfMap ''column'')
          (\<lambda>v field. field\<lparr>NumericalMeasureField.Column := expandColumnIdentifier h v\<rparr>),
        set_list (tf_get tfMap ''aggregation_function'')
          (\<lambda>v field. field\<lparr>NumericalMeasureField.AggregationFunction := expandNumericalAggregationFunction h v\<rparr>),
        set_list (tf_get tfMap ''format_configuration'')
          (\<lambda>v field. field\<lparr>NumericalMeasureField.FormatConfiguration := expandNumberFormatConfiguration h v\<rparr>)]
       NumericalMeasureField_zero"

definition expandNumericalMeasureField :: "helpers \<Rightarrow> tfval list \<Rightarrow> NumericalMeasureField option" where
  "expandNumericalMeasureField h tfList =
     (case tfList of
        [] \<Rightarrow> None
      | TfMap tfMap # _ \<Rightarrow> Some (expandNumericalMeasureField_fill h tfMap)
      | _ # _ \<Rightarrow> None)"

definition MeasureField_zero :: MeasureField where
  "MeasureField_zero =
     \<lparr>MeasureField.CalculatedMeasureField = None,
      MeasureField.CategoricalMeasureField = None,
      MeasureField.DateMeasureField = None,
      MeasureField.NumericalMeasureField = None\<rparr>"

definition expandMeasureFieldInternal :: "helpers \<Rightarrow> tfmap_raw \<Rightarrow> MeasureField option" where
  "expandMeasureFieldInternal h tfMap =
     (if tfMap = None then None
      else Some (apply_steps
        [set_list (tf_get tfMap ''calculated_measure_field'')
           (\<lambda>v field. field\<lparr>MeasureField.CalculatedMeasureField :=
              expandCalculatedMeasureField h v\<rparr>),
         set_list (tf_get tfMap ''categorical_measure_field'')
           (\<lambda>v field. field\<lparr>MeasureField.CategoricalMeasureField :=
              expandCategoricalMeasureField h v\<rparr>),
         set_list (tf_get tfMap ''date_measure_field'')
           (\<lambda>v field. field\<lparr>MeasureField.DateMeasureField :=
              expandDateMeasureField h v\<rparr>),
         set_list (tf_get tfMap ''numerical_measure_field'')
           (\<lambda>v field. field\<lparr>MeasureField.NumericalMeasureField :=
              expandNumericalMeasureField h v\<rparr>)]
        MeasureField_zero))"

fun expandMeasureFields_loop ::
  "helpers \<Rightarrow> tfval list \<Rightarrow> MeasureField list \<Rightarrow> MeasureField list" where
  "expandMeasureFields_loop h [] fields' = fields'"
| "expandMeasureFields_loop h (TfMap tfMap # rest) fields' =
     (case expandMeasureFieldInternal h tfMap of
        None \<Rightarrow> expandMeasureFields_loop h rest fields'
      | Some field \<Rightarrow> expandMeasureFields_loop h rest (fields' @ [field]))"
| "expandMeasureFields_loop h (_ # rest) fields' = expandMeasureFields_loop h rest fields'"

definition expandMeasureFields :: "helpers \<Rightarrow> tfval list \<Rightarrow> MeasureField list option" where
  "expandMeasureFields h tfList =
     (if length tfList = 0 then None
      else (case expandMeasureFields_loop h tfList [] of
              [] \<Rightarrow> None
            | f # fs \<Rightarrow> Some (f # fs)))"

definition expandMeasureField :: "helpers \<Rightarrow> tfval list \<Rightarrow> MeasureField option" where
  "expandMeasureField h tfList =
     (case tfList of
        [] \<Rightarrow> None
      | TfMap tfMap # _ \<Rightarrow> expandMeasureFieldInternal h tfMap
      | _ # _ \<Rightarrow> None)"

subsection \<open>Flatten\<close>

text \<open>
  Each flatten function returns the nil list for a nil API object and otherwise a list
  of one map, filled by its assignments in source order (the \<open>_map\<close> function).
\<close>

definition flattenCategoricalDimensionField_map :: "helpers \<Rightarrow> CategoricalDimensionField \<Rightarrow> (string \<times> tfval) list" where
  "flattenCategoricalDimensionField_map h a =
     apply_steps
       [put_when (CategoricalDimensionField.Column a \<noteq> None) ''column''
          (TfList (flattenColumnIdentifier h (CategoricalDimensionField.Column a))),
        put_when (CategoricalDimensionField.FieldId a \<noteq> None) ''field_id''
          (TfString (case CategoricalDimensionField.FieldId a of None \<Rightarrow> [] | Some v \<Rightarrow> v)),
        put_when (CategoricalDimensionField.FormatConfiguration a \<noteq> None) ''format_configuration''
          (TfList (flattenStringFormatConfiguration h (CategoricalDimensionField.FormatConfiguration a))),
        put_when (CategoricalDimensionField.HierarchyId a \<noteq> None) ''hierarchy_id''
          (TfString (case CategoricalDimensionField.HierarchyId a of None \<Rightarrow> [] | Some v \<Rightarrow> v))]
       []"

definition flattenCategoricalDimensionField :: "helpers \<Rightarrow> CategoricalDimensionField option \<Rightarrow> tfval list" where
  "flattenCategoricalDimensionField h apiObject =
     (case apiObject of
        None \<Rightarrow> []
      | Some a \<Rightarrow> [TfMap (Some (flattenCategoricalDimensionField_map h a))])"

definition flattenDateDimensionField_map :: "helpers \<Rightarrow> DateDimensionField \<Rightarrow> (string \<times> tfval) list" where
  "flattenDateDimensionField_map h a =
     apply_steps
       [put_when (DateDimensionField.Column a \<noteq> None) ''column''
          (TfList (flattenColumnIdentifier h (DateDimensionField.Column a))),
        put ''date_granularity'' (TfTimeGranularity (DateDimensionField.DateGranularity a)),
        put_when (DateDimensionField.FieldId a \<noteq> None) ''field_id''
          (TfString (case DateDimensionField.FieldId a of None \<Rightarrow> [] | Some v \<Rightarrow> v)),
        put_when (DateDimensionField.FormatConfiguration a \<noteq> None) ''format_configuration''
          (TfList (flattenDateTimeFormatConfiguration h (DateDimensionField.FormatConfiguration a))),
        put_when (DateDimensionField.HierarchyId a \<noteq> None) ''hierarchy_id''
          (TfString (case DateDimensionField.HierarchyId a of None \<Rightarrow> [] | Some v \<Rightarrow> v))]
       []"

definition flattenDateDimensionField :: "helpers \<Rightarrow> DateDimensionField option \<Rightarrow> tfval list" where
  "flattenDateDimensionField h apiObject =
     (case apiObject of
        None \<Rightarrow> []
      | Some a \<Rightarrow> [TfMap (Some (flattenDateDimensionField_map h a))])"

definition flattenNumericalDimensionField_map :: "helpers \<Rightarrow> NumericalDimensionField \<Rightarrow> (string \<times> tfval) list" where
  "flattenNumericalDimensionField_map h a =
     apply_steps
       [put_when (NumericalDimensionField.Column a \<noteq> None) ''column''
          (TfList (flattenColumnIdentifier h (NumericalDimensionField.Column a))),
        put_when (NumericalDimensionField.FieldId a \<noteq> None) ''field_id''
          (TfString (case NumericalDimensionField.FieldId a of None \<Rightarrow> [] | Some v \<Rightarrow> v)),
        put_when (NumericalDimensionField.FormatConfiguration a \<noteq> None) ''format_configuration''
          (TfList (flattenNumberFormatConfiguration h (NumericalDimensionField.FormatConfiguration a))),
        put_when (NumericalDimensionField.HierarchyId a \<noteq> None) ''hierarchy_id''
          (TfString (case NumericalDimensionField.HierarchyId a of None \<Rightarrow> [] | Some v \<Rightarrow> v))]
       []"

definition flattenNumericalDimensionField :: "helpers \<Rightarrow> NumericalDimensionField option \<Rightarrow> tfval list" where
  "flattenNumericalDimensionField h apiObject =
     (case apiObject of
        None \<Rightarrow> []
      | Some a \<Rightarrow> [TfMap (Some (flattenNumericalDimensionField_map h a))])"

definition flattenDimensionField_map :: "helpers \<Rightarrow> DimensionField \<Rightarrow> tfval" where
  "flattenDimensionField_map h a =
     TfMap (Some (apply_steps
       [put_when (DimensionField.CategoricalDimensionField a \<noteq> None) ''categorical_dimension_field''
          (TfList (flattenCategoricalDimensionField h (DimensionField.CategoricalDimensionField a))),
        put_when (DimensionField.DateDimensionField a \<noteq> None) ''date_dimension_field''
          (TfList (flattenDateDimensionField h (DimensionField.DateDimensionField a))),
        put_when (DimensionField.NumericalDimensionField a \<noteq> None) ''numerical_dimension_field''
          (TfList (flattenNumericalDimensionField h (DimensionField.NumericalDimensionField a)))]
       []))"

definition flattenDimensionField :: "helpers \<Rightarrow> DimensionField option \<Rightarrow> tfval list" where
  "flattenDimensionField h apiObject =
     (case apiObject of None \<Rightarrow> [] | Some a \<Rightarrow> [flattenDimensionField_map h a])"

definition flattenDimensionFields :: "helpers \<Rightarrow> DimensionField list \<Rightarrow> tfval list" where
  "flattenDimensionFields h apiObject =
     (if length apiObject = 0 then [] else map (flattenDimensionField_map h) apiObject)"

definition flattenCalculatedMeasureField_map :: "helpers \<Rightarrow> CalculatedMeasureField \<Rightarrow> (string \<times> tfval) list" where
  "flattenCalculatedMeasureField_map h a =
     apply_steps
       [put_when (CalculatedMeasureField.FieldId a \<noteq> None) ''field_id''
          (TfString (case CalculatedMeasureField.FieldId a of None \<Rightarrow> [] | Some v \<Rightarrow> v)),
        put_when (CalculatedMeasureField.Expression a \<noteq> None) ''expression''
          (TfString (case CalculatedMeasureField.Expression a of None \<Rightarrow> [] | Some v \<Rightarrow> v))]
       []"

definition flattenCalculatedMeasureField :: "helpers \<Rightarrow> CalculatedMeasureField option \<Rightarrow> tfval list" where
  "flattenCalculatedMeasureField h apiObject =
     (case apiObject of
        None \<Rightarrow> []
      | Some a \<Rightarrow> [TfMap (Some (flattenCalculatedMeasureField_map h a))])"

definition flattenCategoricalMeasureField_map :: "helpers \<Rightarrow> CategoricalMeasureField \<Rightarrow> (string \<times> tfval) list" where
  "flattenCategoricalMeasureField_map h a =
     apply_steps
       [put ''aggregation_function'' (TfCategoricalAggregationFunction (CategoricalMeasureField.AggregationFunction a)),
        put_when (CategoricalMeasureField.Column a \<noteq> None) ''column''
          (TfList (flattenColumnIdentifier h (CategoricalMeasureField.Column a))),
        put_when (CategoricalMeasureField.FieldId a \<noteq> None) ''field_id''
          (TfString (case CategoricalMeasureField.FieldId a of None \<Rightarrow> [] | Some v \<Rightarrow> v)),
        put_when (CategoricalMeasureField.FormatConfiguration a \<noteq> None) ''format_configuration''
          (TfList (flattenStringFormatConfiguration h (CategoricalMeasureField.FormatConfiguration a)))]
       []"

definition flattenCategoricalMeasureField :: "helpers \<Rightarrow> CategoricalMeasureField option \<Rightarrow> tfval list" where
  "flattenCategoricalMeasureField h apiObject =
     (case apiObject of
        None \<Rightarrow> []
      | Some a \<Rightarrow> [TfMap (Some (flattenCategoricalMeasureField_map h a))])"

definition flattenDateMeasureField_map :: "helpers \<Rightarrow> DateMeasureField \<Rightarrow> (string \<times> tfval) list" where
  "flattenDateMeasureField_map h a =
     apply_steps
       [put ''aggregation_function'' (TfDateAggregationFunction (DateMeasureField.AggregationFunction a)),
        put_when (DateMeasureField.Column a \<noteq> None) ''column''
          (TfList (flattenColumnIdentifier h (DateMeasureField.Column a))),
        put_when (DateMeasureField.FieldId a \<noteq> None) ''field_id''
          (TfString (case DateMeasureField.FieldId a of None \<Rightarrow> [] | Some v \<Rightarrow> v)),
        put_when (DateMeasureField.FormatConfiguration a \<noteq> None) ''format_configuration''
          (TfList (flattenDateTimeFormatConfiguration h (DateMeasureField.FormatConfiguration a)))]
       []"

definition flattenDateMeasureField :: "helpers \<Rightarrow> DateMeasureField option \<Rightarrow> tfval list" where
  "flattenDateMeasureField h apiObject =
     (case apiObject of
        None \<Rightarrow> []
      | Some a \<Rightarrow> [TfMap (Some (flattenDateMeasureField_map h a))])"

definition flattenNumericalMeasureField_map :: "helpers \<Rightarrow> NumericalMeasureField \<Rightarrow> (string \<times> tfval) list" where
  "flattenNumericalMeasureField_map h a =
     apply_steps
       [put_when (NumericalMeasureField.AggregationFunction a \<noteq> None) ''aggregation_function''
          (TfList (flattenNumericalAggregationFunction h (NumericalMeasureField.AggregationFunction a))),
        put_when (NumericalMeasureField.Column a \<noteq> None) ''column''
          (TfList (flattenColumnIdentifier h (NumericalMeasureField.Column a))),
        put_when (NumericalMeasureField.FieldId a \<noteq> None) ''field_id''
          (TfString (case NumericalMeasureField.FieldId a of None \<Rightarrow> [] | Some v \<Rightarrow> v)),
        put_when (NumericalMeasureField.FormatConfiguration a \<noteq> None) ''format_configuration''
          (TfList (flattenNumberFormatConfiguration h (NumericalMeasureField.FormatConfiguration a)))]
       []"

definition flattenNumericalMeasureField :: "helpers \<Rightarrow> NumericalMeasureField option \<Rightarrow> tfval list" where
  "flattenNumericalMeasureField h apiObject =
     (case apiObject of
        None \<Rightarrow> []
      | Some a \<Rightarrow> [TfMap (Some (flattenNumericalMeasureField_map h a))])"

definition flattenMeasureField_map :: "helpers \<Rightarrow> MeasureField \<Rightarrow> tfval" where
  "flattenMeasureField_map h a =
     TfMap (Some (apply_steps
       [put_when (MeasureField.CalculatedMeasureField a \<noteq> None) ''calculated_measure_field''
          (TfList (flattenCalculatedMeasureField h (MeasureField.CalculatedMeasureField a))),
        put_when (MeasureField.CategoricalMeasureField a \<noteq> None) ''categorical_measure_field''
          (TfList (flattenCategoricalMeasureField h (MeasureField.CategoricalMeasureField a))),
        put_when (MeasureField.DateMeasureField a \<noteq> None) ''date_measure_field''
          (TfList (flattenDateMeasureField h (MeasureField.DateMeasureField a))),
        put_when (MeasureField.NumericalMeasureField a \<noteq> None) ''numerical_measure_field''
          (TfList (flattenNumericalMeasureField h (MeasureField.NumericalMeasureField a)))]
       []))"

definition flattenMeasureField :: "helpers \<Rightarrow> MeasureField option \<Rightarrow> tfval list" where
  "flattenMeasureField h apiObject =
     (case apiObject of None \<Rightarrow> [] | Some a \<Rightarrow> [flattenMeasureField_map h a])"

definition flattenMeasureFields :: "helpers \<Rightarrow> MeasureField list \<Rightarrow> tfval list" where
  "flattenMeasureFields h apiObject =
     (if length apiObject = 0 then [] else map (flattenMeasureField_map h) apiObject)"

section \<open>Schemas\<close>

subsection \<open>Automation rule\<close>

text \<open>
  The schema of the plugin framework, as data: an attribute with its kind, its
  required, optional and computed flags, its validators, plan modifiers and default; a
  nested block with its validators, attributes and blocks. The attributes built by
  helper functions of other packages are kept by name.
\<close>

datatype validator = SizeAtMost nat | EnumValidate string

datatype plan_modifier = UseStateForUnknown

datatype attr_kind =
    StringKind | ARNKind | Int64Kind | BoolKind | Float64Kind | StringListKind | StringMapKind

datatype attribute =
    Attribute attr_kind bool bool bool "validator list" "plan_modifier list" "bool option"
  | ARNAttributeComputedOnly
  | IDAttribute
  | TagsAttribute
  | TagsAttributeComputedOnly

datatype block =
    SetNestedBlock "validator list" "(string \<times> attribute) list" "(string \<times> block) list"
  | ListNestedBlock "validator list" "(string \<times> attribute) list" "(string \<times> block) list"

record fw_schema =
  Attributes :: "(string \<times> attribute) list"
  Blocks :: "(string \<times> block) list"

text \<open>Attributes by their flags: required; optional; optional and computed.\<close>

definition required :: "attr_kind \<Rightarrow> validator list \<Rightarrow> attribute" where
  "required k vs = Attribute k True False False vs [] None"

definition optional :: "attr_kind \<Rightarrow> validator list \<Rightarrow> attribute" where
  "optional k vs = Attribute k False True False vs [] None"

definition StringFilterSchema :: block where
  "StringFilterSchema =
     SetNestedBlock [SizeAtMost 20]
       [(''comparison'', required StringKind [EnumValidate ''StringFilterComparison'']),
        (''value'', required StringKind [])]
       []"

definition NumberFilterSchema :: block where
  "NumberFilterSchema =
     SetNestedBlock [SizeAtMost 20]
       [(''eq'', optional Float64Kind []),
        (''gte'', optional Float64Kind []),
        (''lte'', optional Float64Kind [])]
       []"

definition DateFilterSchema :: block where
  "DateFilterSchema =
     SetNestedBlock [SizeAtMost 20]
       [(''end'', optional StringKind []),
        (''start'', optional StringKind [])]
       [(''date_range'',
         ListNestedBlock [SizeAtMost 1]
           [(''unit'', required StringKind [EnumValidate ''DateRangeUnit'']),
            (''value'', required Int64Kind [])]
           [])]"

definition MapFilterSchema :: block where
  "MapFilterSchema =
     SetNestedBlock [SizeAtMost 20]
       [(''comparison'', required StringKind [EnumValidate ''MapFilterComparison'']),
        (''key'', required StringKind []),
        (''value'', required StringKind [])]
       []"

definition criteria_blocks :: "(string \<times> block) list" where
  "criteria_blocks =
     [(''aws_account_id'', StringFilterSchema),
      (''aws_account_name'', StringFilterSchema),
      (''company_name'', StringFilterSchema),
      (''compliance_associated_standards_id'', StringFilterSchema),
      (''compliance_security_control_id'', StringFilterSchema),
      (''compliance_status'', StringFilterSchema),
      (''confidence'', NumberFilterSchema),
      (''created_at'', DateFilterSchema),
      (''criticality'', NumberFilterSchema),
      (''description'', StringFilterSchema),
      (''first_observed_at'', DateFilterSchema),
      (''generator_id'', StringFilterSchema),
      (''id'', StringFilterSchema),
      (''last_observed_at'', DateFilterSchema),
      (''note_text'', StringFilterSchema),
      (''note_updated_at'', DateFilterSchema),
      (''note_updated_by'', StringFilterSchema),
      (''product_arn'', StringFilterSchema),
      (''product_name'', StringFilterSchema),
      (''record_state'', StringFilterSchema),
      (''related_findings_id'', StringFilterSchema),
      (''related_findings_product_arn'', StringFilterSchema),
      (''resource_application_arn'', StringFilterSchema),
      (''resource_application_name'', StringFilterSchema),
      (''resource_details_other'', MapFilterSchema),
      (''resource_id'', StringFilterSchema),
      (''resource_partition'', StringFilterSchema),
      (''resource_region'', StringFilterSchema),
      (''resource_tags'', MapFilterSchema),
      (''resource_type'', StringFilterSchema),
      (''severity_label'', StringFilterSchema),
      (''source_url'', StringFilterSchema),
      (''title'', StringFilterSchema),
      (''type'', StringFilterSchema),
      (''updated_at'', DateFilterSchema),
      (''user_defined_fields'', MapFilterSchema),
      (''verification_state'', StringFilterSchema),
      (''workflow_status'', StringFilterSchema)]"

definition automationRuleResource_Schema :: fw_schema where
  "automationRuleResource_Schema =
     \<lparr>Attributes =
        [(''arn'', ARNAttributeComputedOnly),
         (''description'', required StringKind []),
         (''id'', IDAttribute),
         (''is_terminal'', Attribute BoolKind False True True [] [] (Some False)),
         (''rule_name'', required StringKind []),
         (''rule_order'', required Int64Kind []),
         (''rule_status'',
          Attribute StringKind False True True [EnumValidate ''RuleStatus''] [UseStateForUnknown] None),
         (''tags'', TagsAttribute),
         (''tags_all'', TagsAttributeComputedOnly)],
      Blocks =
        [(''actions'',
          SetNestedBlock []
            [(''type'', optional StringKind [EnumValidate ''AutomationRulesActionType''])]
            [(''finding_fields_update'',
              ListNestedBlock [SizeAtMost 1]
                [(''confidence'', optional Int64Kind []),
                 (''criticality'', optional Int64Kind []),
                 (''types'', optional StringListKind []),
                 (''user_defined_fields'', optional StringMapKind []),
                 (''verification_state'', optional StringKind [EnumValidate ''VerificationState''])]
                [(''note'',
                  ListNestedBlock [SizeAtMost 1]
                    [(''text'', required StringKind []),
                     (''updated_by'', required StringKind [])]
                    []),
                 (''related_findings'',
                  SetNestedBlock []
                    [(''id'', required StringKind []),
                     (''product_arn'', required ARNKind [])]
                    []),
                 (''severity'',
                  ListNestedBlock [SizeAtMost 1]
                    [(''label'',
                      Attribute StringKind False True True [EnumValidate ''SeverityLabel''] [] None),
                     (''product'', optional Float64Kind [])]
                    []),
                 (''workflow'',
                  ListNestedBlock [SizeAtMost 1]
                    [(''status'', optional StringKind [EnumValidate ''WorkflowStatus''])]
                    [])])]),
         (''criteria'', ListNestedBlock [SizeAtMost 1] [] criteria_blocks)]\<rparr>"

text \<open>
  The validators and nested blocks of a block, the sizes a block admits, and the nested
  blocks of a schema with their paths.
\<close>

fun validators :: "block \<Rightarrow> validator list" where
  "validators (SetNestedBlock vs attrs blocks) = vs"
| "validators (ListNestedBlock vs attrs blocks) = vs"

fun nested :: "block \<Rightarrow> (string \<times> block) list" where
  "nested (SetNestedBlock vs attrs blocks) = blocks"
| "nested (ListNestedBlock vs attrs blocks) = blocks"

fun size_allowed :: "nat \<Rightarrow> validator \<Rightarrow> bool" where
  "size_allowed k (SizeAtMost n) = (k \<le> n)"
| "size_allowed k (EnumValidate t) = True"

definition admits :: "block \<Rightarrow> nat \<Rightarrow> bool" where
  "admits b k = list_all (size_allowed k) (validators b)"

fun is_size_bound :: "validator \<Rightarrow> bool" where
  "is_size_bound (SizeAtMost n) = True"
| "is_size_bound (EnumValidate t) = False"

definition bounded :: "block \<Rightarrow> bool" where
  "bounded b = list_ex is_size_bound (validators b)"

fun blocks_below :: "nat \<Rightarrow> string list \<Rightarrow> (string \<times> block) list \<Rightarrow> (string list \<times> block) list" where
  "blocks_below 0 path bs = []"
| "blocks_below (Suc depth) path bs =
     concat (map (\<lambda>nb. (path @ [fst nb], snd nb)
                        # blocks_below depth (path @ [fst nb]) (nested (snd nb))) bs)"

text \<open>All nested blocks of the automation rule schema: it nests three levels deep.\<close>

definition all_blocks :: "fw_schema \<Rightarrow> (string list \<times> block) list" where
  "all_blocks s = blocks_below 4 [] (Blocks s)"

definition block_at :: "fw_schema \<Rightarrow> string list \<Rightarrow> block option" where
  "block_at s path = map_of (all_blocks s) path"

subsection \<open>QuickSight field lists\<close>

text \<open>
  The schema of the older plugin SDK: a list with its item bounds and the schema of its
  elements. The schemas built by helper functions of other files are kept by name.
\<close>

datatype string_validation = StringLenBetween int int | Validate_enum string

datatype sdk_schema =
    ListSchema int int bool "(string \<times> sdk_schema) list"
  | columnSchema bool
  | stringSchema bool string_validation
  | stringFormatConfigurationSchema
  | dateTimeFormatConfigurationSchema
  | numberFormatConfigurationSchema
  | numericalAggregationFunctionSchema bool

fun MinItems :: "sdk_schema \<Rightarrow> int" where
  "MinItems (ListSchema lo hi opt elem) = lo"
| "MinItems _ = 0"

fun MaxItems :: "sdk_schema \<Rightarrow> int" where
  "MaxItems (ListSchema lo hi opt elem) = hi"
| "MaxItems _ = 0"

fun Elem :: "sdk_schema \<Rightarrow> (string \<times> sdk_schema) list" where
  "Elem (ListSchema lo hi opt elem) = elem"
| "Elem _ = []"

definition measureFieldsMaxItems5 :: int where "measureFieldsMaxItems5 = 5"
definition measureFieldsMaxItems20 :: int where "measureFieldsMaxItems20 = 20"
definition measureFieldsMaxItems40 :: int where "measureFieldsMaxItems40 = 40"
definition measureFieldsMaxItems200 :: int where "measureFieldsMaxItems200 = 200"
definition dimensionsFieldMaxItems10 :: int where "dimensionsFieldMaxItems10 = 10"
definition dimensionsFieldMaxItems40 :: int where "dimensionsFieldMaxItems40 = 40"
definition dimensionsFieldMaxItems200 :: int where "dimensionsFieldMaxItems200 = 200"

definition dimensionFieldSchema :: "int \<Rightarrow> sdk_schema" where
  "dimensionFieldSchema maxItems =
     ListSchema 1 maxItems True
       [(''categorical_dimension_field'',
         ListSchema 1 1 True
           [(''column'', columnSchema True),
            (''field_id'', stringSchema True (StringLenBetween 1 512)),
            (''format_configuration'', stringFormatConfigurationSchema),
            (''hierarchy_id'', stringSchema False (StringLenBetween 1 512))]),
        (''date_dimension_field'',
         ListSchema 1 1 True
           [(''column'', columnSchema True),
            (''field_id'', stringSchema True (StringLenBetween 1 512)),
            (''date_granularity'', stringSchema False (Validate_enum ''TimeGranularity'')),
            (''format_configuration'', dateTimeFormatConfigurationSchema),
            (''hierarchy_id'', stringSchema False (StringLenBetween 1 512))]),
        (''numerical_dimension_field'',
         ListSchema 1 1 True
           [(''column'', columnSchema True),
            (''field_id'', stringSchema True (StringLenBetween 1 512)),
            (''format_configuration'', numberFormatConfigurationSchema),
            (''hierarchy_id'', stringSchema False (StringLenBetween 1 512))])]"

definition measureFieldSchema :: "int \<Rightarrow> sdk_schema" where
  "measureFieldSchema maxItems =
     ListSchema 1 maxItems True
       [(''calculated_measure_field'',
         ListSchema 1 1 True
           [(''expression'', stringSchema True (StringLenBetween 1 4096)),
            (''field_id'', stringSchema True (StringLenBetween 1 512))]),
        (''categorical_measure_field'',
         ListSchema 1 1 True
           [(''column'', columnSchema True),
            (''field_id'', stringSchema True (StringLenBetween 1 512)),
            (''aggregation_function'',
             stringSchema False (Validate_enum ''CategoricalAggregationFunction'')),
            (''format_configuration'', stringFormatConfigurationSchema)]),
        (''date_measure_field'',
         ListSchema 1 1 True
           [(''column'', columnSchema True),
            (''field_id'', stringSchema True (StringLenBetween 1 512)),
            (''aggregation_function'', stringSchema False (Validate_enum ''DateAggregationFunction'')),
            (''format_configuration'', dateTimeFormatConfigurationSchema)]),
        (''numerical_measure_field'',
         ListSchema 1 1 True
           [(''column'', columnSchema True),
            (''field_id'', stringSchema True (StringLenBetween 1 512)),
            (''aggregation_function'', numericalAggregationFunctionSchema False),
            (''format_configuration'', numberFormatConfigurationSchema)])]"

section \<open>Auxiliary notions for the proofs\<close>

text \<open>A step that continues keeps the diagnostics free of errors; a step that returns
  early does so with an error.\<close>

definition quiet_step :: "('o \<times> diagnostic list \<Rightarrow> 'o building) \<Rightarrow> bool" where
  "quiet_step f = (\<forall>s s'. f s = Inr s' \<longrightarrow> \<not> HasError (snd s) \<longrightarrow> \<not> HasError (snd s'))"

definition loud_step :: "('o \<times> diagnostic list \<Rightarrow> 'o building) \<Rightarrow> bool" where
  "loud_step f = (\<forall>s d. f s = Inl d \<longrightarrow> HasError d)"

text \<open>A step that does not touch a component of the object under construction.\<close>

definition keeps :: "('o \<Rightarrow> 'x) \<Rightarrow> ('o \<times> diagnostic list \<Rightarrow> 'o building) \<Rightarrow> bool" where
  "keeps sel f = (\<forall>s s'. f s = Inr s' \<longrightarrow> sel (fst s') = sel (fst s))"

text \<open>
  What the guarded assignments of the QuickSight expand functions read from a
  configuration value: the string, if it is a non-empty string, and the list, if it is a
  non-empty list.
\<close>

definition string_attr :: "tfval \<Rightarrow> string option" where
  "string_attr x = (case x of TfString v \<Rightarrow> if v \<noteq> [] then Some v else None | _ \<Rightarrow> None)"

definition list_attr :: "tfval \<Rightarrow> tfval list option" where
  "list_attr x = (case x of TfList v \<Rightarrow> if length v > 0 then Some v else None | _ \<Rightarrow> None)"

definition string_or_empty :: "string option \<Rightarrow> string" where
  "string_or_empty s = (case s of None \<Rightarrow> [] | Some v \<Rightarrow> v)"

definition expanded :: "(tfval list \<Rightarrow> 'a option) \<Rightarrow> tfval list option \<Rightarrow> 'a option" where
  "expanded expand v = (case v of None \<Rightarrow> None | Some l \<Rightarrow> expand l)"

text \<open>
  The conditions under which a flattened object expands back: a string field is not a
  pointer to the empty string, and a sub-object is nil or comes back from its own
  flatten and expand functions, its flattened list not being empty. \<open>_stored\<close> is the
  object as it comes back: the fields of a named string type are cleared.
  \<open>stored_string\<close> and \<open>stored_list\<close> are the map entries that the flatten functions
  write for a pointer field: none for a nil pointer.
\<close>

definition stored_string :: "string option \<Rightarrow> tfval" where
  "stored_string s = (case s of None \<Rightarrow> TfNil | Some v \<Rightarrow> TfString v)"

definition stored_list :: "('a option \<Rightarrow> tfval list) \<Rightarrow> 'a option \<Rightarrow> tfval" where
  "stored_list flatten v = (case v of None \<Rightarrow> TfNil | Some x \<Rightarrow> TfList (flatten v))"

definition clean :: "string option \<Rightarrow> bool" where
  "clean s = (s \<noteq> Some [])"

definition returns :: "(tfval list \<Rightarrow> 'a option) \<Rightarrow> ('a option \<Rightarrow> tfval list) \<Rightarrow> 'a option \<Rightarrow> bool" where
  "returns expand flatten v = (v = None \<or> (flatten v \<noteq> [] \<and> expand (flatten v) = v))"

definition CategoricalDimensionField_returns :: "helpers \<Rightarrow> CategoricalDimensionField \<Rightarrow> bool" where
  "CategoricalDimensionField_returns h x =
     (returns (expandColumnIdentifier h) (flattenColumnIdentifier h) (CategoricalDimensionField.Column x) \<and>
      clean (CategoricalDimensionField.FieldId x) \<and>
      returns (expandStringFormatConfiguration h) (flattenStringFormatConfiguration h) (CategoricalDimensionField.FormatConfiguration x) \<and>
      clean (CategoricalDimensionField.HierarchyId x))"

definition CategoricalDimensionField_stored :: "CategoricalDimensionField \<Rightarrow> CategoricalDimensionField" where
  "CategoricalDimensionField_stored x = x"

definition DateDimensionField_returns :: "helpers \<Rightarrow> DateDimensionField \<Rightarrow> bool" where
  "DateDimensionField_returns h x =
     (returns (expandColumnIdentifier h) (flattenColumnIdentifier h) (DateDimensionField.Column x) \<and>
      clean (DateDimensionField.FieldId x) \<and>
      returns (expandDateTimeFormatConfiguration h) (flattenDateTimeFormatConfiguration h) (DateDimensionField.FormatConfiguration x) \<and>
      clean (DateDimensionField.HierarchyId x))"

definition DateDimensionField_stored :: "DateDimensionField \<Rightarrow> DateDimensionField" where
  "DateDimensionField_stored x = x\<lparr>DateDimensionField.DateGranularity := []\<rparr>"

definition NumericalDimensionField_returns :: "helpers \<Rightarrow> NumericalDimensionField \<Rightarrow> bool" where
  "NumericalDimensionField_returns h x =
     (returns (expandColumnIdentifier h) (flattenColumnIdentifier h) (NumericalDimensionField.Column x) \<and>
      clean (NumericalDimensionField.FieldId x) \<and>
      returns (expandNumberFormatConfiguration h) (flattenNumberFormatConfiguration h) (NumericalDimensionField.FormatConfiguration x) \<and>
      clean (NumericalDimensionField.HierarchyId x))"

definition NumericalDimensionField_stored :: "NumericalDimensionField \<Rightarrow> NumericalDimensionField" where
  "NumericalDimensionField_stored x = x"

definition CalculatedMeasureField_returns :: "helpers \<Rightarrow> CalculatedMeasureField \<Rightarrow> bool" where
  "CalculatedMeasureField_returns h x =
     (clean (CalculatedMeasureField.Expression x) \<and>
      clean (CalculatedMeasureField.FieldId x))"

definition CalculatedMeasureField_stored :: "CalculatedMeasureField \<Rightarrow> CalculatedMeasureField" where
  "CalculatedMeasureField_stored x = x"

definition CategoricalMeasureField_returns :: "helpers \<Rightarrow> CategoricalMeasureField \<Rightarrow> bool" where
  "CategoricalMeasureField_returns h x =
     (returns (expandColumnIdentifier h) (flattenColumnIdentifier h) (CategoricalMeasureField.Column x) \<and>
      clean (CategoricalMeasureField.FieldId x) \<and>
      returns (expandStringFormatConfiguration h) (flattenStringFormatConfiguration h) (CategoricalMeasureField.FormatConfiguration x))"

definition CategoricalMeasureField_stored :: "CategoricalMeasureField \<Rightarrow> CategoricalMeasureField" where
  "CategoricalMeasureField_stored x = x\<lparr>CategoricalMeasureField.AggregationFunction := []\<rparr>"

definition DateMeasureField_returns :: "helpers \<Rightarrow> DateMeasureField \<Rightarrow> bool" where
  "DateMeasureField_returns h x =
     (returns (expandColumnIdentifier h) (flattenColumnIdentifier h) (DateMeasureField.Column x) \<and>
      clean (DateMeasureField.FieldId x) \<and>
      returns (expandDateTimeFormatConfiguration h) (flattenDateTimeFormatConfiguration h) (DateMeasureField.FormatConfiguration x))"

definition DateMeasureField_stored :: "DateMeasureField \<Rightarrow> DateMeasureField" where
  "DateMeasureField_stored x = x\<lparr>DateMeasureField.AggregationFunction := []\<rparr>"

definition NumericalMeasureField_returns :: "helpers \<Rightarrow> NumericalMeasureField \<Rightarrow> bool" where
  "NumericalMeasureField_returns h x =
     (returns (expandNumericalAggregationFunction h) (flattenNumericalAggregationFunction h) (NumericalMeasureField.AggregationFunction x) \<and>
      returns (expandColumnIdentifier h) (flattenColumnIdentifier h) (NumericalMeasureField.Column x) \<and>
      clean (NumericalMeasureField.FieldId x) \<and>
      returns (expandNumberFormatConfiguration h) (flattenNumberFormatConfiguration h) (NumericalMeasureField.FormatConfiguration x))"

definition NumericalMeasureField_stored :: "NumericalMeasureField \<Rightarrow> NumericalMeasureField" where
  "NumericalMeasureField_stored x = x"

definition holds_of :: "('a \<Rightarrow> bool) \<Rightarrow> 'a option \<Rightarrow> bool" where
  "holds_of P v = (case v of None \<Rightarrow> True | Some x \<Rightarrow> P x)"

definition DimensionField_returns :: "helpers \<Rightarrow> DimensionField \<Rightarrow> bool" where
  "DimensionField_returns h d =
     (holds_of (CategoricalDimensionField_returns h) (DimensionField.CategoricalDimensionField d) \<and>
      holds_of (DateDimensionField_returns h) (DimensionField.DateDimensionField d) \<and>
      holds_of (NumericalDimensionField_returns h) (DimensionField.NumericalDimensionField d))"

definition DimensionField_stored :: "DimensionField \<Rightarrow> DimensionField" where
  "DimensionField_stored d =
     d\<lparr>DimensionField.DateDimensionField :=
         map_option DateDimensionField_stored (DimensionField.DateDimensionField d)\<rparr>"

definition MeasureField_returns :: "helpers \<Rightarrow> MeasureField \<Rightarrow> bool" where
  "MeasureField_returns h d =
     (holds_of (CalculatedMeasureField_returns h) (MeasureField.CalculatedMeasureField d) \<and>
      holds_of (CategoricalMeasureField_returns h) (MeasureField.CategoricalMeasureField d) \<and>
      holds_of (DateMeasureField_returns h) (MeasureField.DateMeasureField d) \<and>
      holds_of (NumericalMeasureField_returns h) (MeasureField.NumericalMeasureField d))"

definition MeasureField_stored :: "MeasureField \<Rightarrow> MeasureField" where
  "MeasureField_stored d =
     d\<lparr>MeasureField.CategoricalMeasureField :=
         map_option CategoricalMeasureField_stored (MeasureField.CategoricalMeasureField d),
       MeasureField.DateMeasureField :=
         map_option DateMeasureField_stored (MeasureField.DateMeasureField d)\<rparr>"

text \<open>Two clients for concrete runs: one whose pages are all retrieved, one whose
  second page fails.\<close>

definition alice :: AuthorizedPrincipal where
  "alice = \<lparr>AuthorizedPrincipal.Principal = Some ''123456789012'',
             AuthorizedPrincipal.PrincipalType = ''AWS_ACCOUNT''\<rparr>"

definition by_domain :: ListVpcEndpointAccessInput where
  "by_domain = \<lparr>ListVpcEndpointAccessInput.DomainName = Some ''logs'',
                 ListVpcEndpointAccessInput.NextToken = None\<rparr>"

definition two_page_client :: opensearch_Client where
  "two_page_client =
     \<lparr>AuthorizeVpcEndpointAccess = (\<lambda>i. Inr None),
      RevokeVpcEndpointAccess = (\<lambda>i. None),
      ListVpcEndpointAccess = (\<lambda>i.
        [Inr None,
         Inr (Some \<lparr>AuthorizedPrincipalList = [alice],
                    ListVpcEndpointAccessOutput.NextToken = None\<rparr>)])\<rparr>"

definition failing_page_client :: opensearch_Client where
  "failing_page_client =
     \<lparr>AuthorizeVpcEndpointAccess = (\<lambda>i. Inr None),
      RevokeVpcEndpointAccess = (\<lambda>i. None),
      ListVpcEndpointAccess = (\<lambda>i.
        [Inr (Some \<lparr>AuthorizedPrincipalList = [alice],
                    ListVpcEndpointAccessOutput.NextToken = Some ''t''\<rparr>),
         Inl (APIError ''InternalException'' ''boom''),
         Inr None])\<rparr>"

definition example_access :: resourceAuthorizeVpcEndpointAccessData where
  "example_access =
     \<lparr>resourceAuthorizeVpcEndpointAccessData.Account = Known ''123456789012'',
      resourceAuthorizeVpcEndpointAccessData.DomainName = Known ''logs'',
      resourceAuthorizeVpcEndpointAccessData.AuthorizedPrincipal = Unknown\<rparr>"

definition alice_data :: authorizedPrincipalData where
  "alice_data = \<lparr>authorizedPrincipalData.Principal = Known ''123456789012'',
                  authorizedPrincipalData.PrincipalType = Known ''AWS_ACCOUNT''\<rparr>"

text \<open>A converter that always succeeds, and one whose flattening reports an error.\<close>

definition plain_flex :: autoflex where
  "plain_flex =
     \<lparr>flex_Expand = (\<lambda>plan i. ([], i)),
      flex_Flatten_Output = (\<lambda>out data. ([],
        data\<lparr>resourceAuthorizeVpcEndpointAccessData.AuthorizedPrincipal := Known [alice_data]\<rparr>)),
      flex_Flatten_Principal = (\<lambda>p data. ([],
        data\<lparr>resourceAuthorizeVpcEndpointAccessData.AuthorizedPrincipal := Known [alice_data]\<rparr>))\<rparr>"

definition failing_flex :: autoflex where
  "failing_flex =
     \<lparr>flex_Expand = (\<lambda>plan i. ([], i)),
      flex_Flatten_Output = (\<lambda>out data. ([FrameworkError ''Incompatible Types''],
        data\<lparr>resourceAuthorizeVpcEndpointAccessData.AuthorizedPrincipal := Known [alice_data]\<rparr>)),
      flex_Flatten_Principal = (\<lambda>p data. ([FrameworkError ''Incompatible Types''],
        data\<lparr>resourceAuthorizeVpcEndpointAccessData.AuthorizedPrincipal := Known [alice_data]\<rparr>))\<rparr>"

definition granting_client :: opensearch_Client where
  "granting_client =
     \<lparr>AuthorizeVpcEndpointAccess = (\<lambda>i. Inr (Some
        \<lparr>AuthorizeVpcEndpointAccessOutput.AuthorizedPrincipal = Some alice\<rparr>)),
      RevokeVpcEndpointAccess = (\<lambda>i. None),
      ListVpcEndpointAccess = (\<lambda>i.
        [Inr (Some \<lparr>AuthorizedPrincipalList = [alice],
                    ListVpcEndpointAccessOutput.NextToken = None\<rparr>)])\<rparr>"

definition revoked_client :: opensearch_Client where
  "revoked_client =
     \<lparr>AuthorizeVpcEndpointAccess = (\<lambda>i. Inl (APIError ''ValidationException'' ''no domain'')),
      RevokeVpcEndpointAccess = (\<lambda>i. Some (APIError ''ResourceNotFoundException'' ''gone'')),
      ListVpcEndpointAccess = (\<lambda>i. [])\<rparr>"

definition denied_client :: opensearch_Client where
  "denied_client =
     \<lparr>AuthorizeVpcEndpointAccess = (\<lambda>i. Inr (Some
        \<lparr>AuthorizeVpcEndpointAccessOutput.AuthorizedPrincipal = None\<rparr>)),
      RevokeVpcEndpointAccess = (\<lambda>i. Some (APIError ''AccessDeniedException'' ''denied'')),
      ListVpcEndpointAccess = (\<lambda>i. [Inl (APIError ''AccessDeniedException'' ''denied'')])\<rparr>"

definition rule_arn :: string where
  "rule_arn = ''arn:aws:securityhub:us-east-1:123456789012:automation-rule/1''"

definition example_rule :: automationRuleResourceModel where
  "example_rule =
     \<lparr>automationRuleResourceModel.Actions = Null,
      automationRuleResourceModel.ARN = Known rule_arn,
      automationRuleResourceModel.Criteria = Null,
      automationRuleResourceModel.Description = Known ''suppress'',
      automationRuleResourceModel.ID = Known rule_arn,
      automationRuleResourceModel.IsTerminal = Known False,
      automationRuleResourceModel.RuleName = Known ''rule'',
      automationRuleResourceModel.RuleOrder = Known 1,
      automationRuleResourceModel.RuleStatus = Known ''ENABLED'',
      automationRuleResourceModel.Tags = Null,
      automationRuleResourceModel.TagsAll = Null\<rparr>"

definition example_config :: AutomationRulesConfig where
  "example_config =
     \<lparr>AutomationRulesConfig.Actions = None,
      AutomationRulesConfig.Criteria = None,
      AutomationRulesConfig.Description = Some ''suppress'',
      AutomationRulesConfig.IsTerminal = Some False,
      AutomationRulesConfig.RuleArn = Some rule_arn,
      AutomationRulesConfig.RuleName = Some ''rule'',
      AutomationRulesConfig.RuleOrder = Some 1,
      AutomationRulesConfig.RuleStatus = ''ENABLED''\<rparr>"

definition working_client :: securityhub_Client where
  "working_client =
     \<lparr>CreateAutomationRule = (\<lambda>i. Inr (Some \<lparr>CreateAutomationRuleOutput.RuleArn = Some rule_arn\<rparr>)),
      BatchGetAutomationRules = (\<lambda>i. Inr (Some \<lparr>Rules = [example_config]\<rparr>)),
      BatchUpdateAutomationRules = (\<lambda>i. Inr (Some ())),
      BatchDeleteAutomationRules = (\<lambda>i. None)\<rparr>"

definition gone_client :: securityhub_Client where
  "gone_client =
     \<lparr>CreateAutomationRule = (\<lambda>i. Inr None),
      BatchGetAutomationRules = (\<lambda>i. Inl (APIError ''ResourceNotFoundException'' ''gone'')),
      BatchUpdateAutomationRules = (\<lambda>i. Inr None),
      BatchDeleteAutomationRules = (\<lambda>i. Some (APIError ''ResourceNotFoundException'' ''gone''))\<rparr>"

definition throttled_client :: securityhub_Client where
  "throttled_client =
     \<lparr>CreateAutomationRule = (\<lambda>i. Inl (APIError ''LimitExceededException'' ''slow down'')),
      BatchGetAutomationRules = (\<lambda>i. Inl (APIError ''LimitExceededException'' ''slow down'')),
      BatchUpdateAutomationRules = (\<lambda>i. Inl (APIError ''LimitExceededException'' ''slow down'')),
      BatchDeleteAutomationRules = (\<lambda>i. Some (APIError ''LimitExceededException'' ''slow down''))\<rparr>"

definition fresh :: "'s response" where
  "fresh = \<lparr>Diagnostics = [], State = None\<rparr>"

definition holding :: "'s \<Rightarrow> 's response" where
  "holding s = \<lparr>Diagnostics = [], State = Some s\<rparr>"

text \<open>Configured integers beyond the range of \<open>int32\<close>.\<close>

definition wide_rule :: automationRuleResourceModel where
  "wide_rule = example_rule\<lparr>automationRuleResourceModel.RuleOrder := Known 4294967303\<rparr>"

definition wide_update :: findingFieldsUpdateData where
  "wide_update =
     \<lparr>findingFieldsUpdateData.Confidence = Known 4294967446,
      findingFieldsUpdateData.Criticality = Null,
      findingFieldsUpdateData.Note = Null,
      findingFieldsUpdateData.RelatedFindings = Null,
      findingFieldsUpdateData.Severity = Null,
      findingFieldsUpdateData.Types = Null,
      findingFieldsUpdateData.UserDefinedFields = Null,
      findingFieldsUpdateData.VerificationState = Null,
      findingFieldsUpdateData.Workflow = Null\<rparr>"

definition wide_range :: dateRangeData where
  "wide_range = \<lparr>dateRangeData.Unit = Known ''DAYS'', dateRangeData.Value = Known 2147483648\<rparr>"

text \<open>
  QuickSight objects without sub-objects, for which the helper functions are never
  called.
\<close>

definition unused_helpers :: helpers where
  "unused_helpers =
     \<lparr>expandColumnIdentifier = (\<lambda>l. None), flattenColumnIdentifier = (\<lambda>v. []),
      expandStringFormatConfiguration = (\<lambda>l. None),
      flattenStringFormatConfiguration = (\<lambda>v. []),
      expandDateTimeFormatConfiguration = (\<lambda>l. None),
      flattenDateTimeFormatConfiguration = (\<lambda>v. []),
      expandNumberFormatConfiguration = (\<lambda>l. None),
      flattenNumberFormatConfiguration = (\<lambda>v. []),
      expandNumericalAggregationFunction = (\<lambda>l. None),
      flattenNumericalAggregationFunction = (\<lambda>v. [])\<rparr>"

definition category_field :: CategoricalDimensionField where
  "category_field =
     \<lparr>CategoricalDimensionField.Column = None, CategoricalDimensionField.FieldId = Some ''f0'',
      CategoricalDimensionField.FormatConfiguration = None,
      CategoricalDimensionField.HierarchyId = Some ''h0''\<rparr>"

definition day_field :: DateDimensionField where
  "day_field =
     \<lparr>DateDimensionField.Column = None, DateDimensionField.DateGranularity = ''DAY'',
      DateDimensionField.FieldId = Some ''f1'', DateDimensionField.FormatConfiguration = None,
      DateDimensionField.HierarchyId = None\<rparr>"

definition number_field :: NumericalDimensionField where
  "number_field =
     \<lparr>NumericalDimensionField.Column = None, NumericalDimensionField.FieldId = Some ''f2'',
      NumericalDimensionField.FormatConfiguration = None,
      NumericalDimensionField.HierarchyId = None\<rparr>"

definition ratio_field :: CalculatedMeasureField where
  "ratio_field =
     \<lparr>CalculatedMeasureField.Expression = Some ''a / b'',
      CalculatedMeasureField.FieldId = Some ''m0''\<rparr>"

definition count_field :: CategoricalMeasureField where
  "count_field =
     \<lparr>CategoricalMeasureField.AggregationFunction = ''COUNT'',
      CategoricalMeasureField.Column = None, CategoricalMeasureField.FieldId = Some ''m1'',
      CategoricalMeasureField.FormatConfiguration = None\<rparr>"

definition latest_field :: DateMeasureField where
  "latest_field =
     \<lparr>DateMeasureField.AggregationFunction = ''MAX'',
      DateMeasureField.Column = None, DateMeasureField.FieldId = Some ''m2'',
      DateMeasureField.FormatConfiguration = None\<rparr>"

definition sum_field :: NumericalMeasureField where
  "sum_field =
     \<lparr>NumericalMeasureField.AggregationFunction = None,
      NumericalMeasureField.Column = None, NumericalMeasureField.FieldId = Some ''m3'',
      NumericalMeasureField.FormatConfiguration = None\<rparr>"

definition day_dimension :: DimensionField where
  "day_dimension =
     \<lparr>DimensionField.CategoricalDimensionField = None,
      DimensionField.DateDimensionField = Some day_field,
      DimensionField.NumericalDimensionField = None\<rparr>"

definition count_measure :: MeasureField where
  "count_measure =
     \<lparr>MeasureField.CalculatedMeasureField = None,
      MeasureField.CategoricalMeasureField = Some count_field,
      MeasureField.DateMeasureField = None,
      MeasureField.NumericalMeasureField = None\<rparr>"

section \<open>Diagnostics and steps\<close>

lemma HasError_append: "HasError (a @ b) = (HasError a \<or> HasError b)"
  by (simp add: HasError_def list_ex_iff) blast

lemma HasError_Nil: "HasError [] = False"
  by (simp add: HasError_def)

lemma HasError_ErrorDiagnostic: "HasError [ErrorDiagnostic sv ac res ident err dt] = True"
  by (simp add: HasError_def)

lemma when_set_quiet: "quiet_step (when_set v assign)"
  by (auto simp: quiet_step_def when_set_def split: if_splits)

lemma when_elements_quiet: "quiet_step (when_elements v assign)"
  by (auto simp: quiet_step_def when_elements_def Let_def split: if_splits)

lemma when_elements_diags_quiet: "quiet_step (when_elements_diags v ex assign)"
  by (auto simp: quiet_step_def when_elements_diags_def Let_def split: if_splits)

lemma when_set_loud: "loud_step (when_set v assign)"
  by (auto simp: loud_step_def when_set_def split: if_splits)

lemma when_elements_loud: "loud_step (when_elements v assign)"
  by (auto simp: loud_step_def when_elements_def Let_def split: if_splits)

lemma when_elements_diags_loud: "loud_step (when_elements_diags v ex assign)"
  by (auto simp: loud_step_def when_elements_diags_def Let_def split: if_splits)

lemma run_steps_quiet:
  "list_all quiet_step steps \<Longrightarrow> run_steps steps s = Inr s' \<Longrightarrow> \<not> HasError (snd s)
    \<Longrightarrow> \<not> HasError (snd s')"
proof (induction steps arbitrary: s)
  case Nil
  then show ?case by simp
next
  case (Cons f fs)
  from Cons.prems(2) obtain m where m: "f s = Inr m" "run_steps fs m = Inr s'"
    by (auto split: sum.splits)
  from Cons.prems(1) have "quiet_step f" "list_all quiet_step fs" by simp_all
  with m Cons.prems(3) have "\<not> HasError (snd m)"
    unfolding quiet_step_def by blast
  with Cons.IH [OF \<open>list_all quiet_step fs\<close> m(2)] show ?case .
qed

lemma run_steps_loud:
  "list_all loud_step steps \<Longrightarrow> run_steps steps s = Inl d \<Longrightarrow> HasError d"
proof (induction steps arbitrary: s)
  case Nil
  then show ?case by simp
next
  case (Cons f fs)
  from Cons.prems(1) have f: "loud_step f" and fs: "list_all loud_step fs" by simp_all
  show ?case
  proof (cases "f s")
    case (Inl d')
    with Cons.prems(2) have "d' = d" by simp
    with Inl f show ?thesis unfolding loud_step_def by blast
  next
    case (Inr m)
    with Cons.prems(2) have "run_steps fs m = Inl d" by simp
    with Cons.IH [OF fs] show ?thesis .
  qed
qed

lemma run_steps_keeps:
  "list_all (keeps sel) steps \<Longrightarrow> run_steps steps s = Inr s' \<Longrightarrow> sel (fst s') = sel (fst s)"
proof (induction steps arbitrary: s)
  case Nil
  then show ?case by simp
next
  case (Cons f fs)
  from Cons.prems(2) obtain m where m: "f s = Inr m" "run_steps fs m = Inr s'"
    by (auto split: sum.splits)
  from Cons.prems(1) have f: "keeps sel f" and fs: "list_all (keeps sel) fs" by simp_all
  from f m(1) have "sel (fst m) = sel (fst s)"
    unfolding keeps_def by blast
  with Cons.IH [OF fs m(2)] show ?case by simp
qed

lemma run_steps_append:
  "run_steps (pre @ post) s = Inr s' \<longleftrightarrow> (\<exists>m. run_steps pre s = Inr m \<and> run_steps post m = Inr s')"
  by (induction pre arbitrary: s) (auto split: sum.splits)

lemma when_set_keeps:
  "(\<And>x obj. sel (assign x obj) = sel obj) \<Longrightarrow> keeps sel (when_set v assign)"
  by (auto simp: keeps_def when_set_def split: if_splits)

lemma when_elements_keeps:
  "(\<And>x obj. sel (assign x obj) = sel obj) \<Longrightarrow> keeps sel (when_elements v assign)"
  by (auto simp: keeps_def when_elements_def Let_def split: if_splits)

lemma when_elements_diags_keeps:
  "(\<And>x obj. sel (assign x obj) = sel obj) \<Longrightarrow> keeps sel (when_elements_diags v ex assign)"
  by (auto simp: keeps_def when_elements_diags_def Let_def split: if_splits)

text \<open>The definitions unfolded when a lifecycle method is run on concrete values.\<close>

lemmas run_defs =
  Let_def Append_def AddError_def State_Set_def State_RemoveResource_def set_Diagnostics_def
  HasError_def when_set_def when_elements_def when_elements_diags_def to_int32_def
  findAutomationRuleByARN_def findAutomationRule_def findAutomationRules_def
  errCodeResourceNotFoundException_def errCodeInvalidAccessException_def
  findAuthorizeVpcEndpointAccessByName_def findAuthorizeVpcEndpointAccess_def
  findAuthorizeVpcEndpointAccesses_def accesses_page_def
  StringToFramework_def StringValueToFramework_def BoolToFramework_def Int32ToFramework_def
  expandActions_def expandCriteria_def flattenActions_def flattenCriteria_def
  ResNameAutomationRule_def ResNameAuthorizeVpcEndpointAccess_def

lemmas example_defs =
  example_rule_def example_config_def example_access_def rule_arn_def alice_def alice_data_def
  working_client_def gone_client_def throttled_client_def
  granting_client_def revoked_client_def denied_client_def
  plain_flex_def failing_flex_def fresh_def holding_def

section \<open>QuickSight conversions\<close>

lemma tf_get_Nil: "tf_get (Some []) key = TfNil"
  by (simp add: tf_get_def)

lemma tf_get_put:
  "tf_get (Some (put k v m)) key = (if key = k then v else tf_get (Some m) key)"
  by (simp add: tf_get_def put_def update_conv')

lemma tf_get_put_when:
  "tf_get (Some (put_when c k v m)) key = (if c \<and> key = k then v else tf_get (Some m) key)"
  by (simp add: put_when_def tf_get_put)

lemma apply_steps_Nil: "apply_steps [] obj = obj"
  by (simp add: apply_steps_def)

lemma apply_steps_Cons: "apply_steps (f # fs) obj = apply_steps fs (f obj)"
  by (simp add: apply_steps_def)

lemmas tf_simps = tf_get_Nil tf_get_put tf_get_put_when apply_steps_Nil apply_steps_Cons

lemma set_string_attr:
  "set_string x assign obj = (case string_attr x of None \<Rightarrow> obj | Some v \<Rightarrow> assign v obj)"
  by (simp add: set_string_def string_attr_def split: tfval.splits)

lemma set_list_attr:
  "set_list x assign obj = (case list_attr x of None \<Rightarrow> obj | Some v \<Rightarrow> assign v obj)"
  by (simp add: set_list_def list_attr_def split: tfval.splits)

lemma string_attr_simps:
  "string_attr TfNil = None" "string_attr (TfString []) = None"
  "string_attr (TfString (c # cs)) = Some (c # cs)"
  "string_attr (TfTimeGranularity s) = None"
  "string_attr (TfCategoricalAggregationFunction s) = None"
  "string_attr (TfDateAggregationFunction s) = None"
  "string_attr (TfList l) = None" "string_attr (TfMap m) = None"
  by (simp_all add: string_attr_def)

lemma list_attr_simps:
  "list_attr TfNil = None" "list_attr (TfList []) = None"
  "list_attr (TfList (x # xs)) = Some (x # xs)"
  "list_attr (TfString s) = None" "list_attr (TfMap m) = None"
  by (simp_all add: list_attr_def)

lemma expandCategoricalDimensionField_fill_eq:
  "expandCategoricalDimensionField_fill h tfMap =
       \<lparr>CategoricalDimensionField.Column = expanded (expandColumnIdentifier h) (list_attr (tf_get tfMap ''column'')),
        CategoricalDimensionField.FieldId = string_attr (tf_get tfMap ''field_id''),
        CategoricalDimensionField.FormatConfiguration = expanded (expandStringFormatConfiguration h) (list_attr (tf_get tfMap ''format_configuration'')),
        CategoricalDimensionField.HierarchyId = string_attr (tf_get tfMap ''hierarchy_id'')\<rparr>"
  by (simp add: expandCategoricalDimensionField_fill_def CategoricalDimensionField_zero_def tf_simps set_string_attr set_list_attr
        string_or_empty_def expanded_def split: option.splits)

lemma expandDateDimensionField_fill_eq:
  "expandDateDimensionField_fill h tfMap =
       \<lparr>DateDimensionField.Column = expanded (expandColumnIdentifier h) (list_attr (tf_get tfMap ''column'')),
        DateDimensionField.DateGranularity = string_or_empty (string_attr (tf_get tfMap ''date_granularity'')),
        DateDimensionField.FieldId = string_attr (tf_get tfMap ''field_id''),
        DateDimensionField.FormatConfiguration = expanded (expandDateTimeFormatConfiguration h) (list_attr (tf_get tfMap ''format_configuration'')),
        DateDimensionField.HierarchyId = string_attr (tf_get tfMap ''hierarchy_id'')\<rparr>"
  by (simp add: expandDateDimensionField_fill_def DateDimensionField_zero_def tf_simps set_string_attr set_list_attr
        string_or_empty_def expanded_def split: option.splits)

lemma expandNumericalDimensionField_fill_eq:
  "expandNumericalDimensionField_fill h tfMap =
       \<lparr>NumericalDimensionField.Column = expanded (expandColumnIdentifier h) (list_attr (tf_get tfMap ''column'')),
        NumericalDimensionField.FieldId = string_attr (tf_get tfMap ''field_id''),
        NumericalDimensionField.FormatConfiguration = expanded (expandNumberFormatConfiguration h) (list_attr (tf_get tfMap ''format_configuration'')),
        NumericalDimensionField.HierarchyId = string_attr (tf_get tfMap ''hierarchy_id'')\<rparr>"
  by (simp add: expandNumericalDimensionField_fill_def NumericalDimensionField_zero_def tf_simps set_string_attr set_list_attr
        string_or_empty_def expanded_def split: option.splits)

lemma expandCalculatedMeasureField_fill_eq:
  "expandCalculatedMeasureField_fill h tfMap =
       \<lparr>CalculatedMeasureField.Expression = string_attr (tf_get tfMap ''expression''),
        CalculatedMeasureField.FieldId = string_attr (tf_get tfMap ''field_id'')\<rparr>"
  by (simp add: expandCalculatedMeasureField_fill_def CalculatedMeasureField_zero_def tf_simps set_string_attr set_list_attr
        string_or_empty_def expanded_def split: option.splits)

lemma expandCategoricalMeasureField_fill_eq:
  "expandCategoricalMeasureField_fill h tfMap =
       \<lparr>CategoricalMeasureField.AggregationFunction = string_or_empty (string_attr (tf_get tfMap ''aggregation_function'')),
        CategoricalMeasureField.Column = expanded (expandColumnIdentifier h) (list_attr (tf_get tfMap ''column'')),
        CategoricalMeasureField.FieldId = string_attr (tf_get tfMap ''field_id''),
        CategoricalMeasureField.FormatConfiguration = expanded (expandStringFormatConfiguration h) (list_attr (tf_get tfMap ''format_configuration''))\<rparr>"
  by (simp add: expandCategoricalMeasureField_fill_def CategoricalMeasureField_zero_def tf_simps set_string_attr set_list_attr
        string_or_empty_def expanded_def split: option.splits)

lemma expandDateMeasureField_fill_eq:
  "expandDateMeasureField_fill h tfMap =
       \<lparr>DateMeasureField.AggregationFunction = string_or_empty (string_attr (tf_get tfMap ''aggregation_function'')),
        DateMeasureField.Column = expanded (expandColumnIdentifier h) (list_attr (tf_get tfMap ''column'')),
        DateMeasureField.FieldId = string_attr (tf_get tfMap ''field_id''),
        DateMeasureField.FormatConfiguration = expanded (expandDateTimeFormatConfiguration h) (list_attr (tf_get tfMap ''format_configuration''))\<rparr>"
  by (simp add: expandDateMeasureField_fill_def DateMeasureField_zero_def tf_simps set_string_attr set_list_attr
        string_or_empty_def expanded_def split: option.splits)

lemma expandNumericalMeasureField_fill_eq:
  "expandNumericalMeasureField_fill h tfMap =
       \<lparr>NumericalMeasureField.AggregationFunction = expanded (expandNumericalAggregationFunction h) (list_attr (tf_get tfMap ''aggregation_function'')),
        NumericalMeasureField.Column = expanded (expandColumnIdentifier h) (list_attr (tf_get tfMap ''column'')),
        NumericalMeasureField.FieldId = string_attr (tf_get tfMap ''field_id''),
        NumericalMeasureField.FormatConfiguration = expanded (expandNumberFormatConfiguration h) (list_attr (tf_get tfMap ''format_configuration''))\<rparr>"
  by (simp add: expandNumericalMeasureField_fill_def NumericalMeasureField_zero_def tf_simps set_string_attr set_list_attr
        string_or_empty_def expanded_def split: option.splits)

lemma string_attr_clean:
  "clean s \<Longrightarrow>
     string_attr (stored_string s) = s"
  by (cases s) (simp_all add: clean_def string_attr_def stored_string_def)

lemma list_attr_returns:
  "returns ex fl v \<Longrightarrow>
     expanded ex (list_attr (stored_list fl v)) = v"
  by (cases v) (auto simp: returns_def list_attr_def expanded_def stored_list_def)

lemma flattenCategoricalDimensionField_map_get:
  "tf_get (Some (flattenCategoricalDimensionField_map h a)) ''column'' =
       stored_list (flattenColumnIdentifier h) (CategoricalDimensionField.Column a)"
  "tf_get (Some (flattenCategoricalDimensionField_map h a)) ''field_id'' =
       stored_string (CategoricalDimensionField.FieldId a)"
  "tf_get (Some (flattenCategoricalDimensionField_map h a)) ''format_configuration'' =
       stored_list (flattenStringFormatConfiguration h) (CategoricalDimensionField.FormatConfiguration a)"
  "tf_get (Some (flattenCategoricalDimensionField_map h a)) ''hierarchy_id'' =
       stored_string (CategoricalDimensionField.HierarchyId a)"
  by (simp_all add: flattenCategoricalDimensionField_map_def tf_simps stored_string_def stored_list_def split: option.splits)

lemma CategoricalDimensionField_round_trip:
  "CategoricalDimensionField_returns h x \<Longrightarrow>
     expandCategoricalDimensionField h (flattenCategoricalDimensionField h (Some x)) = Some (CategoricalDimensionField_stored x)"
  by (cases x)
     (simp add: CategoricalDimensionField_returns_def CategoricalDimensionField_stored_def expandCategoricalDimensionField_def flattenCategoricalDimensionField_def
        expandCategoricalDimensionField_fill_eq flattenCategoricalDimensionField_map_get string_attr_clean list_attr_returns
        string_attr_simps string_or_empty_def)

lemma flattenDateDimensionField_map_get:
  "tf_get (Some (flattenDateDimensionField_map h a)) ''column'' =
       stored_list (flattenColumnIdentifier h) (DateDimensionField.Column a)"
  "tf_get (Some (flattenDateDimensionField_map h a)) ''date_granularity'' =
       TfTimeGranularity (DateDimensionField.DateGranularity a)"
  "tf_get (Some (flattenDateDimensionField_map h a)) ''field_id'' =
       stored_string (DateDimensionField.FieldId a)"
  "tf_get (Some (flattenDateDimensionField_map h a)) ''format_configuration'' =
       stored_list (flattenDateTimeFormatConfiguration h) (DateDimensionField.FormatConfiguration a)"
  "tf_get (Some (flattenDateDimensionField_map h a)) ''hierarchy_id'' =
       stored_string (DateDimensionField.HierarchyId a)"
  by (simp_all add: flattenDateDimensionField_map_def tf_simps stored_string_def stored_list_def split: option.splits)

lemma DateDimensionField_round_trip:
  "DateDimensionField_returns h x \<Longrightarrow>
     expandDateDimensionField h (flattenDateDimensionField h (Some x)) = Some (DateDimensionField_stored x)"
  by (cases x)
     (simp add: DateDimensionField_returns_def DateDimensionField_stored_def expandDateDimensionField_def flattenDateDimensionField_def
        expandDateDimensionField_fill_eq flattenDateDimensionField_map_get string_attr_clean list_attr_returns
        string_attr_simps string_or_empty_def)

lemma flattenNumericalDimensionField_map_get:
  "tf_get (Some (flattenNumericalDimensionField_map h a)) ''column'' =
       stored_list (flattenColumnIdentifier h) (NumericalDimensionField.Column a)"
  "tf_get (Some (flattenNumericalDimensionField_map h a)) ''field_id'' =
       stored_string (NumericalDimensionField.FieldId a)"
  "tf_get (Some (flattenNumericalDimensionField_map h a)) ''format_configuration'' =
       stored_list (flattenNumberFormatConfiguration h) (NumericalDimensionField.FormatConfiguration a)"
  "tf_get (Some (flattenNumericalDimensionField_map h a)) ''hierarchy_id'' =
       stored_string (NumericalDimensionField.HierarchyId a)"
  by (simp_all add: flattenNumericalDimensionField_map_def tf_simps stored_string_def stored_list_def split: option.splits)

lemma NumericalDimensionField_round_trip:
  "NumericalDimensionField_returns h x \<Longrightarrow>
     expandNumericalDimensionField h (flattenNumericalDimensionField h (Some x)) = Some (NumericalDimensionField_stored x)"
  by (cases x)
     (simp add: NumericalDimensionField_returns_def NumericalDimensionField_stored_def expandNumericalDimensionField_def flattenNumericalDimensionField_def
        expandNumericalDimensionField_fill_eq flattenNumericalDimensionField_map_get string_attr_clean list_attr_returns
        string_attr_simps string_or_empty_def)

lemma flattenCalculatedMeasureField_map_get:
  "tf_get (Some (flattenCalculatedMeasureField_map h a)) ''expression'' =
       stored_string (CalculatedMeasureField.Expression a)"
  "tf_get (Some (flattenCalculatedMeasureField_map h a)) ''field_id'' =
       stored_string (CalculatedMeasureField.FieldId a)"
  by (simp_all add: flattenCalculatedMeasureField_map_def tf_simps stored_string_def stored_list_def split: option.splits)

lemma CalculatedMeasureField_round_trip:
  "CalculatedMeasureField_returns h x \<Longrightarrow>
     expandCalculatedMeasureField h (flattenCalculatedMeasureField h (Some x)) = Some (CalculatedMeasureField_stored x)"
  by (cases x)
     (simp add: CalculatedMeasureField_returns_def CalculatedMeasureField_stored_def expandCalculatedMeasureField_def flattenCalculatedMeasureField_def
        expandCalculatedMeasureField_fill_eq flattenCalculatedMeasureField_map_get string_attr_clean list_attr_returns
        string_attr_simps string_or_empty_def)

lemma flattenCategoricalMeasureField_map_get:
  "tf_get (Some (flattenCategoricalMeasureField_map h a)) ''aggregation_function'' =
       TfCategoricalAggregationFunction (CategoricalMeasureField.AggregationFunction a)"
  "tf_get (Some (flattenCategoricalMeasureField_map h a)) ''column'' =
       stored_list (flattenColumnIdentifier h) (CategoricalMeasureField.Column a)"
  "tf_get (Some (flattenCategoricalMeasureField_map h a)) ''field_id'' =
       stored_string (CategoricalMeasureField.FieldId a)"
  "tf_get (Some (flattenCategoricalMeasureField_map h a)) ''format_configuration'' =
       stored_list (flattenStringFormatConfiguration h) (CategoricalMeasureField.FormatConfiguration a)"
  by (simp_all add: flattenCategoricalMeasureField_map_def tf_simps stored_string_def stored_list_def split: option.splits)

lemma CategoricalMeasureField_round_trip:
  "CategoricalMeasureField_returns h x \<Longrightarrow>
     expandCategoricalMeasureField h (flattenCategoricalMeasureField h (Some x)) = Some (CategoricalMeasureField_stored x)"
  by (cases x)
     (simp add: CategoricalMeasureField_returns_def CategoricalMeasureField_stored_def expandCategoricalMeasureField_def flattenCategoricalMeasureField_def
        expandCategoricalMeasureField_fill_eq flattenCategoricalMeasureField_map_get string_attr_clean list_attr_returns
        string_attr_simps string_or_empty_def)

lemma flattenDateMeasureField_map_get:
  "tf_get (Some (flattenDateMeasureField_map h a)) ''aggregation_function'' =
       TfDateAggregationFunction (DateMeasureField.AggregationFunction a)"
  "tf_get (Some (flattenDateMeasureField_map h a)) ''column'' =
       stored_list (flattenColumnIdentifier h) (DateMeasureField.Column a)"
  "tf_get (Some (flattenDateMeasureField_map h a)) ''field_id'' =
       stored_string (DateMeasureField.FieldId a)"
  "tf_get (Some (flattenDateMeasureField_map h a)) ''format_configuration'' =
       stored_list (flattenDateTimeFormatConfiguration h) (DateMeasureField.FormatConfiguration a)"
  by (simp_all add: flattenDateMeasureField_map_def tf_simps stored_string_def stored_list_def split: option.splits)

lemma DateMeasureField_round_trip:
  "DateMeasureField_returns h x \<Longrightarrow>
     expandDateMeasureField h (flattenDateMeasureField h (Some x)) = Some (DateMeasureField_stored x)"
  by (cases x)
     (simp add: DateMeasureField_returns_def DateMeasureField_stored_def expandDateMeasureField_def flattenDateMeasureField_def
        expandDateMeasureField_fill_eq flattenDateMeasureField_map_get string_attr_clean list_attr_returns
        string_attr_simps string_or_empty_def)

lemma flattenNumericalMeasureField_map_get:
  "tf_get (Some (flattenNumericalMeasureField_map h a)) ''aggregation_function'' =
       stored_list (flattenNumericalAggregationFunction h) (NumericalMeasureField.AggregationFunction a)"
  "tf_get (Some (flattenNumericalMeasureField_map h a)) ''column'' =
       stored_list (flattenColumnIdentifier h) (NumericalMeasureField.Column a)"
  "tf_get (Some (flattenNumericalMeasureField_map h a)) ''field_id'' =
       stored_string (NumericalMeasureField.FieldId a)"
  "tf_get (Some (flattenNumericalMeasureField_map h a)) ''format_configuration'' =
       stored_list (flattenNumberFormatConfiguration h) (NumericalMeasureField.FormatConfiguration a)"
  by (simp_all add: flattenNumericalMeasureField_map_def tf_simps stored_string_def stored_list_def split: option.splits)

lemma NumericalMeasureField_round_trip:
  "NumericalMeasureField_returns h x \<Longrightarrow>
     expandNumericalMeasureField h (flattenNumericalMeasureField h (Some x)) = Some (NumericalMeasureField_stored x)"
  by (cases x)
     (simp add: NumericalMeasureField_returns_def NumericalMeasureField_stored_def expandNumericalMeasureField_def flattenNumericalMeasureField_def
        expandNumericalMeasureField_fill_eq flattenNumericalMeasureField_map_get string_attr_clean list_attr_returns
        string_attr_simps string_or_empty_def)

lemma expandDimensionInternal_eq:
  "expandDimensionInternal h (Some kvs) = Some
     \<lparr>DimensionField.CategoricalDimensionField =
        expanded (expandCategoricalDimensionField h)
          (list_attr (tf_get (Some kvs) ''categorical_dimension_field'')),
      DimensionField.DateDimensionField =
        expanded (expandDateDimensionField h)
          (list_attr (tf_get (Some kvs) ''date_dimension_field'')),
      DimensionField.NumericalDimensionField =
        expanded (expandNumericalDimensionField h)
          (list_attr (tf_get (Some kvs) ''numerical_dimension_field''))\<rparr>"
  by (simp add: expandDimensionInternal_def DimensionField_zero_def tf_simps set_list_attr
        expanded_def split: option.splits)

lemma expandMeasureFieldInternal_eq:
  "expandMeasureFieldInternal h (Some kvs) = Some
     \<lparr>MeasureField.CalculatedMeasureField =
        expanded (expandCalculatedMeasureField h)
          (list_attr (tf_get (Some kvs) ''calculated_measure_field'')),
      MeasureField.CategoricalMeasureField =
        expanded (expandCategoricalMeasureField h)
          (list_attr (tf_get (Some kvs) ''categorical_measure_field'')),
      MeasureField.DateMeasureField =
        expanded (expandDateMeasureField h)
          (list_attr (tf_get (Some kvs) ''date_measure_field'')),
      MeasureField.NumericalMeasureField =
        expanded (expandNumericalMeasureField h)
          (list_attr (tf_get (Some kvs) ''numerical_measure_field''))\<rparr>"
  by (simp add: expandMeasureFieldInternal_def MeasureField_zero_def tf_simps set_list_attr
        expanded_def split: option.splits)

lemma flattenDimensionField_map_eq:
  "flattenDimensionField_map h a = TfMap (Some kvs) \<Longrightarrow>
     tf_get (Some kvs) ''categorical_dimension_field''
       = stored_list (flattenCategoricalDimensionField h) (DimensionField.CategoricalDimensionField a)
   \<and> tf_get (Some kvs) ''date_dimension_field''
       = stored_list (flattenDateDimensionField h) (DimensionField.DateDimensionField a)
   \<and> tf_get (Some kvs) ''numerical_dimension_field''
       = stored_list (flattenNumericalDimensionField h) (DimensionField.NumericalDimensionField a)"
  by (auto simp: flattenDimensionField_map_def tf_simps stored_list_def split: option.splits)

lemma flattenMeasureField_map_eq:
  "flattenMeasureField_map h a = TfMap (Some kvs) \<Longrightarrow>
     tf_get (Some kvs) ''calculated_measure_field''
       = stored_list (flattenCalculatedMeasureField h) (MeasureField.CalculatedMeasureField a)
   \<and> tf_get (Some kvs) ''categorical_measure_field''
       = stored_list (flattenCategoricalMeasureField h) (MeasureField.CategoricalMeasureField a)
   \<and> tf_get (Some kvs) ''date_measure_field''
       = stored_list (flattenDateMeasureField h) (MeasureField.DateMeasureField a)
   \<and> tf_get (Some kvs) ''numerical_measure_field''
       = stored_list (flattenNumericalMeasureField h) (MeasureField.NumericalMeasureField a)"
  by (auto simp: flattenMeasureField_map_def tf_simps stored_list_def split: option.splits)

lemma flatten_map_is_map:
  "\<exists>kvs. flattenDimensionField_map h a = TfMap (Some kvs)"
  "\<exists>kvs. flattenMeasureField_map h b = TfMap (Some kvs)"
  by (simp_all add: flattenDimensionField_map_def flattenMeasureField_map_def)

lemma variant_comes_back:
  assumes "\<And>x. P x \<Longrightarrow> ex (fl (Some x)) = Some (st x)"
    and "\<And>x. fl (Some x) \<noteq> []"
    and "holds_of P v"
  shows "expanded ex (list_attr (stored_list fl v)) = map_option st v"
  using assms
  by (cases v) (auto simp: holds_of_def stored_list_def list_attr_def expanded_def)

lemma flatten_variant_not_Nil:
  "flattenCategoricalDimensionField h (Some x1) \<noteq> []"
  "flattenDateDimensionField h (Some x2) \<noteq> []"
  "flattenNumericalDimensionField h (Some x3) \<noteq> []"
  "flattenCalculatedMeasureField h (Some x4) \<noteq> []"
  "flattenCategoricalMeasureField h (Some x5) \<noteq> []"
  "flattenDateMeasureField h (Some x6) \<noteq> []"
  "flattenNumericalMeasureField h (Some x7) \<noteq> []"
  by (simp_all add: flattenCategoricalDimensionField_def flattenDateDimensionField_def
      flattenNumericalDimensionField_def flattenCalculatedMeasureField_def
      flattenCategoricalMeasureField_def flattenDateMeasureField_def
      flattenNumericalMeasureField_def)

lemma DimensionField_map_round_trip:
  assumes "DimensionField_returns h d" and "flattenDimensionField_map h d = TfMap (Some kvs)"
  shows "expandDimensionInternal h (Some kvs) = Some (DimensionField_stored d)"
proof -
  note g = flattenDimensionField_map_eq [OF assms(2)]
  from assms(1) have r:
    "holds_of (CategoricalDimensionField_returns h) (DimensionField.CategoricalDimensionField d)"
    "holds_of (DateDimensionField_returns h) (DimensionField.DateDimensionField d)"
    "holds_of (NumericalDimensionField_returns h) (DimensionField.NumericalDimensionField d)"
    by (simp_all add: DimensionField_returns_def)
  have 1: "expanded (expandCategoricalDimensionField h)
      (list_attr (tf_get (Some kvs) ''categorical_dimension_field''))
      = map_option CategoricalDimensionField_stored (DimensionField.CategoricalDimensionField d)"
    unfolding g [THEN conjunct1]
    by (rule variant_comes_back [where P = "CategoricalDimensionField_returns h" and ex = "expandCategoricalDimensionField h"
          and fl = "flattenCategoricalDimensionField h" and st = CategoricalDimensionField_stored])
       (simp_all add: CategoricalDimensionField_round_trip flatten_variant_not_Nil r)
  have 2: "expanded (expandDateDimensionField h)
      (list_attr (tf_get (Some kvs) ''date_dimension_field''))
      = map_option DateDimensionField_stored (DimensionField.DateDimensionField d)"
    unfolding g [THEN conjunct2, THEN conjunct1]
    by (rule variant_comes_back [where P = "DateDimensionField_returns h" and ex = "expandDateDimensionField h"
          and fl = "flattenDateDimensionField h" and st = DateDimensionField_stored])
       (simp_all add: DateDimensionField_round_trip flatten_variant_not_Nil r)
  have 3: "expanded (expandNumericalDimensionField h)
      (list_attr (tf_get (Some kvs) ''numerical_dimension_field''))
      = map_option NumericalDimensionField_stored (DimensionField.NumericalDimensionField d)"
    unfolding g [THEN conjunct2, THEN conjunct2]
    by (rule variant_comes_back [where P = "NumericalDimensionField_returns h" and ex = "expandNumericalDimensionField h"
          and fl = "flattenNumericalDimensionField h" and st = NumericalDimensionField_stored])
       (simp_all add: NumericalDimensionField_round_trip flatten_variant_not_Nil r)
  have id: "map_option CategoricalDimensionField_stored v = v"
    "map_option NumericalDimensionField_stored w = w" for v w
    by (cases v, simp_all add: CategoricalDimensionField_stored_def)
       (cases w, simp_all add: NumericalDimensionField_stored_def)
  show ?thesis
    unfolding expandDimensionInternal_eq 1 2 3 id
    by (cases d) (simp add: DimensionField_stored_def)
qed

lemma MeasureField_map_round_trip:
  assumes "MeasureField_returns h d" and "flattenMeasureField_map h d = TfMap (Some kvs)"
  shows "expandMeasureFieldInternal h (Some kvs) = Some (MeasureField_stored d)"
proof -
  note g = flattenMeasureField_map_eq [OF assms(2)]
  from assms(1) have r:
    "holds_of (CalculatedMeasureField_returns h) (MeasureField.CalculatedMeasureField d)"
    "holds_of (CategoricalMeasureField_returns h) (MeasureField.CategoricalMeasureField d)"
    "holds_of (DateMeasureField_returns h) (MeasureField.DateMeasureField d)"
    "holds_of (NumericalMeasureField_returns h) (MeasureField.NumericalMeasureField d)"
    by (simp_all add: MeasureField_returns_def)
  have 1: "expanded (expandCalculatedMeasureField h)
      (list_attr (tf_get (Some kvs) ''calculated_measure_field''))
      = map_option CalculatedMeasureField_stored (MeasureField.CalculatedMeasureField d)"
    unfolding g [THEN conjunct1]
    by (rule variant_comes_back [where P = "CalculatedMeasureField_returns h"
          and ex = "expandCalculatedMeasureField h"
          and fl = "flattenCalculatedMeasureField h" and st = CalculatedMeasureField_stored])
       (simp_all add: CalculatedMeasureField_round_trip flatten_variant_not_Nil r)
  have 2: "expanded (expandCategoricalMeasureField h)
      (list_attr (tf_get (Some kvs) ''categorical_measure_field''))
      = map_option CategoricalMeasureField_stored (MeasureField.CategoricalMeasureField d)"
    unfolding g [THEN conjunct2, THEN conjunct1]
    by (rule variant_comes_back [where P = "CategoricalMeasureField_returns h"
          and ex = "expandCategoricalMeasureField h"
          and fl = "flattenCategoricalMeasureField h" and st = CategoricalMeasureField_stored])
       (simp_all add: CategoricalMeasureField_round_trip flatten_variant_not_Nil r)
  have 3: "expanded (expandDateMeasureField h)
      (list_attr (tf_get (Some kvs) ''date_measure_field''))
      = map_option DateMeasureField_stored (MeasureField.DateMeasureField d)"
    unfolding g [THEN conjunct2, THEN conjunct2, THEN conjunct1]
    by (rule variant_comes_back [where P = "DateMeasureField_returns h"
          and ex = "expandDateMeasureField h"
          and fl = "flattenDateMeasureField h" and st = DateMeasureField_stored])
       (simp_all add: DateMeasureField_round_trip flatten_variant_not_Nil r)
  have 4: "expanded (expandNumericalMeasureField h)
      (list_attr (tf_get (Some kvs) ''numerical_measure_field''))
      = map_option NumericalMeasureField_stored (MeasureField.NumericalMeasureField d)"
    unfolding g [THEN conjunct2, THEN conjunct2, THEN conjunct2]
    by (rule variant_comes_back [where P = "NumericalMeasureField_returns h"
          and ex = "expandNumericalMeasureField h"
          and fl = "flattenNumericalMeasureField h" and st = NumericalMeasureField_stored])
       (simp_all add: NumericalMeasureField_round_trip flatten_variant_not_Nil r)
  have id: "map_option CalculatedMeasureField_stored v = v"
    "map_option NumericalMeasureField_stored w = w" for v w
    by (cases v, simp_all add: CalculatedMeasureField_stored_def)
       (cases w, simp_all add: NumericalMeasureField_stored_def)
  show ?thesis
    unfolding expandMeasureFieldInternal_eq 1 2 3 4 id
    by (cases d) (simp add: MeasureField_stored_def)
qed

lemma DimensionField_round_trip:
  assumes "DimensionField_returns h d"
  shows "expandDimensionField h (flattenDimensionField h (Some d)) = Some (DimensionField_stored d)"
proof -
  obtain kvs where k: "flattenDimensionField_map h d = TfMap (Some kvs)"
    using flatten_map_is_map(1) by blast
  from DimensionField_map_round_trip [OF assms k] k show ?thesis
    by (simp add: expandDimensionField_def flattenDimensionField_def)
qed

lemma MeasureField_round_trip:
  assumes "MeasureField_returns h d"
  shows "expandMeasureField h (flattenMeasureField h (Some d)) = Some (MeasureField_stored d)"
proof -
  obtain kvs where k: "flattenMeasureField_map h d = TfMap (Some kvs)"
    using flatten_map_is_map(2) by blast
  from MeasureField_map_round_trip [OF assms k] k show ?thesis
    by (simp add: expandMeasureField_def flattenMeasureField_def)
qed

lemma expandDimensionFields_loop_round_trip:
  "list_all (DimensionField_returns h) ds \<Longrightarrow>
     expandDimensionFields_loop h (map (flattenDimensionField_map h) ds) acc
       = acc @ map DimensionField_stored ds"
proof (induction ds arbitrary: acc)
  case Nil
  show ?case by simp
next
  case (Cons d ds)
  obtain kvs where k: "flattenDimensionField_map h d = TfMap (Some kvs)"
    using flatten_map_is_map(1) by blast
  from Cons.prems have d: "DimensionField_returns h d" and ds: "list_all (DimensionField_returns h) ds"
    by simp_all
  from DimensionField_map_round_trip [OF d k] k Cons.IH [OF ds] show ?case
    by simp
qed

lemma expandMeasureFields_loop_round_trip:
  "list_all (MeasureField_returns h) ds \<Longrightarrow>
     expandMeasureFields_loop h (map (flattenMeasureField_map h) ds) acc
       = acc @ map MeasureField_stored ds"
proof (induction ds arbitrary: acc)
  case Nil
  show ?case by simp
next
  case (Cons d ds)
  obtain kvs where k: "flattenMeasureField_map h d = TfMap (Some kvs)"
    using flatten_map_is_map(2) by blast
  from Cons.prems have d: "MeasureField_returns h d" and ds: "list_all (MeasureField_returns h) ds"
    by simp_all
  from MeasureField_map_round_trip [OF d k] k Cons.IH [OF ds] show ?case
    by simp
qed

lemma DimensionFields_round_trip:
  assumes "list_all (DimensionField_returns h) ds" and "ds \<noteq> []"
  shows "expandDimensionFields h (flattenDimensionFields h ds) = Some (map DimensionField_stored ds)"
  using assms expandDimensionFields_loop_round_trip [OF assms(1), of "[]"]
  by (cases ds) (simp_all add: expandDimensionFields_def flattenDimensionFields_def)

lemma MeasureFields_round_trip:
  assumes "list_all (MeasureField_returns h) ds" and "ds \<noteq> []"
  shows "expandMeasureFields h (flattenMeasureFields h ds) = Some (map MeasureField_stored ds)"
  using assms expandMeasureFields_loop_round_trip [OF assms(1), of "[]"]
  by (cases ds) (simp_all add: expandMeasureFields_def flattenMeasureFields_def)

text \<open>
  C1, as amended. A non-nil object of each of the seven field variants, flattened and then
  expanded, comes back with its field of a named string type (\<open>DateGranularity\<close>, the
  categorical and the date \<open>AggregationFunction\<close>) cleared and all else unchanged,
  whenever none of its string fields points to the empty string and each of its
  sub-objects is nil or comes back from its own flatten and expand functions; so it comes
  back as it was exactly when that field is empty. The same holds of a dimension field
  and a measure field built of such variants, and of a non-empty list of them.
\<close>

theorem flatten_then_expand:
  "(CategoricalDimensionField_returns h cd \<longrightarrow>
      expandCategoricalDimensionField h (flattenCategoricalDimensionField h (Some cd)) = Some (CategoricalDimensionField_stored cd))
   \<and> (DateDimensionField_returns h dd \<longrightarrow>
      expandDateDimensionField h (flattenDateDimensionField h (Some dd)) = Some (DateDimensionField_stored dd))
   \<and> (NumericalDimensionField_returns h nd \<longrightarrow>
      expandNumericalDimensionField h (flattenNumericalDimensionField h (Some nd)) = Some (NumericalDimensionField_stored nd))
   \<and> (CalculatedMeasureField_returns h cm \<longrightarrow>
      expandCalculatedMeasureField h (flattenCalculatedMeasureField h (Some cm)) = Some (CalculatedMeasureField_stored cm))
   \<and> (CategoricalMeasureField_returns h gm \<longrightarrow>
      expandCategoricalMeasureField h (flattenCategoricalMeasureField h (Some gm)) = Some (CategoricalMeasureField_stored gm))
   \<and> (DateMeasureField_returns h dm \<longrightarrow>
      expandDateMeasureField h (flattenDateMeasureField h (Some dm)) = Some (DateMeasureField_stored dm))
   \<and> (NumericalMeasureField_returns h nm \<longrightarrow>
      expandNumericalMeasureField h (flattenNumericalMeasureField h (Some nm)) = Some (NumericalMeasureField_stored nm))
   \<and> (DimensionField_returns h d \<longrightarrow>
      expandDimensionField h (flattenDimensionField h (Some d)) = Some (DimensionField_stored d))
   \<and> (MeasureField_returns h m \<longrightarrow>
      expandMeasureField h (flattenMeasureField h (Some m)) = Some (MeasureField_stored m))
   \<and> (list_all (DimensionField_returns h) ds \<and> ds \<noteq> [] \<longrightarrow>
      expandDimensionFields h (flattenDimensionFields h ds) = Some (map DimensionField_stored ds))
   \<and> (list_all (MeasureField_returns h) ms \<and> ms \<noteq> [] \<longrightarrow>
      expandMeasureFields h (flattenMeasureFields h ms) = Some (map MeasureField_stored ms))"
  using CategoricalDimensionField_round_trip [of h cd] DateDimensionField_round_trip [of h dd]
    NumericalDimensionField_round_trip [of h nd] CalculatedMeasureField_round_trip [of h cm]
    CategoricalMeasureField_round_trip [of h gm] DateMeasureField_round_trip [of h dm]
    NumericalMeasureField_round_trip [of h nm] DimensionField_round_trip [of h d]
    MeasureField_round_trip [of h m] DimensionFields_round_trip [of h ds]
    MeasureFields_round_trip [of h ms]
  by (intro conjI impI) simp_all

lemmas returns_defs =
  clean_def returns_def holds_of_def
  CategoricalDimensionField_returns_def DateDimensionField_returns_def
  NumericalDimensionField_returns_def CalculatedMeasureField_returns_def
  CategoricalMeasureField_returns_def DateMeasureField_returns_def
  NumericalMeasureField_returns_def DimensionField_returns_def MeasureField_returns_def
  CategoricalDimensionField_stored_def DateDimensionField_stored_def
  NumericalDimensionField_stored_def CalculatedMeasureField_stored_def
  CategoricalMeasureField_stored_def DateMeasureField_stored_def
  NumericalMeasureField_stored_def DimensionField_stored_def MeasureField_stored_def

lemmas field_defs =
  category_field_def day_field_def number_field_def ratio_field_def count_field_def
  latest_field_def sum_field_def day_dimension_def count_measure_def

theorem flatten_then_expand_witness:
  "CategoricalDimensionField_returns unused_helpers category_field
   \<and> expandCategoricalDimensionField unused_helpers (flattenCategoricalDimensionField unused_helpers (Some category_field))
       = Some (category_field)
   \<and> DateDimensionField_returns unused_helpers day_field
   \<and> expandDateDimensionField unused_helpers (flattenDateDimensionField unused_helpers (Some day_field))
       = Some (day_field\<lparr>DateDimensionField.DateGranularity := []\<rparr>)
   \<and> NumericalDimensionField_returns unused_helpers number_field
   \<and> expandNumericalDimensionField unused_helpers (flattenNumericalDimensionField unused_helpers (Some number_field))
       = Some (number_field)
   \<and> CalculatedMeasureField_returns unused_helpers ratio_field
   \<and> expandCalculatedMeasureField unused_helpers (flattenCalculatedMeasureField unused_helpers (Some ratio_field))
       = Some (ratio_field)
   \<and> CategoricalMeasureField_returns unused_helpers count_field
   \<and> expandCategoricalMeasureField unused_helpers (flattenCategoricalMeasureField unused_helpers (Some count_field))
       = Some (count_field\<lparr>CategoricalMeasureField.AggregationFunction := []\<rparr>)
   \<and> DateMeasureField_returns unused_helpers latest_field
   \<and> expandDateMeasureField unused_helpers (flattenDateMeasureField unused_helpers (Some latest_field))
       = Some (latest_field\<lparr>DateMeasureField.AggregationFunction := []\<rparr>)
   \<and> NumericalMeasureField_returns unused_helpers sum_field
   \<and> expandNumericalMeasureField unused_helpers (flattenNumericalMeasureField unused_helpers (Some sum_field))
       = Some (sum_field)
   \<and> DimensionField_returns unused_helpers day_dimension
   \<and> expandDimensionField unused_helpers (flattenDimensionField unused_helpers (Some day_dimension))
       = Some (day_dimension\<lparr>DimensionField.DateDimensionField :=
          Some (day_field\<lparr>DateDimensionField.DateGranularity := []\<rparr>)\<rparr>)
   \<and> MeasureField_returns unused_helpers count_measure
   \<and> expandMeasureField unused_helpers (flattenMeasureField unused_helpers (Some count_measure))
       = Some (count_measure\<lparr>MeasureField.CategoricalMeasureField :=
          Some (count_field\<lparr>CategoricalMeasureField.AggregationFunction := []\<rparr>)\<rparr>)
   \<and> expandDimensionFields unused_helpers (flattenDimensionFields unused_helpers [day_dimension])
       = Some [day_dimension\<lparr>DimensionField.DateDimensionField :=
          Some (day_field\<lparr>DateDimensionField.DateGranularity := []\<rparr>)\<rparr>]
   \<and> expandMeasureFields unused_helpers (flattenMeasureFields unused_helpers [count_measure])
       = Some [count_measure\<lparr>MeasureField.CategoricalMeasureField :=
          Some (count_field\<lparr>CategoricalMeasureField.AggregationFunction := []\<rparr>)\<rparr>]"
proof -
  have r: "CategoricalDimensionField_returns unused_helpers category_field"
    "DateDimensionField_returns unused_helpers day_field"
    "NumericalDimensionField_returns unused_helpers number_field"
    "CalculatedMeasureField_returns unused_helpers ratio_field"
    "CategoricalMeasureField_returns unused_helpers count_field"
    "DateMeasureField_returns unused_helpers latest_field"
    "NumericalMeasureField_returns unused_helpers sum_field"
    "DimensionField_returns unused_helpers day_dimension"
    "MeasureField_returns unused_helpers count_measure"
    "list_all (DimensionField_returns unused_helpers) [day_dimension] \<and> [day_dimension] \<noteq> []"
    "list_all (MeasureField_returns unused_helpers) [count_measure] \<and> [count_measure] \<noteq> []"
    by (simp_all add: returns_defs field_defs)
  note t = flatten_then_expand
    [of unused_helpers category_field day_field number_field ratio_field count_field
       latest_field sum_field day_dimension count_measure "[day_dimension]" "[count_measure]"]
  from t r show ?thesis
    by (simp add: returns_defs field_defs)
qed

text \<open>
  A date dimension field with a granularity and a categorical measure field with an
  aggregation function do not come back as they were: the flattened map holds the value
  under its named string type, which the expand function does not read as a string.
\<close>

theorem flatten_then_expand_loses_enum:
  "expandDateDimensionField unused_helpers
       (flattenDateDimensionField unused_helpers (Some day_field)) \<noteq> Some day_field
   \<and> expandCategoricalMeasureField unused_helpers
       (flattenCategoricalMeasureField unused_helpers (Some count_field)) \<noteq> Some count_field"
  by (simp add: expandDateDimensionField_def flattenDateDimensionField_def
      expandCategoricalMeasureField_def flattenCategoricalMeasureField_def
      expandDateDimensionField_fill_eq expandCategoricalMeasureField_fill_eq
      flattenDateDimensionField_map_get flattenCategoricalMeasureField_map_get
      string_attr_simps string_or_empty_def field_defs)

section \<open>Create\<close>

lemma create_steps_quiet:
  assumes "run_steps
     [when_elements_diags v1 e1 a1, when_elements_diags v2 e2 a2, when_set v3 a3] s = Inr s'"
    and "\<not> HasError (snd s)"
  shows "\<not> HasError (snd s')"
proof -
  have "list_all quiet_step
     [when_elements_diags v1 e1 a1, when_elements_diags v2 e2 a2, when_set v3 a3]"
    by (simp add: when_elements_diags_quiet when_set_quiet)
  from run_steps_quiet [OF this assms] show ?thesis .
qed

lemma create_steps_loud:
  assumes "run_steps
     [when_elements_diags v1 e1 a1, when_elements_diags v2 e2 a2, when_set v3 a3] s = Inl d"
  shows "HasError d"
proof -
  have "list_all loud_step
     [when_elements_diags v1 e1 a1, when_elements_diags v2 e2 a2, when_set v3 a3]"
    by (simp add: when_elements_diags_loud when_set_loud)
  from run_steps_loud [OF this assms] show ?thesis .
qed

lemma automation_Create_cases:
  fixes tagsIn conn req resp0
  defines "r \<equiv> automationRuleResource_Create tagsIn conn req resp0"
  shows "(HasError (Diagnostics (fst r)) \<and> State (fst r) = State resp0)
       \<or> (\<not> HasError (Diagnostics (fst r))
           \<and> (\<exists>i out readOut. snd r = [CallCreateAutomationRule i,
                 CallBatchGetAutomationRules \<lparr>BatchGetAutomationRulesInput.AutomationRulesArns =
                   [ValueString (StringToFramework (CreateAutomationRuleOutput.RuleArn out))]\<rparr>]
               \<and> CreateAutomationRule conn i = Inr (Some out)
               \<and> findAutomationRuleByARN conn
                    (ValueString (StringToFramework (CreateAutomationRuleOutput.RuleArn out)))
                  = Inr readOut))"
  unfolding r_def automationRuleResource_Create_def Let_def
  by (auto simp: HasError_append HasError_ErrorDiagnostic AddError_def State_Set_def
        set_Diagnostics_def Append_def
        simp del: run_steps.simps
        dest: create_steps_quiet create_steps_loud
        split: sum.splits option.splits)

lemma opensearch_Create_cases:
  fixes fx conn req resp0
  defines "q \<equiv> resourceAuthorizeVpcEndpointAccess_Create fx conn req resp0"
  shows "(HasError (Diagnostics (fst q)) \<and> State (fst q) = State resp0)
       \<or> (\<not> HasError (Diagnostics (fst q))
           \<and> (\<exists>i out p. snd q = [CallAuthorizeVpcEndpointAccess i]
               \<and> AuthorizeVpcEndpointAccess conn i = Inr (Some out)
               \<and> AuthorizeVpcEndpointAccessOutput.AuthorizedPrincipal out = Some p))"
  unfolding q_def resourceAuthorizeVpcEndpointAccess_Create_def Let_def
  by (auto simp: HasError_append HasError_ErrorDiagnostic AddError_def State_Set_def Append_def
        split: sum.splits option.splits)

text \<open>
  C3. For the automation rule and for the VPC endpoint access resource: when the create
  call that Create issued returned an error, a nil output or (VPC endpoint access) an
  output without an authorized principal, the response holds an error diagnostic and the
  state is the one Create was handed; in every run that ends with an error diagnostic
  the state is unchanged; and the state changes only in a run whose create call
  succeeded and, for the automation rule, whose follow-up read succeeded too.
\<close>

theorem Create_failure_leaves_state:
  fixes tagsIn conn req resp0 fx oconn oreq oresp0
  defines "r \<equiv> automationRuleResource_Create tagsIn conn req resp0"
    and "q \<equiv> resourceAuthorizeVpcEndpointAccess_Create fx oconn oreq oresp0"
  shows
  "(\<forall>i. CallCreateAutomationRule i \<in> set (snd r)
        \<and> ((\<exists>e. CreateAutomationRule conn i = Inl e) \<or> CreateAutomationRule conn i = Inr None)
      \<longrightarrow> HasError (Diagnostics (fst r)) \<and> State (fst r) = State resp0)
   \<and> (HasError (Diagnostics (fst r)) \<longrightarrow> State (fst r) = State resp0)
   \<and> (State (fst r) \<noteq> State resp0 \<longrightarrow>
        (\<exists>i out readOut.
           snd r = [CallCreateAutomationRule i,
             CallBatchGetAutomationRules \<lparr>BatchGetAutomationRulesInput.AutomationRulesArns =
               [ValueString (StringToFramework (CreateAutomationRuleOutput.RuleArn out))]\<rparr>]
           \<and> CreateAutomationRule conn i = Inr (Some out)
           \<and> findAutomationRuleByARN conn
                (ValueString (StringToFramework (CreateAutomationRuleOutput.RuleArn out)))
              = Inr readOut))
   \<and> (\<forall>i. CallAuthorizeVpcEndpointAccess i \<in> set (snd q)
        \<and> ((\<exists>e. AuthorizeVpcEndpointAccess oconn i = Inl e)
           \<or> AuthorizeVpcEndpointAccess oconn i = Inr None
           \<or> (\<exists>out. AuthorizeVpcEndpointAccess oconn i = Inr (Some out)
                \<and> AuthorizeVpcEndpointAccessOutput.AuthorizedPrincipal out = None))
      \<longrightarrow> HasError (Diagnostics (fst q)) \<and> State (fst q) = State oresp0)
   \<and> (HasError (Diagnostics (fst q)) \<longrightarrow> State (fst q) = State oresp0)
   \<and> (State (fst q) \<noteq> State oresp0 \<longrightarrow>
        (\<exists>i out p. snd q = [CallAuthorizeVpcEndpointAccess i]
           \<and> AuthorizeVpcEndpointAccess oconn i = Inr (Some out)
           \<and> AuthorizeVpcEndpointAccessOutput.AuthorizedPrincipal out = Some p))"
proof -
  note a = automation_Create_cases [of tagsIn conn req resp0, folded r_def]
  note b = opensearch_Create_cases [of fx oconn oreq oresp0, folded q_def]
  have 1: "\<forall>i. CallCreateAutomationRule i \<in> set (snd r)
        \<and> ((\<exists>e. CreateAutomationRule conn i = Inl e) \<or> CreateAutomationRule conn i = Inr None)
      \<longrightarrow> HasError (Diagnostics (fst r)) \<and> State (fst r) = State resp0"
    using a by auto
  have 2: "HasError (Diagnostics (fst r)) \<longrightarrow> State (fst r) = State resp0"
    using a by blast
  have 3: "State (fst r) \<noteq> State resp0 \<longrightarrow>
        (\<exists>i out readOut.
           snd r = [CallCreateAutomationRule i,
             CallBatchGetAutomationRules \<lparr>BatchGetAutomationRulesInput.AutomationRulesArns =
               [ValueString (StringToFramework (CreateAutomationRuleOutput.RuleArn out))]\<rparr>]
           \<and> CreateAutomationRule conn i = Inr (Some out)
           \<and> findAutomationRuleByARN conn
                (ValueString (StringToFramework (CreateAutomationRuleOutput.RuleArn out)))
              = Inr readOut)"
    using a by blast
  have 4: "\<forall>i. CallAuthorizeVpcEndpointAccess i \<in> set (snd q)
        \<and> ((\<exists>e. AuthorizeVpcEndpointAccess oconn i = Inl e)
           \<or> AuthorizeVpcEndpointAccess oconn i = Inr None
           \<or> (\<exists>out. AuthorizeVpcEndpointAccess oconn i = Inr (Some out)
                \<and> AuthorizeVpcEndpointAccessOutput.AuthorizedPrincipal out = None))
      \<longrightarrow> HasError (Diagnostics (fst q)) \<and> State (fst q) = State oresp0"
    using b by auto
  have 5: "HasError (Diagnostics (fst q)) \<longrightarrow> State (fst q) = State oresp0"
    using b by blast
  have 6: "State (fst q) \<noteq> State oresp0 \<longrightarrow>
        (\<exists>i out p. snd q = [CallAuthorizeVpcEndpointAccess i]
           \<and> AuthorizeVpcEndpointAccess oconn i = Inr (Some out)
           \<and> AuthorizeVpcEndpointAccessOutput.AuthorizedPrincipal out = Some p)"
    using b by blast
  from 1 2 3 4 5 6 show ?thesis by (intro conjI)
qed

theorem Create_failure_leaves_state_witness:
  "HasError (Diagnostics (fst (automationRuleResource_Create None throttled_client
        ([], example_rule) fresh)))
   \<and> State (fst (automationRuleResource_Create None throttled_client ([], example_rule) fresh))
       = None
   \<and> State (fst (automationRuleResource_Create None gone_client ([], example_rule) fresh)) = None
   \<and> State (fst (automationRuleResource_Create None working_client ([], example_rule) fresh))
       = Some example_rule
   \<and> CreateAutomationRule working_client
        \<lparr>CreateAutomationRuleInput.Actions = None, CreateAutomationRuleInput.Criteria = None,
         CreateAutomationRuleInput.Description = Some ''suppress'',
         CreateAutomationRuleInput.IsTerminal = Some False,
         CreateAutomationRuleInput.RuleName = Some ''rule'',
         CreateAutomationRuleInput.RuleOrder = Some 1,
         CreateAutomationRuleInput.RuleStatus = ''ENABLED'',
         CreateAutomationRuleInput.Tags = None\<rparr>
       = Inr (Some \<lparr>CreateAutomationRuleOutput.RuleArn = Some rule_arn\<rparr>)
   \<and> State (fst (resourceAuthorizeVpcEndpointAccess_Create plain_flex denied_client
        ([], example_access) fresh)) = None
   \<and> HasError (Diagnostics (fst (resourceAuthorizeVpcEndpointAccess_Create plain_flex
        revoked_client ([], example_access) fresh)))
   \<and> (\<exists>data. State (fst (resourceAuthorizeVpcEndpointAccess_Create plain_flex granting_client
        ([], example_access) fresh)) = Some data)
   \<and> AuthorizeVpcEndpointAccess granting_client
        \<lparr>AuthorizeVpcEndpointAccessInput.Account = Some ''123456789012'',
         AuthorizeVpcEndpointAccessInput.DomainName = Some ''logs''\<rparr>
       = Inr (Some \<lparr>AuthorizeVpcEndpointAccessOutput.AuthorizedPrincipal = Some alice\<rparr>)"
proof -
  let ?i = "\<lparr>CreateAutomationRuleInput.Actions = None, CreateAutomationRuleInput.Criteria = None,
         CreateAutomationRuleInput.Description = Some ''suppress'',
         CreateAutomationRuleInput.IsTerminal = Some False,
         CreateAutomationRuleInput.RuleName = Some ''rule'',
         CreateAutomationRuleInput.RuleOrder = Some 1,
         CreateAutomationRuleInput.RuleStatus = ''ENABLED'',
         CreateAutomationRuleInput.Tags = None\<rparr>"
  let ?j = "\<lparr>AuthorizeVpcEndpointAccessInput.Account = Some ''123456789012'',
         AuthorizeVpcEndpointAccessInput.DomainName = Some ''logs''\<rparr>"
  let ?r1 = "automationRuleResource_Create None throttled_client ([], example_rule) fresh"
  let ?r2 = "automationRuleResource_Create None gone_client ([], example_rule) fresh"
  let ?r3 = "automationRuleResource_Create None working_client ([], example_rule) fresh"
  let ?q1 = "resourceAuthorizeVpcEndpointAccess_Create plain_flex denied_client
        ([], example_access) fresh"
  let ?q2 = "resourceAuthorizeVpcEndpointAccess_Create plain_flex revoked_client
        ([], example_access) fresh"
  let ?q3 = "resourceAuthorizeVpcEndpointAccess_Create plain_flex granting_client
        ([], example_access) fresh"
  have c1: "CallCreateAutomationRule ?i \<in> set (snd ?r1)"
    and e1: "\<exists>e. CreateAutomationRule throttled_client ?i = Inl e"
    by (simp_all add: automationRuleResource_Create_def run_defs example_defs)
  have c2: "CallCreateAutomationRule ?i \<in> set (snd ?r2)"
    and e2: "CreateAutomationRule gone_client ?i = Inr None"
    by (simp_all add: automationRuleResource_Create_def run_defs example_defs)
  have d1: "CallAuthorizeVpcEndpointAccess ?j \<in> set (snd ?q1)"
    and f1: "\<exists>out. AuthorizeVpcEndpointAccess denied_client ?j = Inr (Some out)
              \<and> AuthorizeVpcEndpointAccessOutput.AuthorizedPrincipal out = None"
    by (simp_all add: resourceAuthorizeVpcEndpointAccess_Create_def run_defs example_defs)
  have d2: "CallAuthorizeVpcEndpointAccess ?j \<in> set (snd ?q2)"
    and f2: "\<exists>e. AuthorizeVpcEndpointAccess revoked_client ?j = Inl e"
    by (simp_all add: resourceAuthorizeVpcEndpointAccess_Create_def run_defs example_defs)
  note t1 = Create_failure_leaves_state
    [of None throttled_client "([], example_rule)" fresh
       plain_flex denied_client "([], example_access)" fresh]
  note t2 = Create_failure_leaves_state
    [of None gone_client "([], example_rule)" fresh
       plain_flex revoked_client "([], example_access)" fresh]
  from t1 c1 e1 have a1: "HasError (Diagnostics (fst ?r1)) \<and> State (fst ?r1) = State fresh"
    by blast
  from t2 c2 e2 have a2: "State (fst ?r2) = State fresh"
    by blast
  from t1 d1 f1 have b1: "State (fst ?q1) = State fresh"
    by blast
  from t2 d2 f2 have b2: "HasError (Diagnostics (fst ?q2))"
    by blast
  have a3: "State (fst ?r3) = Some example_rule"
    by (simp add: automationRuleResource_Create_def run_defs example_defs)
  have a4: "CreateAutomationRule working_client ?i
      = Inr (Some \<lparr>CreateAutomationRuleOutput.RuleArn = Some rule_arn\<rparr>)"
    by (simp add: example_defs)
  have b3: "\<exists>data. State (fst ?q3) = Some data"
    by (simp add: resourceAuthorizeVpcEndpointAccess_Create_def run_defs example_defs)
  have b4: "AuthorizeVpcEndpointAccess granting_client ?j
      = Inr (Some \<lparr>AuthorizeVpcEndpointAccessOutput.AuthorizedPrincipal = Some alice\<rparr>)"
    by (simp add: example_defs)
  have s: "State (fresh :: automationRuleResourceModel response) = None"
    "State (fresh :: resourceAuthorizeVpcEndpointAccessData response) = None"
    by (simp_all add: fresh_def)
  from a1 a2 a3 a4 b1 b2 b3 b4 s show ?thesis by simp
qed

section \<open>Read\<close>

text \<open>
  C4, as amended. For a Read whose prior state decodes without error: when the lookup
  reports not-found the resource is removed from state and no diagnostic is added; when
  the lookup fails with any other error, one error diagnostic is added and the state is
  unchanged; when the lookup succeeds, the automation rule's fetched object is flattened
  and written to state, and the VPC endpoint access resource's fetched object is
  flattened and written to state unless the flattening reports an error, in which case
  the state is unchanged.
\<close>

theorem Read_reconciles_state:
  fixes conn req resp0 fx oconn oreq oresp0
  defines "r \<equiv> automationRuleResource_Read conn req resp0"
    and "lookup \<equiv> findAutomationRuleByARN conn
                    (ValueString (automationRuleResourceModel.ID (snd req)))"
    and "q \<equiv> resourceAuthorizeVpcEndpointAccess_Read fx oconn oreq oresp0"
    and "olookup \<equiv> findAuthorizeVpcEndpointAccessByName oconn
                    (ValueString (resourceAuthorizeVpcEndpointAccessData.DomainName (snd oreq)))"
  assumes "\<not> HasError (Diagnostics resp0)" and "\<not> HasError (fst req)"
    and "\<not> HasError (Diagnostics oresp0)" and "\<not> HasError (fst oreq)"
  shows
  "(\<forall>e. lookup = Inl e \<and> NotFound (Some e) \<longrightarrow>
        State (fst r) = None \<and> Diagnostics (fst r) = Diagnostics resp0 @ fst req)
   \<and> (\<forall>e. lookup = Inl e \<and> \<not> NotFound (Some e) \<longrightarrow>
        State (fst r) = State resp0
        \<and> Diagnostics (fst r) = Diagnostics resp0 @ fst req
            @ [ErrorDiagnostic SecurityHub ErrActionReading ResNameAutomationRule
                 (automationRuleResourceModel.ID (snd req)) (Some e) (ErrorText e)])
   \<and> (\<forall>out. lookup = Inr out \<longrightarrow>
        State (fst r) = Some ((snd req)
          \<lparr>automationRuleResourceModel.ARN :=
             StringToFramework (AutomationRulesConfig.RuleArn out),
           automationRuleResourceModel.Description :=
             StringToFramework (AutomationRulesConfig.Description out),
           automationRuleResourceModel.ID :=
             StringToFramework (AutomationRulesConfig.RuleArn out),
           automationRuleResourceModel.IsTerminal :=
             BoolToFramework (AutomationRulesConfig.IsTerminal out),
           automationRuleResourceModel.RuleName :=
             StringToFramework (AutomationRulesConfig.RuleName out),
           automationRuleResourceModel.RuleOrder :=
             Int32ToFramework (AutomationRulesConfig.RuleOrder out),
           automationRuleResourceModel.RuleStatus :=
             StringValueToFramework (AutomationRulesConfig.RuleStatus out),
           automationRuleResourceModel.Actions :=
             fst (flattenActions (AutomationRulesConfig.Actions out)),
           automationRuleResourceModel.Criteria :=
             fst (flattenCriteria (AutomationRulesConfig.Criteria out))\<rparr>))
   \<and> (\<forall>e. olookup = Inl e \<and> NotFound (Some e) \<longrightarrow>
        State (fst q) = None \<and> Diagnostics (fst q) = Diagnostics oresp0 @ fst oreq)
   \<and> (\<forall>e. olookup = Inl e \<and> \<not> NotFound (Some e) \<longrightarrow>
        State (fst q) = State oresp0
        \<and> Diagnostics (fst q) = Diagnostics oresp0 @ fst oreq
            @ [ErrorDiagnostic OpenSearch ErrActionSetting ResNameAuthorizeVpcEndpointAccess
                 (resourceAuthorizeVpcEndpointAccessData.DomainName (snd oreq)) (Some e)
                 (ErrorText e)])
   \<and> (\<forall>out. olookup = Inr out \<longrightarrow>
        (if HasError (fst (flex_Flatten_Principal fx out (snd oreq)))
         then State (fst q) = State oresp0 \<and> HasError (Diagnostics (fst q))
         else State (fst q) = Some (snd (flex_Flatten_Principal fx out (snd oreq)))))"
  using assms(5-8)
  unfolding r_def q_def lookup_def olookup_def automationRuleResource_Read_def
    resourceAuthorizeVpcEndpointAccess_Read_def Let_def
  by (simp add: HasError_append AddError_def State_Set_def State_RemoveResource_def Append_def)

theorem Read_reconciles_state_witness:
  "findAutomationRuleByARN gone_client rule_arn
       = Inl (NotFoundError (Some (APIError ''ResourceNotFoundException'' ''gone'')))
   \<and> State (fst (automationRuleResource_Read gone_client ([], example_rule)
        (holding example_rule))) = None
   \<and> Diagnostics (fst (automationRuleResource_Read gone_client ([], example_rule)
        (holding example_rule))) = []
   \<and> findAutomationRuleByARN throttled_client rule_arn
       = Inl (APIError ''LimitExceededException'' ''slow down'')
   \<and> State (fst (automationRuleResource_Read throttled_client ([], example_rule)
        (holding example_rule))) = Some example_rule
   \<and> HasError (Diagnostics (fst (automationRuleResource_Read throttled_client
        ([], example_rule) (holding example_rule))))
   \<and> findAutomationRuleByARN working_client rule_arn = Inr example_config
   \<and> State (fst (automationRuleResource_Read working_client
        ([], example_rule\<lparr>automationRuleResourceModel.Description := Known ''old''\<rparr>)
        (holding example_rule))) = Some example_rule
   \<and> State (fst (resourceAuthorizeVpcEndpointAccess_Read plain_flex revoked_client
        ([], example_access) (holding example_access))) = None
   \<and> State (fst (resourceAuthorizeVpcEndpointAccess_Read plain_flex denied_client
        ([], example_access) (holding example_access))) = Some example_access
   \<and> State (fst (resourceAuthorizeVpcEndpointAccess_Read plain_flex granting_client
        ([], example_access) (holding example_access)))
       = Some (example_access
           \<lparr>resourceAuthorizeVpcEndpointAccessData.AuthorizedPrincipal := Known [alice_data]\<rparr>)
   \<and> HasError (Diagnostics (fst (resourceAuthorizeVpcEndpointAccess_Read failing_flex
        granting_client ([], example_access) (holding example_access))))"
proof -
  let ?stale = "example_rule\<lparr>automationRuleResourceModel.Description := Known ''old''\<rparr>"
  have h: "\<not> HasError (Diagnostics (holding example_rule))"
    "\<not> HasError (fst ([] :: diagnostic list, example_rule))"
    "\<not> HasError (fst ([] :: diagnostic list, ?stale))"
    "\<not> HasError (Diagnostics (holding example_access))"
    "\<not> HasError (fst ([] :: diagnostic list, example_access))"
    by (simp_all add: holding_def HasError_def)
  have id: "ValueString (automationRuleResourceModel.ID (snd ([] :: diagnostic list, example_rule)))
      = rule_arn"
    "ValueString (automationRuleResourceModel.ID (snd ([] :: diagnostic list, ?stale))) = rule_arn"
    "ValueString (resourceAuthorizeVpcEndpointAccessData.DomainName
       (snd ([] :: diagnostic list, example_access))) = ''logs''"
    by (simp_all add: example_rule_def example_access_def)
  have l1: "findAutomationRuleByARN gone_client rule_arn
       = Inl (NotFoundError (Some (APIError ''ResourceNotFoundException'' ''gone'')))"
    and l2: "findAutomationRuleByARN throttled_client rule_arn
       = Inl (APIError ''LimitExceededException'' ''slow down'')"
    and l3: "findAutomationRuleByARN working_client rule_arn = Inr example_config"
    by (simp_all add: run_defs gone_client_def throttled_client_def working_client_def)
  have o1: "findAuthorizeVpcEndpointAccessByName revoked_client ''logs'' = Inl EmptyResultError"
    and o2: "findAuthorizeVpcEndpointAccessByName denied_client ''logs''
       = Inl (APIError ''AccessDeniedException'' ''denied'')"
    and o3: "findAuthorizeVpcEndpointAccessByName granting_client ''logs'' = Inr alice"
    by (simp_all add: run_defs revoked_client_def denied_client_def granting_client_def)
  note t1 = Read_reconciles_state [OF h(1) h(2) h(4) h(5),
      where conn = gone_client and fx = plain_flex and oconn = revoked_client, unfolded id]
  note t2 = Read_reconciles_state [OF h(1) h(2) h(4) h(5),
      where conn = throttled_client and fx = plain_flex and oconn = denied_client, unfolded id]
  note t3 = Read_reconciles_state [OF h(1) h(3) h(4) h(5),
      where conn = working_client and fx = plain_flex and oconn = granting_client, unfolded id]
  note t4 = Read_reconciles_state [OF h(1) h(2) h(4) h(5),
      where conn = working_client and fx = failing_flex and oconn = granting_client, unfolded id]
  have a1: "State (fst (automationRuleResource_Read gone_client ([], example_rule)
        (holding example_rule))) = None
      \<and> Diagnostics (fst (automationRuleResource_Read gone_client ([], example_rule)
        (holding example_rule))) = []"
    using t1 l1 by (simp add: holding_def)
  have a2: "State (fst (automationRuleResource_Read throttled_client ([], example_rule)
        (holding example_rule))) = Some example_rule
      \<and> HasError (Diagnostics (fst (automationRuleResource_Read throttled_client
        ([], example_rule) (holding example_rule))))"
    using t2 l2 by (simp add: holding_def HasError_def)
  have a3: "State (fst (automationRuleResource_Read working_client ([], ?stale)
        (holding example_rule))) = Some example_rule"
    using t3 l3 by (simp add: run_defs example_rule_def example_config_def)
  have b1: "State (fst (resourceAuthorizeVpcEndpointAccess_Read plain_flex revoked_client
        ([], example_access) (holding example_access))) = None"
    using t1 o1 by simp
  have b2: "State (fst (resourceAuthorizeVpcEndpointAccess_Read plain_flex denied_client
        ([], example_access) (holding example_access))) = Some example_access"
    using t2 o2 by (simp add: holding_def)
  have b3: "State (fst (resourceAuthorizeVpcEndpointAccess_Read plain_flex granting_client
        ([], example_access) (holding example_access)))
       = Some (example_access
           \<lparr>resourceAuthorizeVpcEndpointAccessData.AuthorizedPrincipal := Known [alice_data]\<rparr>)"
    using t3 o3 by (simp add: plain_flex_def HasError_def)
  have b4: "HasError (Diagnostics (fst (resourceAuthorizeVpcEndpointAccess_Read failing_flex
        granting_client ([], example_access) (holding example_access))))"
    using t4 o3 by (simp add: failing_flex_def HasError_def)
  from l1 l2 l3 a1 a2 a3 b1 b2 b3 b4 show ?thesis by simp
qed

text \<open>
  A read of the VPC endpoint access resource whose lookup finds the principal, but whose
  flattening reports an error: the flattened object is not written, the prior state
  stays.
\<close>

theorem Read_flatten_error_keeps_state:
  "findAuthorizeVpcEndpointAccessByName granting_client
       (ValueString (resourceAuthorizeVpcEndpointAccessData.DomainName example_access))
     = Inr alice
   \<and> State (fst (resourceAuthorizeVpcEndpointAccess_Read failing_flex granting_client
        ([], example_access) (holding example_access))) = Some example_access
   \<and> snd (flex_Flatten_Principal failing_flex alice example_access) \<noteq> example_access"
  by (simp add: resourceAuthorizeVpcEndpointAccess_Read_def run_defs example_defs)

section \<open>Update\<close>

lemma update_steps_Inl:
  assumes "run_steps
     [when_elements_diags v1 e1 a1, when_elements_diags v2 e2 a2, when_set v3 a3] (obj, d) = Inl x"
    and "\<not> HasError d"
  shows "HasError (fst (ElementsAs v1)) \<or> HasError (snd (e1 (snd (ElementsAs v1))))
       \<or> HasError (fst (ElementsAs v2)) \<or> HasError (snd (e2 (snd (ElementsAs v2))))"
  using assms
  by (auto simp: when_elements_diags_def when_set_def Let_def HasError_append
        split: if_splits sum.splits)

lemma automation_Update_cases:
  fixes conn plan state resp0
  defines "r \<equiv> automationRuleResource_Update conn plan state resp0"
  shows "(HasError (Diagnostics (fst r)) \<and> State (fst r) = State resp0
          \<and> (snd r = [] \<or> (attributes_differ (snd plan) (snd state)
                \<and> (\<exists>i. snd r = [CallBatchUpdateAutomationRules i]))))
       \<or> (\<not> HasError (Diagnostics (fst r)) \<and> State (fst r) = Some (snd plan)
          \<and> (if attributes_differ (snd plan) (snd state)
              then \<exists>i. snd r = [CallBatchUpdateAutomationRules i]
              else snd r = []))"
  unfolding r_def automationRuleResource_Update_def Let_def
  by (auto simp: HasError_append HasError_ErrorDiagnostic AddError_def State_Set_def
        set_Diagnostics_def Append_def
        simp del: run_steps.simps
        dest: create_steps_quiet create_steps_loud
        split: sum.splits option.splits)

lemma automation_Update_issues_call:
  assumes "attributes_differ (snd plan) (snd state)"
    and "\<not> HasError (Diagnostics resp0)" and "\<not> HasError (fst plan)" and "\<not> HasError (fst state)"
    and "\<not> HasError (fst (ElementsAs (automationRuleResourceModel.Actions (snd plan))))"
    and "\<not> HasError (snd (expandActions
            (snd (ElementsAs (automationRuleResourceModel.Actions (snd plan))))))"
    and "\<not> HasError (fst (ElementsAs (automationRuleResourceModel.Criteria (snd plan))))"
    and "\<not> HasError (snd (expandCriteria
            (snd (ElementsAs (automationRuleResourceModel.Criteria (snd plan))))))"
  shows "\<exists>i. snd (automationRuleResource_Update conn plan state resp0)
            = [CallBatchUpdateAutomationRules i]"
  using assms
  unfolding automationRuleResource_Update_def Let_def
  by (auto simp: HasError_append Append_def
        simp del: run_steps.simps
        dest!: update_steps_Inl
        split: sum.splits option.splits)

text \<open>
  C5, as amended. Update issues no call when the seven attributes are all equal; a call
  it issues is a single BatchUpdateAutomationRules call and is issued only when an
  attribute differs; when an attribute differs, plan and state decode without error and
  the planned actions and criteria expand without error, the call is issued; and in
  every run that ends without an error diagnostic the state is the planned value.
\<close>

theorem Update_calls_when_attributes_differ:
  fixes conn plan state resp0
  defines "r \<equiv> automationRuleResource_Update conn plan state resp0"
  shows
  "(\<not> attributes_differ (snd plan) (snd state) \<longrightarrow> snd r = [])
   \<and> (snd r \<noteq> [] \<longrightarrow>
        attributes_differ (snd plan) (snd state)
        \<and> (\<exists>i. snd r = [CallBatchUpdateAutomationRules i]))
   \<and> (attributes_differ (snd plan) (snd state)
        \<and> \<not> HasError (Diagnostics resp0) \<and> \<not> HasError (fst plan) \<and> \<not> HasError (fst state)
        \<and> \<not> HasError (fst (ElementsAs (automationRuleResourceModel.Actions (snd plan))))
        \<and> \<not> HasError (snd (expandActions
              (snd (ElementsAs (automationRuleResourceModel.Actions (snd plan))))))
        \<and> \<not> HasError (fst (ElementsAs (automationRuleResourceModel.Criteria (snd plan))))
        \<and> \<not> HasError (snd (expandCriteria
              (snd (ElementsAs (automationRuleResourceModel.Criteria (snd plan))))))
      \<longrightarrow> (\<exists>i. snd r = [CallBatchUpdateAutomationRules i]))
   \<and> (\<not> HasError (Diagnostics (fst r)) \<longrightarrow> State (fst r) = Some (snd plan))"
proof -
  note c = automation_Update_cases [of conn plan state resp0, folded r_def]
  have 1: "\<not> attributes_differ (snd plan) (snd state) \<longrightarrow> snd r = []"
    using c by auto
  have 2: "snd r \<noteq> [] \<longrightarrow>
        attributes_differ (snd plan) (snd state)
        \<and> (\<exists>i. snd r = [CallBatchUpdateAutomationRules i])"
    using c by (auto split: if_splits)
  have 3: "attributes_differ (snd plan) (snd state)
        \<and> \<not> HasError (Diagnostics resp0) \<and> \<not> HasError (fst plan) \<and> \<not> HasError (fst state)
        \<and> \<not> HasError (fst (ElementsAs (automationRuleResourceModel.Actions (snd plan))))
        \<and> \<not> HasError (snd (expandActions
              (snd (ElementsAs (automationRuleResourceModel.Actions (snd plan))))))
        \<and> \<not> HasError (fst (ElementsAs (automationRuleResourceModel.Criteria (snd plan))))
        \<and> \<not> HasError (snd (expandCriteria
              (snd (ElementsAs (automationRuleResourceModel.Criteria (snd plan))))))
      \<longrightarrow> (\<exists>i. snd r = [CallBatchUpdateAutomationRules i])"
    unfolding r_def using automation_Update_issues_call [of plan state resp0 conn] by blast
  have 4: "\<not> HasError (Diagnostics (fst r)) \<longrightarrow> State (fst r) = Some (snd plan)"
    using c by auto
  from 1 2 3 4 show ?thesis by (intro conjI)
qed

lemmas equal_defs =
  attributes_differ_def Equal_def Set_Equal_with_def List_Equal_with_def

theorem Update_calls_when_attributes_differ_witness:
  "\<not> attributes_differ example_rule example_rule
   \<and> snd (automationRuleResource_Update working_client ([], example_rule) ([], example_rule)
        (holding example_rule)) = []
   \<and> State (fst (automationRuleResource_Update working_client ([], example_rule)
        ([], example_rule) (holding example_rule))) = Some example_rule
   \<and> attributes_differ (example_rule\<lparr>automationRuleResourceModel.Description := Known ''new''\<rparr>)
        example_rule
   \<and> (\<exists>i. snd (automationRuleResource_Update working_client
        ([], example_rule\<lparr>automationRuleResourceModel.Description := Known ''new''\<rparr>)
        ([], example_rule) (holding example_rule)) = [CallBatchUpdateAutomationRules i])
   \<and> State (fst (automationRuleResource_Update working_client
        ([], example_rule\<lparr>automationRuleResourceModel.Description := Known ''new''\<rparr>)
        ([], example_rule) (holding example_rule)))
       = Some (example_rule\<lparr>automationRuleResourceModel.Description := Known ''new''\<rparr>)"
proof -
  let ?new = "example_rule\<lparr>automationRuleResourceModel.Description := Known ''new''\<rparr>"
  let ?r1 = "automationRuleResource_Update working_client ([], example_rule) ([], example_rule)
        (holding example_rule)"
  let ?r2 = "automationRuleResource_Update working_client ([], ?new) ([], example_rule)
        (holding example_rule)"
  note t1 = Update_calls_when_attributes_differ
    [of "([], example_rule)" "([], example_rule)" working_client "holding example_rule"]
  note t2 = Update_calls_when_attributes_differ
    [of "([], ?new)" "([], example_rule)" working_client "holding example_rule"]
  have e: "\<not> attributes_differ example_rule example_rule"
    by (simp add: equal_defs example_rule_def)
  have d: "attributes_differ ?new example_rule"
    by (simp add: equal_defs example_rule_def)
  have h: "\<not> HasError (Diagnostics (holding example_rule))"
    "\<not> HasError []"
    "\<not> HasError (fst (ElementsAs (automationRuleResourceModel.Actions ?new)))"
    "\<not> HasError (snd (expandActions (snd (ElementsAs (automationRuleResourceModel.Actions ?new)))))"
    "\<not> HasError (fst (ElementsAs (automationRuleResourceModel.Criteria ?new)))"
    "\<not> HasError (snd (expandCriteria
        (snd (ElementsAs (automationRuleResourceModel.Criteria ?new)))))"
    by (simp_all add: holding_def run_defs example_rule_def)
  have n1: "\<not> HasError (Diagnostics (fst ?r1))"
    by (simp add: automationRuleResource_Update_def run_defs equal_defs example_defs)
  have n2: "\<not> HasError (Diagnostics (fst ?r2))"
    by (simp add: automationRuleResource_Update_def run_defs equal_defs example_defs)
  from t1 e have a1: "snd ?r1 = []" by simp
  from t1 n1 have a2: "State (fst ?r1) = Some example_rule" by simp
  from t2 d h have a3: "\<exists>i. snd ?r2 = [CallBatchUpdateAutomationRules i]" by simp
  from t2 n2 have a4: "State (fst ?r2) = Some ?new" by simp
  from e d a1 a2 a3 a4 show ?thesis by simp
qed

text \<open>
  A plan whose \<open>actions\<close> set is unknown differs from a state whose \<open>actions\<close> is null, but
  its elements cannot be converted: Update returns before the call.
\<close>

theorem Update_differs_without_call:
  "attributes_differ (example_rule\<lparr>automationRuleResourceModel.Actions := Unknown\<rparr>) example_rule
   \<and> snd (automationRuleResource_Update working_client
        ([], example_rule\<lparr>automationRuleResourceModel.Actions := Unknown\<rparr>)
        ([], example_rule) (holding example_rule)) = []"
  by (simp add: automationRuleResource_Update_def run_defs equal_defs example_defs)

section \<open>Paginated lookup\<close>

lemma pages_all_retrieved:
  "listVPCEndpointAccessPages (map Inr ps) accesses_page out
     = (None, out @ concat (map page_principals ps))"
proof (induction ps arbitrary: out)
  case Nil
  show ?case by simp
next
  case (Cons p ps)
  show ?case
  proof (cases ps)
    case Nil
    then show ?thesis
      by (cases p) (simp_all add: accesses_page_def page_principals_def)
  next
    case (Cons q qs)
    with Cons.IH show ?thesis
      by (cases p) (simp_all add: accesses_page_def page_principals_def)
  qed
qed

lemma pages_failed:
  "\<exists>out'. listVPCEndpointAccessPages (map Inr ps @ Inl e # rest) accesses_page out = (Some e, out')"
proof (induction ps arbitrary: out)
  case Nil
  show ?case by simp
next
  case (Cons p ps)
  then show ?case
    by (cases p) (simp_all add: accesses_page_def)
qed

text \<open>
  C6. \<open>findAuthorizeVpcEndpointAccesses\<close> returns the concatenation, in page order, of the
  \<open>AuthorizedPrincipalList\<close> of every page of the paginated call, a nil page contributing
  nothing; when retrieving a page fails it returns that error and no list; and
  \<open>findAuthorizeVpcEndpointAccess\<close> succeeds only when the accumulated list has exactly
  one element, which it then returns.
\<close>

theorem findAuthorizeVpcEndpointAccesses_pages:
  "(ListVpcEndpointAccess conn input = map Inr ps \<longrightarrow>
      findAuthorizeVpcEndpointAccesses conn input = Inr (concat (map page_principals ps)))
   \<and> (ListVpcEndpointAccess conn input = map Inr ps @ Inl e # rest \<longrightarrow>
      findAuthorizeVpcEndpointAccesses conn input = Inl e)
   \<and> (findAuthorizeVpcEndpointAccess conn input = Inr x \<longrightarrow>
      findAuthorizeVpcEndpointAccesses conn input = Inr [x])
   \<and> (findAuthorizeVpcEndpointAccesses conn input = Inr [x] \<longrightarrow>
      findAuthorizeVpcEndpointAccess conn input = Inr x)"
proof (intro conjI impI)
  assume "ListVpcEndpointAccess conn input = map Inr ps"
  then show "findAuthorizeVpcEndpointAccesses conn input = Inr (concat (map page_principals ps))"
    by (simp add: findAuthorizeVpcEndpointAccesses_def pages_all_retrieved)
next
  assume a: "ListVpcEndpointAccess conn input = map Inr ps @ Inl e # rest"
  obtain out' where
    "listVPCEndpointAccessPages (map Inr ps @ Inl e # rest) accesses_page [] = (Some e, out')"
    using pages_failed by blast
  with a show "findAuthorizeVpcEndpointAccesses conn input = Inl e"
    by (simp add: findAuthorizeVpcEndpointAccesses_def)
next
  assume a: "findAuthorizeVpcEndpointAccess conn input = Inr x"
  show "findAuthorizeVpcEndpointAccesses conn input = Inr [x]"
  proof (cases "findAuthorizeVpcEndpointAccesses conn input")
    case (Inl err)
    with a show ?thesis by (simp add: findAuthorizeVpcEndpointAccess_def)
  next
    case (Inr found)
    with a have "AssertSingleValueResult found = Inr x"
      by (simp add: findAuthorizeVpcEndpointAccess_def)
    then have "found = [x]"
      by (cases found rule: AssertSingleValueResult.cases) simp_all
    with Inr show ?thesis by simp
  qed
next
  assume "findAuthorizeVpcEndpointAccesses conn input = Inr [x]"
  then show "findAuthorizeVpcEndpointAccess conn input = Inr x"
    by (simp add: findAuthorizeVpcEndpointAccess_def)
qed

theorem findAuthorizeVpcEndpointAccesses_pages_witness:
  "ListVpcEndpointAccess two_page_client by_domain
     = map Inr [None, Some \<lparr>AuthorizedPrincipalList = [alice],
                             ListVpcEndpointAccessOutput.NextToken = None\<rparr>]
   \<and> findAuthorizeVpcEndpointAccesses two_page_client by_domain = Inr [alice]
   \<and> findAuthorizeVpcEndpointAccess two_page_client by_domain = Inr alice
   \<and> ListVpcEndpointAccess failing_page_client by_domain
     = map Inr [Some \<lparr>AuthorizedPrincipalList = [alice],
                       ListVpcEndpointAccessOutput.NextToken = Some ''t''\<rparr>]
       @ Inl (APIError ''InternalException'' ''boom'') # [Inr None]
   \<and> findAuthorizeVpcEndpointAccesses failing_page_client by_domain
     = Inl (APIError ''InternalException'' ''boom'')"
proof -
  let ?p1 = "\<lparr>AuthorizedPrincipalList = [alice], ListVpcEndpointAccessOutput.NextToken = None\<rparr>"
  let ?p2 = "\<lparr>AuthorizedPrincipalList = [alice], ListVpcEndpointAccessOutput.NextToken = Some ''t''\<rparr>"
  have h1: "ListVpcEndpointAccess two_page_client by_domain = map Inr [None, Some ?p1]"
    by (simp add: two_page_client_def)
  have h2: "ListVpcEndpointAccess failing_page_client by_domain
      = map Inr [Some ?p2] @ Inl (APIError ''InternalException'' ''boom'') # [Inr None]"
    by (simp add: failing_page_client_def)
  note t1 = findAuthorizeVpcEndpointAccesses_pages
    [of two_page_client by_domain "[None, Some ?p1]" undefined undefined alice]
  note t2 = findAuthorizeVpcEndpointAccesses_pages
    [of failing_page_client by_domain "[Some ?p2]" "APIError ''InternalException'' ''boom''"
      "[Inr None]" alice]
  have a: "findAuthorizeVpcEndpointAccesses two_page_client by_domain = Inr [alice]"
    using t1 h1 by (simp add: page_principals_def)
  have b: "findAuthorizeVpcEndpointAccess two_page_client by_domain = Inr alice"
    using t1 a by simp
  have c: "findAuthorizeVpcEndpointAccesses failing_page_client by_domain
      = Inl (APIError ''InternalException'' ''boom'')"
    using t2 h2 by simp
  show ?thesis using h1 h2 a b c by simp
qed

section \<open>Delete\<close>

text \<open>
  C8. For both resources, a Delete whose prior state decodes without error and whose
  delete or revoke call returns a ResourceNotFoundException adds no diagnostic: the
  response is the one it was handed, so deleting an already deleted object succeeds.
  Any other error of the call adds an error diagnostic.
\<close>

theorem Delete_not_found_is_success:
  assumes "\<not> HasError (Diagnostics resp0)" and "\<not> HasError (fst req)"
    and "\<not> HasError (Diagnostics oresp0)" and "\<not> HasError (fst oreq)"
  shows
  "(BatchDeleteAutomationRules conn
       \<lparr>BatchDeleteAutomationRulesInput.AutomationRulesArns =
          [ValueString (automationRuleResourceModel.ARN (snd req))]\<rparr>
      = Some (APIError ''ResourceNotFoundException'' msg)
    \<longrightarrow> fst (automationRuleResource_Delete conn req resp0) = Append (fst req) resp0
      \<and> \<not> HasError (Diagnostics (fst (automationRuleResource_Delete conn req resp0))))
   \<and> (BatchDeleteAutomationRules conn
       \<lparr>BatchDeleteAutomationRulesInput.AutomationRulesArns =
          [ValueString (automationRuleResourceModel.ARN (snd req))]\<rparr> = Some e
      \<and> \<not> IsA_ResourceNotFoundException (Some e)
    \<longrightarrow> fst (automationRuleResource_Delete conn req resp0)
        = AddError SecurityHub ErrActionDeleting ResNameAutomationRule
            (automationRuleResourceModel.ID (snd req)) (Some e) (ErrorText e) (Append (fst req) resp0)
      \<and> HasError (Diagnostics (fst (automationRuleResource_Delete conn req resp0))))
   \<and> (RevokeVpcEndpointAccess oconn
       \<lparr>RevokeVpcEndpointAccessInput.Account =
          Some (ValueString (resourceAuthorizeVpcEndpointAccessData.Account (snd oreq))),
        RevokeVpcEndpointAccessInput.DomainName =
          Some (ValueString (resourceAuthorizeVpcEndpointAccessData.DomainName (snd oreq)))\<rparr>
      = Some (APIError ''ResourceNotFoundException'' msg)
    \<longrightarrow> fst (resourceAuthorizeVpcEndpointAccess_Delete oconn oreq oresp0)
        = Append (fst oreq) oresp0
      \<and> \<not> HasError (Diagnostics (fst (resourceAuthorizeVpcEndpointAccess_Delete oconn oreq oresp0))))
   \<and> (RevokeVpcEndpointAccess oconn
       \<lparr>RevokeVpcEndpointAccessInput.Account =
          Some (ValueString (resourceAuthorizeVpcEndpointAccessData.Account (snd oreq))),
        RevokeVpcEndpointAccessInput.DomainName =
          Some (ValueString (resourceAuthorizeVpcEndpointAccessData.DomainName (snd oreq)))\<rparr>
      = Some e
      \<and> \<not> IsA_ResourceNotFoundException (Some e)
    \<longrightarrow> fst (resourceAuthorizeVpcEndpointAccess_Delete oconn oreq oresp0)
        = AddError OpenSearch ErrActionDeleting ResNameAuthorizeVpcEndpointAccess
            (resourceAuthorizeVpcEndpointAccessData.DomainName (snd oreq)) (Some e) (ErrorText e)
            (Append (fst oreq) oresp0)
      \<and> HasError (Diagnostics (fst (resourceAuthorizeVpcEndpointAccess_Delete oconn oreq oresp0))))"
proof -
  have a: "\<not> HasError (Diagnostics (Append (fst req) resp0))"
    using assms by (simp add: Append_def HasError_append)
  have b: "\<not> HasError (Diagnostics (Append (fst oreq) oresp0))"
    using assms by (simp add: Append_def HasError_append)
  show ?thesis
    using a b
    by (simp add: automationRuleResource_Delete_def resourceAuthorizeVpcEndpointAccess_Delete_def
        Let_def AddError_def HasError_append HasError_ErrorDiagnostic)
qed

theorem Delete_not_found_is_success_witness:
  "BatchDeleteAutomationRules gone_client
       \<lparr>BatchDeleteAutomationRulesInput.AutomationRulesArns = [rule_arn]\<rparr>
     = Some (APIError ''ResourceNotFoundException'' ''gone'')
   \<and> fst (automationRuleResource_Delete gone_client ([], example_rule) (holding example_rule))
     = holding example_rule
   \<and> HasError (Diagnostics (fst (automationRuleResource_Delete throttled_client
        ([], example_rule) (holding example_rule))))
   \<and> fst (resourceAuthorizeVpcEndpointAccess_Delete revoked_client ([], example_access)
        (holding example_access)) = holding example_access
   \<and> HasError (Diagnostics (fst (resourceAuthorizeVpcEndpointAccess_Delete denied_client
        ([], example_access) (holding example_access))))"
proof -
  have h: "\<not> HasError (Diagnostics (holding example_rule))"
    "\<not> HasError (fst ([] :: diagnostic list, example_rule))"
    "\<not> HasError (Diagnostics (holding example_access))"
    "\<not> HasError (fst ([] :: diagnostic list, example_access))"
    by (simp_all add: holding_def HasError_def)
  note t1 = Delete_not_found_is_success [OF h,
      where conn = gone_client and oconn = revoked_client and msg = "''gone''"
        and e = "APIError ''ResourceNotFoundException'' ''gone''"]
  note t2 = Delete_not_found_is_success [OF h,
      where conn = throttled_client and oconn = denied_client and msg = "''gone''"
        and e = "APIError ''LimitExceededException'' ''slow down''"]
  note t3 = Delete_not_found_is_success [OF h,
      where conn = throttled_client and oconn = denied_client and msg = "''gone''"
        and e = "APIError ''AccessDeniedException'' ''denied''"]
  have g: "BatchDeleteAutomationRules gone_client
       \<lparr>BatchDeleteAutomationRulesInput.AutomationRulesArns = [rule_arn]\<rparr>
     = Some (APIError ''ResourceNotFoundException'' ''gone'')"
    by (simp add: gone_client_def)
  have a1: "fst (automationRuleResource_Delete gone_client ([], example_rule)
      (holding example_rule)) = holding example_rule"
    using t1 by (simp add: gone_client_def example_rule_def Append_def)
  have a2: "HasError (Diagnostics (fst (automationRuleResource_Delete throttled_client
        ([], example_rule) (holding example_rule))))"
    using t2 by (simp add: throttled_client_def run_defs)
  have b1: "fst (resourceAuthorizeVpcEndpointAccess_Delete revoked_client ([], example_access)
        (holding example_access)) = holding example_access"
    using t1 by (simp add: revoked_client_def Append_def)
  have b2: "HasError (Diagnostics (fst (resourceAuthorizeVpcEndpointAccess_Delete denied_client
        ([], example_access) (holding example_access))))"
    using t3 by (simp add: denied_client_def run_defs)
  from g a1 a2 b1 b2 show ?thesis by simp
qed

section \<open>Narrowing to 32 bits\<close>

lemma sint_to_int32: "sint (to_int32 v) = (sint v + 2 ^ 31) mod 2 ^ 32 - 2 ^ 31"
proof -
  have "sint (to_int32 v) = signed_take_bit 31 (uint v)"
    by (simp add: to_int32_def sint_uint unsigned_ucast_eq signed_take_bit_take_bit)
  also have "\<dots> = signed_take_bit 31 (sint v)"
    by (simp add: sint_uint signed_take_bit_signed_take_bit)
  also have "\<dots> = (sint v + 2 ^ 31) mod 2 ^ 32 - 2 ^ 31"
    by (simp add: signed_take_bit_eq_take_bit_shift take_bit_eq_mod)
  finally show ?thesis .
qed

lemma sint_to_int32_in_range:
  "sint (to_int32 v) = sint v \<longleftrightarrow> - (2 ^ 31) \<le> sint v \<and> sint v < 2 ^ 31"
proof -
  let ?x = "sint v + (2 ^ 31 :: int)"
  have b: "0 \<le> ?x mod 2 ^ 32" "?x mod 2 ^ 32 < 2 ^ 32" by simp_all
  have "sint (to_int32 v) = sint v \<longleftrightarrow> ?x mod 2 ^ 32 = ?x"
    unfolding sint_to_int32 by linarith
  also have "\<dots> \<longleftrightarrow> 0 \<le> ?x \<and> ?x < 2 ^ 32"
    using b by (auto simp: mod_pos_pos_trivial)
  also have "\<dots> \<longleftrightarrow> - (2 ^ 31) \<le> sint v \<and> sint v < 2 ^ 31"
    by auto
  finally show ?thesis .
qed

lemma create_steps_keep_RuleOrder:
  assumes "run_steps
     [when_elements_diags v1 e1 (\<lambda>actions i. i\<lparr>CreateAutomationRuleInput.Actions := actions\<rparr>),
      when_elements_diags v2 e2 (\<lambda>criteria i. i\<lparr>CreateAutomationRuleInput.Criteria := criteria\<rparr>),
      when_set v3 (\<lambda>v i. i\<lparr>CreateAutomationRuleInput.RuleStatus := ValueString v\<rparr>)] s = Inr s'"
  shows "CreateAutomationRuleInput.RuleOrder (fst s') = CreateAutomationRuleInput.RuleOrder (fst s)"
proof -
  have "list_all (keeps CreateAutomationRuleInput.RuleOrder)
     [when_elements_diags v1 e1 (\<lambda>actions i. i\<lparr>CreateAutomationRuleInput.Actions := actions\<rparr>),
      when_elements_diags v2 e2 (\<lambda>criteria i. i\<lparr>CreateAutomationRuleInput.Criteria := criteria\<rparr>),
      when_set v3 (\<lambda>v i. i\<lparr>CreateAutomationRuleInput.RuleStatus := ValueString v\<rparr>)]"
    by (simp add: when_elements_diags_keeps when_set_keeps)
  from run_steps_keeps [OF this assms] show ?thesis .
qed

lemma update_steps_keep_RuleOrder:
  assumes "run_steps
     [when_elements_diags v1 e1
        (\<lambda>actions i. i\<lparr>UpdateAutomationRulesRequestItem.Actions := actions\<rparr>),
      when_elements_diags v2 e2
        (\<lambda>criteria i. i\<lparr>UpdateAutomationRulesRequestItem.Criteria := criteria\<rparr>),
      when_set v3
        (\<lambda>v i. i\<lparr>UpdateAutomationRulesRequestItem.RuleStatus := ValueString v\<rparr>)] s = Inr s'"
  shows "UpdateAutomationRulesRequestItem.RuleOrder (fst s')
       = UpdateAutomationRulesRequestItem.RuleOrder (fst s)"
proof -
  have "list_all (keeps UpdateAutomationRulesRequestItem.RuleOrder)
     [when_elements_diags v1 e1
        (\<lambda>actions i. i\<lparr>UpdateAutomationRulesRequestItem.Actions := actions\<rparr>),
      when_elements_diags v2 e2
        (\<lambda>criteria i. i\<lparr>UpdateAutomationRulesRequestItem.Criteria := criteria\<rparr>),
      when_set v3
        (\<lambda>v i. i\<lparr>UpdateAutomationRulesRequestItem.RuleStatus := ValueString v\<rparr>)]"
    by (simp add: when_elements_diags_keeps when_set_keeps)
  from run_steps_keeps [OF this assms] show ?thesis .
qed

lemma Create_RuleOrder:
  "CallCreateAutomationRule i \<in> set (snd (automationRuleResource_Create tagsIn conn req resp0))
   \<Longrightarrow> CreateAutomationRuleInput.RuleOrder i
       = Some (to_int32 (ValueInt64 (automationRuleResourceModel.RuleOrder (snd req))))"
  unfolding automationRuleResource_Create_def Let_def
  by (auto simp del: run_steps.simps dest!: create_steps_keep_RuleOrder
        split: if_splits sum.splits option.splits)

lemma Update_RuleOrder:
  "CallBatchUpdateAutomationRules i
     \<in> set (snd (automationRuleResource_Update conn plan state resp0))
   \<Longrightarrow> map UpdateAutomationRulesRequestItem.RuleOrder (UpdateAutomationRulesRequestItems i)
       = [Some (to_int32 (ValueInt64 (automationRuleResourceModel.RuleOrder (snd plan))))]"
  unfolding automationRuleResource_Update_def Let_def
  by (auto simp del: run_steps.simps dest!: update_steps_keep_RuleOrder
        split: if_splits sum.splits option.splits)

lemma expandDateRange_Value:
  "\<exists>r. expandDateRange (tfObj # rest) = Some r
     \<and> DateRange.Value r =
        (if IsNull (dateRangeData.Value tfObj) then None
         else Some (to_int32 (ValueInt64 (dateRangeData.Value tfObj))))"
  by (simp add: expandDateRange_def apply_steps_def set_when_def DateRange_zero_def)

lemma expandFindingFieldsUpdate_int32:
  assumes "expandFindingFieldsUpdate (tfObj # rest) = (Some a, d)"
  shows "AutomationRulesFindingFieldsUpdate.Confidence a
           = (if IsNull (findingFieldsUpdateData.Confidence tfObj) then None
              else Some (to_int32 (ValueInt64 (findingFieldsUpdateData.Confidence tfObj))))
       \<and> AutomationRulesFindingFieldsUpdate.Criticality a
           = (if IsNull (findingFieldsUpdateData.Criticality tfObj) then None
              else Some (to_int32 (ValueInt64 (findingFieldsUpdateData.Criticality tfObj))))"
proof -
  let ?head =
    "[when_set (findingFieldsUpdateData.Confidence tfObj)
        (\<lambda>v apiObject. apiObject\<lparr>AutomationRulesFindingFieldsUpdate.Confidence :=
           Some (to_int32 (ValueInt64 v))\<rparr>),
      when_set (findingFieldsUpdateData.Criticality tfObj)
        (\<lambda>v apiObject. apiObject\<lparr>AutomationRulesFindingFieldsUpdate.Criticality :=
           Some (to_int32 (ValueInt64 v))\<rparr>)]"
  let ?tail =
    "[when_elements (findingFieldsUpdateData.Note tfObj)
        (\<lambda>tfList apiObject. apiObject\<lparr>AutomationRulesFindingFieldsUpdate.Note :=
           expandNote tfList\<rparr>),
      when_elements (findingFieldsUpdateData.RelatedFindings tfObj)
        (\<lambda>tfList apiObject. apiObject\<lparr>AutomationRulesFindingFieldsUpdate.RelatedFindings :=
           expandRelatedFindings tfList\<rparr>),
      when_elements (findingFieldsUpdateData.Severity tfObj)
        (\<lambda>tfList apiObject. apiObject\<lparr>AutomationRulesFindingFieldsUpdate.Severity :=
           expandSeverity tfList\<rparr>),
      when_set (findingFieldsUpdateData.Types tfObj)
        (\<lambda>v apiObject. apiObject\<lparr>AutomationRulesFindingFieldsUpdate.Types :=
           ExpandFrameworkStringValueList v\<rparr>),
      when_set (findingFieldsUpdateData.UserDefinedFields tfObj)
        (\<lambda>v apiObject. apiObject\<lparr>AutomationRulesFindingFieldsUpdate.UserDefinedFields :=
           ExpandFrameworkStringValueMap v\<rparr>),
      when_set (findingFieldsUpdateData.VerificationState tfObj)
        (\<lambda>v apiObject. apiObject\<lparr>AutomationRulesFindingFieldsUpdate.VerificationState :=
           ValueString v\<rparr>),
      when_elements (findingFieldsUpdateData.Workflow tfObj)
        (\<lambda>tfList apiObject. apiObject\<lparr>AutomationRulesFindingFieldsUpdate.Workflow :=
           expandWorkflow tfList\<rparr>)]"
  from assms obtain s' where s': "run_steps (?head @ ?tail)
      (AutomationRulesFindingFieldsUpdate_zero, []) = Inr s'" and a: "a = fst s'"
    by (auto simp: expandFindingFieldsUpdate_def simp del: run_steps.simps split: sum.splits)
  from s' obtain m where m: "run_steps ?head (AutomationRulesFindingFieldsUpdate_zero, []) = Inr m"
    and t: "run_steps ?tail m = Inr s'"
    unfolding run_steps_append by blast
  have k1: "list_all (keeps AutomationRulesFindingFieldsUpdate.Confidence) ?tail"
    by (simp add: when_elements_keeps when_set_keeps)
  have k2: "list_all (keeps AutomationRulesFindingFieldsUpdate.Criticality) ?tail"
    by (simp add: when_elements_keeps when_set_keeps)
  from m have "AutomationRulesFindingFieldsUpdate.Confidence (fst m)
           = (if IsNull (findingFieldsUpdateData.Confidence tfObj) then None
              else Some (to_int32 (ValueInt64 (findingFieldsUpdateData.Confidence tfObj))))"
    and "AutomationRulesFindingFieldsUpdate.Criticality (fst m)
           = (if IsNull (findingFieldsUpdateData.Criticality tfObj) then None
              else Some (to_int32 (ValueInt64 (findingFieldsUpdateData.Criticality tfObj))))"
    by (auto simp: when_set_def AutomationRulesFindingFieldsUpdate_zero_def split: if_splits)
  with run_steps_keeps [OF k1 t] run_steps_keeps [OF k2 t] a show ?thesis by simp
qed

text \<open>
  C9. The conversion to \<open>int32\<close> reduces a 64-bit value modulo \<open>2 ^ 32\<close> into the range of
  \<open>int32\<close>, so it leaves exactly the values of that range unchanged. Every create request
  and every update request item carries the planned \<open>rule_order\<close> so converted; an
  expanded \<open>finding_fields_update\<close> carries \<open>confidence\<close> and \<open>criticality\<close> so converted
  when they are not null, and an expanded \<open>date_range\<close> its \<open>value\<close>. No check stands
  between the configured value and the request.
\<close>

theorem int32_narrowing_wraps:
  "sint (to_int32 v) = (sint v + 2 ^ 31) mod 2 ^ 32 - 2 ^ 31
   \<and> (sint (to_int32 v) = sint v) = (- (2 ^ 31) \<le> sint v \<and> sint v < 2 ^ 31)
   \<and> (\<forall>i. CallCreateAutomationRule i
          \<in> set (snd (automationRuleResource_Create tagsIn conn req resp))
        \<longrightarrow> CreateAutomationRuleInput.RuleOrder i
            = Some (to_int32 (ValueInt64 (automationRuleResourceModel.RuleOrder (snd req)))))
   \<and> (\<forall>i. CallBatchUpdateAutomationRules i
          \<in> set (snd (automationRuleResource_Update conn plan state resp))
        \<longrightarrow> map UpdateAutomationRulesRequestItem.RuleOrder (UpdateAutomationRulesRequestItems i)
            = [Some (to_int32 (ValueInt64 (automationRuleResourceModel.RuleOrder (snd plan))))])
   \<and> (\<forall>a d. expandFindingFieldsUpdate (tfObj # rest) = (Some a, d) \<longrightarrow>
          AutomationRulesFindingFieldsUpdate.Confidence a
            = (if IsNull (findingFieldsUpdateData.Confidence tfObj) then None
               else Some (to_int32 (ValueInt64 (findingFieldsUpdateData.Confidence tfObj))))
          \<and> AutomationRulesFindingFieldsUpdate.Criticality a
            = (if IsNull (findingFieldsUpdateData.Criticality tfObj) then None
               else Some (to_int32 (ValueInt64 (findingFieldsUpdateData.Criticality tfObj)))))
   \<and> (\<exists>r. expandDateRange (dateRange # ranges) = Some r
          \<and> DateRange.Value r =
             (if IsNull (dateRangeData.Value dateRange) then None
              else Some (to_int32 (ValueInt64 (dateRangeData.Value dateRange)))))"
  using sint_to_int32 [of v] sint_to_int32_in_range [of v]
    Create_RuleOrder [of _ tagsIn conn req resp] Update_RuleOrder [of _ conn plan state resp]
    expandFindingFieldsUpdate_int32 [of tfObj rest] expandDateRange_Value [of dateRange ranges]
  by (intro conjI allI impI) blast+

theorem int32_narrowing_wraps_witness:
  "sint (to_int32 4294967303) = 7
   \<and> sint (to_int32 2147483648) = - 2147483648
   \<and> CallCreateAutomationRule
        \<lparr>CreateAutomationRuleInput.Actions = None, CreateAutomationRuleInput.Criteria = None,
         CreateAutomationRuleInput.Description = Some ''suppress'',
         CreateAutomationRuleInput.IsTerminal = Some False,
         CreateAutomationRuleInput.RuleName = Some ''rule'',
         CreateAutomationRuleInput.RuleOrder = Some 7,
         CreateAutomationRuleInput.RuleStatus = ''ENABLED'',
         CreateAutomationRuleInput.Tags = None\<rparr>
       \<in> set (snd (automationRuleResource_Create None working_client ([], wide_rule) (holding example_rule)))
   \<and> Diagnostics (fst (automationRuleResource_Create None working_client ([], wide_rule) (holding example_rule)))
       = []
   \<and> (\<exists>i. snd (automationRuleResource_Update working_client ([], wide_rule) ([], example_rule)
          (holding example_rule)) = [CallBatchUpdateAutomationRules i]
        \<and> map UpdateAutomationRulesRequestItem.RuleOrder (UpdateAutomationRulesRequestItems i)
            = [Some 7])
   \<and> (\<exists>a. expandFindingFieldsUpdate [wide_update] = (Some a, [])
        \<and> AutomationRulesFindingFieldsUpdate.Confidence a = Some 150
        \<and> AutomationRulesFindingFieldsUpdate.Criticality a = None)
   \<and> (\<exists>r. expandDateRange [wide_range] = Some r \<and> DateRange.Value r = Some (- 2147483648))"
proof -
  let ?c = "automationRuleResource_Create None working_client ([], wide_rule)
    (holding example_rule)"
  let ?u = "automationRuleResource_Update working_client ([], wide_rule) ([], example_rule)
          (holding example_rule)"
  note t1 = int32_narrowing_wraps
    [where v = 4294967303 and tagsIn = None and conn = working_client and req = "([], wide_rule)"
       and resp = "holding example_rule" and plan = "([], wide_rule)"
       and state = "([], example_rule)" and tfObj = wide_update and rest = "[]"
       and dateRange = wide_range and ranges = "[]"]
  note t2 = int32_narrowing_wraps
    [where v = 2147483648 and tagsIn = None and conn = working_client and req = "([], wide_rule)"
       and resp = "holding example_rule" and plan = "([], wide_rule)"
       and state = "([], example_rule)" and tfObj = wide_update and rest = "[]"
       and dateRange = wide_range and ranges = "[]"]
  have w: "to_int32 4294967303 = 7" "to_int32 4294967446 = 150"
    "to_int32 2147483648 = - 2147483648"
    by (simp_all add: to_int32_def)
  have a1: "sint (to_int32 4294967303) = 7"
    using t1 by simp
  have a2: "sint (to_int32 2147483648) = - 2147483648"
    using t2 by simp
  obtain i where i: "snd ?c = [CallCreateAutomationRule i,
      CallBatchGetAutomationRules \<lparr>BatchGetAutomationRulesInput.AutomationRulesArns = [rule_arn]\<rparr>]"
    and i': "i = \<lparr>CreateAutomationRuleInput.Actions = None,
         CreateAutomationRuleInput.Criteria = None,
         CreateAutomationRuleInput.Description = Some ''suppress'',
         CreateAutomationRuleInput.IsTerminal = Some False,
         CreateAutomationRuleInput.RuleName = Some ''rule'',
         CreateAutomationRuleInput.RuleOrder = CreateAutomationRuleInput.RuleOrder i,
         CreateAutomationRuleInput.RuleStatus = ''ENABLED'',
         CreateAutomationRuleInput.Tags = None\<rparr>"
    by (simp add: automationRuleResource_Create_def run_defs example_defs wide_rule_def)
  from t1 i have "CreateAutomationRuleInput.RuleOrder i = Some 7"
    by (simp add: wide_rule_def w)
  with i i' have a3: "CallCreateAutomationRule
        \<lparr>CreateAutomationRuleInput.Actions = None, CreateAutomationRuleInput.Criteria = None,
         CreateAutomationRuleInput.Description = Some ''suppress'',
         CreateAutomationRuleInput.IsTerminal = Some False,
         CreateAutomationRuleInput.RuleName = Some ''rule'',
         CreateAutomationRuleInput.RuleOrder = Some 7,
         CreateAutomationRuleInput.RuleStatus = ''ENABLED'',
         CreateAutomationRuleInput.Tags = None\<rparr> \<in> set (snd ?c)"
    by simp
  have a4: "Diagnostics (fst ?c) = []"
    by (simp add: automationRuleResource_Create_def run_defs example_defs wide_rule_def)
  obtain j where j: "snd ?u = [CallBatchUpdateAutomationRules j]"
    by (simp add: automationRuleResource_Update_def run_defs equal_defs example_defs wide_rule_def)
  with t1 have a5: "map UpdateAutomationRulesRequestItem.RuleOrder
      (UpdateAutomationRulesRequestItems j) = [Some 7]"
    by (simp add: wide_rule_def w)
  obtain a where a: "expandFindingFieldsUpdate [wide_update] = (Some a, [])"
    by (simp add: expandFindingFieldsUpdate_def run_defs wide_update_def)
  with t1 have a6: "AutomationRulesFindingFieldsUpdate.Confidence a = Some 150
      \<and> AutomationRulesFindingFieldsUpdate.Criticality a = None"
    by (simp add: wide_update_def w)
  from t1 have a7: "\<exists>r. expandDateRange [wide_range] = Some r
      \<and> DateRange.Value r = Some (- 2147483648)"
    by (simp add: wide_range_def w)
  have a5': "\<exists>i. snd ?u = [CallBatchUpdateAutomationRules i]
        \<and> map UpdateAutomationRulesRequestItem.RuleOrder (UpdateAutomationRulesRequestItems i)
            = [Some 7]"
    by (intro exI [of _ j] conjI) (rule j, rule a5)
  have a6': "\<exists>a. expandFindingFieldsUpdate [wide_update] = (Some a, [])
        \<and> AutomationRulesFindingFieldsUpdate.Confidence a = Some 150
        \<and> AutomationRulesFindingFieldsUpdate.Criticality a = None"
    by (intro exI [of _ a] conjI) (rule a, rule conjunct1 [OF a6], rule conjunct2 [OF a6])
  from a1 a2 a3 a4 a5' a6' a7 show ?thesis by (intro conjI)
qed


end
